theory Spec2Isabelle
  imports Complex_Main "HOL-Library.Word"
begin

unbundle bit_operations_syntax

section \<open>Exceptions\<close>

text \<open>
  Every failure of the two source files is a thrown \<^verbatim>\<open>CasadiException\<close>. The embedding
  keeps one constructor per kind of throw site, so that a result tells what the
  exception carries:
  \<^item> \<open>UnknownOption name\<close>: \<^verbatim>\<open>"Unknown option: " << name\<close> (setOption);
  \<^item> \<open>OptionNotSet name\<close>: \<^verbatim>\<open>"Option: " << name << " has not been set."\<close> (getOption);
  \<^item> \<open>NoSuchOption\<close>: the fixed text thrown by hasSetOption;
  \<^item> \<open>AssertionMessage msg\<close>: \<^verbatim>\<open>casadi_assert_message(cond, msg)\<close> with a fixed text;
  \<^item> \<open>InconsistentDimensions port expected got\<close>: the two \<^verbatim>\<open>casadi_assert_message\<close>
    of init whose text streams two shapes;
  \<^item> \<open>AssertionFailed cond\<close>: \<^verbatim>\<open>casadi_assert(cond)\<close>, which names the condition only;
  \<^item> \<open>TypeMismatch\<close>: an option value converted to a type it does not hold;
  \<^item> \<open>NullPointer\<close>: a member called on a null handle;
  \<^item> \<open>OutOfRange\<close>: an iterator dereferenced or advanced past the end of its vector
    (undefined behaviour in the source, an error in the embedding).
\<close>

datatype error =
    UnknownOption string
  | OptionNotSet string
  | NoSuchOption
  | AssertionMessage string
  | InconsistentDimensions string "nat \<times> nat" "nat \<times> nat"
  | AssertionFailed string
  | TypeMismatch
  | NullPointer
  | OutOfRange

type_synonym 'a result = "error + 'a"

definition bind :: "'a result \<Rightarrow> ('a \<Rightarrow> 'b result) \<Rightarrow> 'b result" where
  "bind m k = (case m of Inl e \<Rightarrow> Inl e | Inr v \<Rightarrow> k v)"

definition casadi_assert :: "bool \<Rightarrow> string \<Rightarrow> unit result" where
  "casadi_assert c txt = (if c then Inr () else Inl (AssertionFailed txt))"

definition casadi_assert_message :: "bool \<Rightarrow> error \<Rightarrow> unit result" where
  "casadi_assert_message c e = (if c then Inr () else Inl e)"

subsection \<open>Sequencing\<close>

lemma bind_Inr [simp]: "bind (Inr v) k = k v"
  by (simp add: bind_def)

lemma bind_Inl [simp]: "bind (Inl e) k = Inl e"
  by (simp add: bind_def)

lemma bind_eq_Inr: "bind m k = Inr v \<longleftrightarrow> (\<exists>u. m = Inr u \<and> k u = Inr v)"
  by (cases m) simp_all

lemma casadi_assert_True [simp]: "c \<Longrightarrow> casadi_assert c t = Inr ()"
  by (simp add: casadi_assert_def)

lemma casadi_assert_False [simp]: "\<not> c \<Longrightarrow> casadi_assert c t = Inl (AssertionFailed t)"
  by (simp add: casadi_assert_def)

lemma casadi_assert_Inr: "casadi_assert c t = Inr u \<longleftrightarrow> c"
  by (simp add: casadi_assert_def)

lemma casadi_assert_message_True [simp]: "c \<Longrightarrow> casadi_assert_message c e = Inr ()"
  by (simp add: casadi_assert_message_def)

lemma casadi_assert_message_False [simp]: "\<not> c \<Longrightarrow> casadi_assert_message c e = Inl e"
  by (simp add: casadi_assert_message_def)

lemma casadi_assert_message_Inr: "casadi_assert_message c e = Inr u \<longleftrightarrow> c"
  by (simp add: casadi_assert_message_def)

section \<open>The options registry (options_functionality.cpp)\<close>

text \<open>
  An option value (\<^verbatim>\<open>Option\<close> in options_functionality.cpp, \<^verbatim>\<open>GenericType\<close> in the
  integrator) is a tagged union; \<open>GT_Null\<close> is the default-constructed value, for which
  \<^verbatim>\<open>isNull()\<close> holds. A \<^verbatim>\<open>double\<close> is modelled by the real it denotes.
\<close>

datatype opt_type =
  OT_BOOLEAN | OT_INTEGER | OT_REAL | OT_STRING | OT_INTEGERVECTOR | OT_REALVECTOR | OT_DICTIONARY

datatype GenericType =
    GT_Null
  | GT_Bool bool
  | GT_Int int
  | GT_Real real
  | GT_String string
  | GT_Dict "(string \<times> GenericType) list"

text \<open>
  \<^verbatim>\<open>OptionsFunctionalityNode\<close> holds two \<^verbatim>\<open>std::map\<close>s keyed by the option name.
\<close>

record OptionsFunctionalityNode =
  allowed_options :: "string \<rightharpoonup> opt_type"
  options :: "string \<rightharpoonup> GenericType"

text \<open>
  A member function that mutates the object returns the exception it threw, if any,
  together with the object as the call leaves it.
\<close>

definition setOption ::
  "string \<Rightarrow> GenericType \<Rightarrow> 'a OptionsFunctionalityNode_scheme
     \<Rightarrow> error option \<times> 'a OptionsFunctionalityNode_scheme" where
  "setOption name op node =
     (case allowed_options node name of
        None \<Rightarrow> (Some (UnknownOption name), node)
      | Some t \<Rightarrow> (None, node\<lparr>options := (options node)(name \<mapsto> op)\<rparr>))"

definition getOption :: "string \<Rightarrow> 'a OptionsFunctionalityNode_scheme \<Rightarrow> GenericType result" where
  "getOption name node =
     (case options node name of
        None \<Rightarrow> Inl (OptionNotSet name)
      | Some v \<Rightarrow> Inr v)"

definition addOption ::
  "string \<Rightarrow> opt_type \<Rightarrow> GenericType \<Rightarrow> 'a OptionsFunctionalityNode_scheme
     \<Rightarrow> 'a OptionsFunctionalityNode_scheme" where
  "addOption name type def_val node =
     (let node1 = node\<lparr>allowed_options := (allowed_options node)(name \<mapsto> type)\<rparr>
      in if def_val \<noteq> GT_Null
         then node1\<lparr>options := (options node1)(name \<mapsto> def_val)\<rparr>
         else node1)"

definition hasOption :: "string \<Rightarrow> 'a OptionsFunctionalityNode_scheme \<Rightarrow> bool" where
  "hasOption str node = (allowed_options node str \<noteq> None)"


text \<open>The constructor of \<^verbatim>\<open>OptionsFunctionalityNode\<close>: both maps empty, then one addOption.\<close>

definition OptionsFunctionalityNode_ctor :: OptionsFunctionalityNode where
  "OptionsFunctionalityNode_ctor =
     addOption ''name'' OT_STRING (GT_String ''unnamed_shared_object'')
       \<lparr>allowed_options = Map.empty, options = Map.empty\<rparr>"

subsection \<open>Properties of the registry\<close>

lemma setOption_unknown:
  "allowed_options node name = None \<Longrightarrow> setOption name op node = (Some (UnknownOption name), node)"
  by (simp add: setOption_def)

lemma setOption_known:
  "allowed_options node name = Some t \<Longrightarrow>
     setOption name op node = (None, node\<lparr>options := (options node)(name \<mapsto> op)\<rparr>)"
  by (simp add: setOption_def)

lemma getOption_unset: "options node name = None \<Longrightarrow> getOption name node = Inl (OptionNotSet name)"
  by (simp add: getOption_def)

lemma getOption_set: "options node name = Some v \<Longrightarrow> getOption name node = Inr v"
  by (simp add: getOption_def)

text \<open>
  Claim C10. setOption throws exactly when the name is not an allowed option, and then
  leaves the object as it was; for an allowed name it stores the value, and getOption
  right after returns that value; getOption on a name that holds no value (an allowed
  option registered with a null default and never set) throws.
\<close>

theorem setOption_getOption_contract:
  fixes node :: "'a OptionsFunctionalityNode_scheme"
  shows "(fst (setOption name op node) \<noteq> None \<longleftrightarrow> allowed_options node name = None)
       \<and> (allowed_options node name = None \<longrightarrow>
            setOption name op node = (Some (UnknownOption name), node))
       \<and> (allowed_options node name \<noteq> None \<longrightarrow>
            fst (setOption name op node) = None
          \<and> options (snd (setOption name op node)) = (options node)(name \<mapsto> op)
          \<and> allowed_options (snd (setOption name op node)) = allowed_options node
          \<and> getOption name (snd (setOption name op node)) = Inr op)
       \<and> (allowed_options node name \<noteq> None \<and> options node name = None \<longrightarrow>
            getOption name node = Inl (OptionNotSet name))"
proof (cases "allowed_options node name")
  case None
  then show ?thesis
    by (simp add: setOption_unknown)
next
  case (Some t)
  have "getOption name (node\<lparr>options := (options node)(name \<mapsto> op)\<rparr>) = Inr op"
    by (rule getOption_set) simp
  with Some show ?thesis
    by (simp add: setOption_known getOption_unset)
qed

theorem setOption_getOption_contract_witness:
  "allowed_options OptionsFunctionalityNode_ctor ''bogus'' = None
   \<and> setOption ''bogus'' (GT_Int 1) OptionsFunctionalityNode_ctor
       = (Some (UnknownOption ''bogus''), OptionsFunctionalityNode_ctor)
   \<and> allowed_options OptionsFunctionalityNode_ctor ''name'' \<noteq> None
   \<and> getOption ''name'' (snd (setOption ''name'' (GT_String ''f'') OptionsFunctionalityNode_ctor))
       = Inr (GT_String ''f'')
   \<and> allowed_options (addOption ''augmented_options'' OT_DICTIONARY GT_Null
        OptionsFunctionalityNode_ctor) ''augmented_options'' \<noteq> None
   \<and> options (addOption ''augmented_options'' OT_DICTIONARY GT_Null
        OptionsFunctionalityNode_ctor) ''augmented_options'' = None
   \<and> getOption ''augmented_options''
        (addOption ''augmented_options'' OT_DICTIONARY GT_Null OptionsFunctionalityNode_ctor)
       = Inl (OptionNotSet ''augmented_options'')"
proof -
  have a: "allowed_options OptionsFunctionalityNode_ctor ''bogus'' = None"
    by (simp add: OptionsFunctionalityNode_ctor_def addOption_def)
  have b: "allowed_options OptionsFunctionalityNode_ctor ''name'' \<noteq> None"
    by (simp add: OptionsFunctionalityNode_ctor_def addOption_def)
  have c: "allowed_options (addOption ''augmented_options'' OT_DICTIONARY GT_Null
        OptionsFunctionalityNode_ctor) ''augmented_options'' \<noteq> None"
    by (simp add: OptionsFunctionalityNode_ctor_def addOption_def)
  have d: "options (addOption ''augmented_options'' OT_DICTIONARY GT_Null
        OptionsFunctionalityNode_ctor) ''augmented_options'' = None"
    by (simp add: OptionsFunctionalityNode_ctor_def addOption_def)
  show ?thesis
    using a b c d
      setOption_getOption_contract [of "''bogus''" "GT_Int 1" OptionsFunctionalityNode_ctor]
      setOption_getOption_contract [of "''name''" "GT_String ''f''" OptionsFunctionalityNode_ctor]
      setOption_getOption_contract [of "''augmented_options''" GT_Null
        "addOption ''augmented_options'' OT_DICTIONARY GT_Null OptionsFunctionalityNode_ctor"]
    by blast
qed

section \<open>Data of the integrator (integrator_internal.cpp)\<close>

subsection \<open>Sparsity patterns and matrices\<close>

text \<open>
  Modelled from the spec: the class \<^verbatim>\<open>CRSSparsity\<close> is declared outside the two source
  files; spec section 3 describes a sparsity pattern as a boolean structural matrix.
  The embedding keeps what the integrator reads of it: the number of rows
  (\<^verbatim>\<open>size1()\<close>), the number of columns (\<^verbatim>\<open>size2()\<close>) and the positions of the structural
  nonzeros, whose count is \<^verbatim>\<open>size()\<close>. Equality of records is \<^verbatim>\<open>operator==\<close>.
\<close>

record CRSSparsity =
  size1 :: nat
  size2 :: nat
  nonzeros :: "(nat \<times> nat) list"

definition sp_size :: "CRSSparsity \<Rightarrow> nat" where
  "sp_size sp = length (nonzeros sp)"

definition shape :: "CRSSparsity \<Rightarrow> nat \<times> nat" where
  "shape sp = (size1 sp, size2 sp)"

definition sp_dense :: "nat \<Rightarrow> nat \<Rightarrow> CRSSparsity" where
  "sp_dense n m = \<lparr>size1 = n, size2 = m, nonzeros = List.product [0..<n] [0..<m]\<rparr>"

definition dense :: "CRSSparsity \<Rightarrow> bool" where
  "dense sp = (sp_size sp = size1 sp * size2 sp)"

text \<open>
  A \<^verbatim>\<open>DMatrix\<close> is a pattern with one 64-bit entry per structural nonzero. The
  structural propagator reads the entries as \<^verbatim>\<open>bvec_t\<close> (\<^verbatim>\<open>unsigned long long\<close>), so
  an entry is kept as its 64 bits.
\<close>

type_synonym bvec_t = "64 word"

record DMatrix =
  sparsity :: CRSSparsity
  data :: "bvec_t list"

definition dm_size :: "DMatrix \<Rightarrow> nat" where
  "dm_size m = sp_size (sparsity m)"

definition zeros :: "CRSSparsity \<Rightarrow> DMatrix" where
  "zeros sp = \<lparr>sparsity = sp, data = replicate (sp_size sp) 0\<rparr>"

definition DMatrix_empty :: DMatrix where
  "DMatrix_empty = zeros (sp_dense 0 0)"

lemma sp_dense_simps [simp]:
  "size1 (sp_dense n m) = n"
  "size2 (sp_dense n m) = m"
  "sp_size (sp_dense n m) = n * m"
  "shape (sp_dense n m) = (n, m)"
  by (simp_all add: sp_dense_def sp_size_def shape_def)

lemma sp_dense_eq [simp]: "sp_dense a b = sp_dense c d \<longleftrightarrow> a = c \<and> b = d"
  by (auto simp: sp_dense_def)

lemma zeros_simps [simp]:
  "sparsity (zeros sp) = sp"
  "data (zeros sp) = replicate (sp_size sp) 0"
  by (simp_all add: zeros_def)

text \<open>
  Modelled from the spec: the operations on patterns that \<^verbatim>\<open>spJacF\<close> and \<^verbatim>\<open>spJacG\<close> call
  are declared outside the two source files. Spec section 4.5 has them "union with the
  identity pattern" and "augment by block-concatenating" the blocks into "the square
  coefficient pattern". \<^verbatim>\<open>sp_diag(n)\<close> is the identity pattern of \<open>n\<close> rows,
  \<^verbatim>\<open>patternUnion\<close> holds the positions of either of two patterns of one shape,
  \<^verbatim>\<open>horzcat\<close> sets two patterns with the same rows side by side and \<^verbatim>\<open>append\<close> sets a
  pattern with the same columns below another. Positions are kept row by row. On
  patterns whose shapes do not fit, the operations throw.
\<close>

definition sp_diag :: "nat \<Rightarrow> CRSSparsity" where
  "sp_diag n = \<lparr>size1 = n, size2 = n, nonzeros = map (\<lambda>i. (i, i)) [0..<n]\<rparr>"

definition patternUnion :: "CRSSparsity \<Rightarrow> CRSSparsity \<Rightarrow> CRSSparsity result" where
  "patternUnion a b =
     bind (casadi_assert_message (shape a = shape b) (AssertionMessage ''Dimension mismatch''))
       (\<lambda>_.
     Inr \<lparr>size1 = size1 a, size2 = size2 a,
          nonzeros = filter (\<lambda>e. e \<in> set (nonzeros a) \<or> e \<in> set (nonzeros b))
                       (List.product [0..<size1 a] [0..<size2 a])\<rparr>)"

definition horzcat :: "CRSSparsity \<Rightarrow> CRSSparsity \<Rightarrow> CRSSparsity result" where
  "horzcat a b =
     bind (casadi_assert_message (size1 a = size1 b) (AssertionMessage ''Dimension mismatch''))
       (\<lambda>_.
     Inr \<lparr>size1 = size1 a, size2 = size2 a + size2 b,
          nonzeros = filter (\<lambda>(i, j). j < size2 a \<and> (i, j) \<in> set (nonzeros a)
                                      \<or> size2 a \<le> j \<and> (i, j - size2 a) \<in> set (nonzeros b))
                       (List.product [0..<size1 a] [0..<size2 a + size2 b])\<rparr>)"

definition append_sp :: "CRSSparsity \<Rightarrow> CRSSparsity \<Rightarrow> CRSSparsity result" where
  "append_sp a b =
     bind (casadi_assert_message (size2 a = size2 b) (AssertionMessage ''Dimension mismatch''))
       (\<lambda>_.
     Inr \<lparr>size1 = size1 a + size1 b, size2 = size2 a,
          nonzeros = nonzeros a @ map (\<lambda>(i, j). (i + size1 a, j)) (nonzeros b)\<rparr>)"

lemma patternUnion_dense_diag: "patternUnion (sp_dense n n) (sp_diag n) = Inr (sp_dense n n)"
proof -
  have f: "filter (\<lambda>e. e \<in> set (nonzeros (sp_dense n n)) \<or> e \<in> set (nonzeros (sp_diag n)))
          (List.product [0..<n] [0..<n]) = List.product [0..<n] [0..<n]"
    by (rule filter_True) (simp add: sp_dense_def)
  have s: "shape (sp_diag n) = (n, n)"
    by (simp add: sp_diag_def shape_def)
  have "patternUnion (sp_dense n n) (sp_diag n)
      = Inr \<lparr>size1 = n, size2 = n, nonzeros = List.product [0..<n] [0..<n]\<rparr>"
    by (simp add: patternUnion_def casadi_assert_message_def f s)
  then show ?thesis by (simp add: sp_dense_def)
qed

lemma horzcat_dense: "horzcat (sp_dense r a) (sp_dense r b) = Inr (sp_dense r (a + b))"
proof -
  have f: "filter (\<lambda>(i, j). j < a \<and> (i, j) \<in> set (nonzeros (sp_dense r a))
                         \<or> a \<le> j \<and> (i, j - a) \<in> set (nonzeros (sp_dense r b)))
          (List.product [0..<r] [0..<a + b]) = List.product [0..<r] [0..<a + b]"
    by (rule filter_True) (auto simp: sp_dense_def)
  have "horzcat (sp_dense r a) (sp_dense r b)
      = Inr \<lparr>size1 = r, size2 = a + b, nonzeros = List.product [0..<r] [0..<a + b]\<rparr>"
    by (simp add: horzcat_def casadi_assert_message_def f)
  then show ?thesis by (simp add: sp_dense_def)
qed

lemma product_shift:
  "map (\<lambda>(i, j). (i + r, j)) (List.product [0..<s] cs) = List.product [r..<r + s] cs"
proof (induction s)
  case 0
  show ?case by simp
next
  case (Suc s)
  have "List.product ([0..<s] @ [s]) cs = List.product [0..<s] cs @ List.product [s] cs"
    by (induction "[0..<s]" arbitrary: s) (simp_all add: List.product_concat_map)
  then show ?case using Suc
    by (simp add: List.product_concat_map add.commute)
qed

lemma append_sp_dense: "append_sp (sp_dense r c) (sp_dense s c) = Inr (sp_dense (r + s) c)"
proof -
  have "[0..<r + s] = [0..<r] @ [r..<r + s]"
    by (metis le_add1 upt_add_eq_append zero_le)
  then have "List.product [0..<r + s] [0..<c]
      = List.product [0..<r] [0..<c] @ List.product [r..<r + s] [0..<c]"
    by (simp add: List.product_concat_map)
  then show ?thesis
    by (simp add: append_sp_def casadi_assert_message_def sp_dense_def product_shift)
qed

subsection \<open>Input and output schemes\<close>

text \<open>
  Modelled from the spec: the enumerations of the absent header integrator.hpp. The
  source indexes its vectors by these names only; the numbers follow the order in which
  spec section 3 lists the slots of a DAE problem and of a backward DAE problem, and
  the order in which getDerivative names the integrator's inputs and outputs.
\<close>

definition DAE_T :: nat where "DAE_T = 0"
definition DAE_X :: nat where "DAE_X = 1"
definition DAE_Z :: nat where "DAE_Z = 2"
definition DAE_P :: nat where "DAE_P = 3"
definition DAE_NUM_IN :: nat where "DAE_NUM_IN = 4"

definition DAE_ODE :: nat where "DAE_ODE = 0"
definition DAE_ALG :: nat where "DAE_ALG = 1"
definition DAE_QUAD :: nat where "DAE_QUAD = 2"
definition DAE_NUM_OUT :: nat where "DAE_NUM_OUT = 3"

definition RDAE_T :: nat where "RDAE_T = 0"
definition RDAE_X :: nat where "RDAE_X = 1"
definition RDAE_Z :: nat where "RDAE_Z = 2"
definition RDAE_P :: nat where "RDAE_P = 3"
definition RDAE_RX :: nat where "RDAE_RX = 4"
definition RDAE_RZ :: nat where "RDAE_RZ = 5"
definition RDAE_RP :: nat where "RDAE_RP = 6"
definition RDAE_NUM_IN :: nat where "RDAE_NUM_IN = 7"

definition RDAE_ODE :: nat where "RDAE_ODE = 0"
definition RDAE_ALG :: nat where "RDAE_ALG = 1"
definition RDAE_QUAD :: nat where "RDAE_QUAD = 2"
definition RDAE_NUM_OUT :: nat where "RDAE_NUM_OUT = 3"

definition INTEGRATOR_X0 :: nat where "INTEGRATOR_X0 = 0"
definition INTEGRATOR_P :: nat where "INTEGRATOR_P = 1"
definition INTEGRATOR_Z0 :: nat where "INTEGRATOR_Z0 = 2"
definition INTEGRATOR_RX0 :: nat where "INTEGRATOR_RX0 = 3"
definition INTEGRATOR_RP :: nat where "INTEGRATOR_RP = 4"
definition INTEGRATOR_RZ0 :: nat where "INTEGRATOR_RZ0 = 5"
definition INTEGRATOR_NUM_IN :: nat where "INTEGRATOR_NUM_IN = 6"

definition INTEGRATOR_XF :: nat where "INTEGRATOR_XF = 0"
definition INTEGRATOR_QF :: nat where "INTEGRATOR_QF = 1"
definition INTEGRATOR_ZF :: nat where "INTEGRATOR_ZF = 2"
definition INTEGRATOR_RXF :: nat where "INTEGRATOR_RXF = 3"
definition INTEGRATOR_RQF :: nat where "INTEGRATOR_RQF = 4"
definition INTEGRATOR_RZF :: nat where "INTEGRATOR_RZF = 5"
definition INTEGRATOR_NUM_OUT :: nat where "INTEGRATOR_NUM_OUT = 6"

lemmas dae_scheme_defs =
  DAE_T_def DAE_X_def DAE_Z_def DAE_P_def DAE_NUM_IN_def
  DAE_ODE_def DAE_ALG_def DAE_QUAD_def DAE_NUM_OUT_def

lemmas rdae_scheme_defs =
  RDAE_T_def RDAE_X_def RDAE_Z_def RDAE_P_def RDAE_RX_def RDAE_RZ_def RDAE_RP_def
  RDAE_NUM_IN_def RDAE_ODE_def RDAE_ALG_def RDAE_QUAD_def RDAE_NUM_OUT_def

lemmas integrator_scheme_defs =
  INTEGRATOR_X0_def INTEGRATOR_P_def INTEGRATOR_Z0_def INTEGRATOR_RX0_def INTEGRATOR_RP_def
  INTEGRATOR_RZ0_def INTEGRATOR_NUM_IN_def INTEGRATOR_XF_def INTEGRATOR_QF_def
  INTEGRATOR_ZF_def INTEGRATOR_RXF_def INTEGRATOR_RQF_def INTEGRATOR_RZF_def
  INTEGRATOR_NUM_OUT_def

subsection \<open>Function objects and symbolic expressions\<close>

text \<open>
  A function object (\<^verbatim>\<open>FXInternal\<close>) that the caller hands to the integrator is opaque:
  the integrator sees its name, whether it is an \<^verbatim>\<open>SXFunction\<close>, and the sparsity of each
  input and output port.
\<close>

record FXNode =
  fx_name :: string
  fx_is_SXFunction :: bool
  fx_input :: "CRSSparsity list"
  fx_output :: "CRSSparsity list"

text \<open>
  Modelled from the spec: the expression graph \<^verbatim>\<open>MX\<close> is declared outside the two source
  files (spec section 6, expression-graph algebra). A node is the empty expression
  \<^verbatim>\<open>MX()\<close>, a symbol of a given sparsity, a matrix of zeros, the \<open>k\<close>-th block of a vertical
  split by offsets, a vertical concatenation, a densification, a sum, or the \<open>k\<close>-th
  output of a call. The type parameter is the kind of callee.
\<close>

datatype 'c MX =
    MXNull
  | Sym string CRSSparsity
  | Zeros CRSSparsity
  | Block "'c MX" "int list" nat
  | Vertcat "'c MX list"
  | Densify "'c MX"
  | Add "'c MX" "'c MX"
  | CallOut 'c "'c MX list" nat

definition msym :: "string \<Rightarrow> int \<Rightarrow> nat \<Rightarrow> 'c MX" where
  "msym name n m = Sym name (sp_dense (nat n) m)"

text \<open>
  Modelled from the spec: \<^verbatim>\<open>vertsplit(x, offset)\<close> partitions \<open>x\<close> into one block per pair
  of consecutive offsets (section 4.3, step 3); block \<open>k\<close> spans the rows from
  \<open>offset[k]\<close> up to \<open>offset[k+1]\<close>.
\<close>

definition vertsplit :: "'c MX \<Rightarrow> int list \<Rightarrow> 'c MX list" where
  "vertsplit e offset = map (\<lambda>k. Block e offset k) [0..<length offset - 1]"

text \<open>
  The number of rows and of columns of an expression, given the sparsity \<open>r c k\<close> of
  output \<open>k\<close> of callee \<open>c\<close>.
\<close>

fun mx_size1 :: "('c \<Rightarrow> nat \<Rightarrow> CRSSparsity) \<Rightarrow> 'c MX \<Rightarrow> int" where
  "mx_size1 r MXNull = 0"
| "mx_size1 r (Sym n sp) = int (size1 sp)"
| "mx_size1 r (Zeros sp) = int (size1 sp)"
| "mx_size1 r (Block e offset k) = offset ! Suc k - offset ! k"
| "mx_size1 r (Vertcat es) = sum_list (map (mx_size1 r) es)"
| "mx_size1 r (Densify e) = mx_size1 r e"
| "mx_size1 r (Add a b) = mx_size1 r a"
| "mx_size1 r (CallOut c args k) = int (size1 (r c k))"

fun mx_size2 :: "('c \<Rightarrow> nat \<Rightarrow> CRSSparsity) \<Rightarrow> 'c MX \<Rightarrow> nat" where
  "mx_size2 r MXNull = 0"
| "mx_size2 r (Sym n sp) = size2 sp"
| "mx_size2 r (Zeros sp) = size2 sp"
| "mx_size2 r (Block e offset k) = mx_size2 r e"
| "mx_size2 r (Vertcat es) = (case es of [] \<Rightarrow> 0 | e # _ \<Rightarrow> mx_size2 r e)"
| "mx_size2 r (Densify e) = mx_size2 r e"
| "mx_size2 r (Add a b) = mx_size2 r a"
| "mx_size2 r (CallOut c args k) = size2 (r c k)"

text \<open>
  Modelled from the spec: \<^verbatim>\<open>f.derivative(nfwd, nadj)\<close> (section 6) is a callable with
  \<open>nfwd + nadj + 1\<close> times the base arity. As the source reads its results, the outputs
  are the nondifferentiated outputs, then one group of output-shaped forward
  sensitivities per forward direction, then one group of input-shaped adjoint
  sensitivities per adjoint direction.
\<close>

datatype FXDerivative = Derivative FXNode int int

fun derivative_num_out :: "FXDerivative \<Rightarrow> nat" where
  "derivative_num_out (Derivative f nfwd nadj) =
     (1 + nat nfwd) * length (fx_output f) + nat nadj * length (fx_input f)"

fun derivative_output :: "FXDerivative \<Rightarrow> nat \<Rightarrow> CRSSparsity" where
  "derivative_output (Derivative f nfwd nadj) k =
     (if k < (1 + nat nfwd) * length (fx_output f)
      then fx_output f ! (k mod length (fx_output f))
      else fx_input f ! ((k - (1 + nat nfwd) * length (fx_output f)) mod length (fx_input f)))"

definition call :: "FXDerivative \<Rightarrow> FXDerivative MX list \<Rightarrow> FXDerivative MX list" where
  "call d arg = map (\<lambda>k. CallOut d arg k) [0..<derivative_num_out d]"

text \<open>
  A handle \<^verbatim>\<open>FX\<close> is null, points to a function object of the caller, or points to a
  function that getAugmented builds: \<^verbatim>\<open>MXFunction(in, out)\<close> or its expansion
  \<^verbatim>\<open>SXFunction(f_mx)\<close>. Copying a handle shares the object, so the handle stands for the
  object.
\<close>

datatype FX =
    FXNull
  | FXRef FXNode
  | MXFunction "FXDerivative MX list" "FXDerivative MX list"
  | SXFunction FX

text \<open>
  The sparsity of a port of a function built from expressions: the functions that
  getAugmented builds have symbols as inputs and densified expressions or the empty
  expression as outputs, so a port is the sparsity of its symbol, or dense.
\<close>

fun mx_sparsity :: "FXDerivative MX \<Rightarrow> CRSSparsity" where
  "mx_sparsity (Sym n sp) = sp"
| "mx_sparsity (Zeros sp) = sp"
| "mx_sparsity e = sp_dense (nat (mx_size1 derivative_output e)) (mx_size2 derivative_output e)"

fun fx_node :: "FX \<Rightarrow> FXNode result" where
  "fx_node FXNull = Inl NullPointer"
| "fx_node (FXRef n) = Inr n"
| "fx_node (MXFunction ins outs) =
     Inr \<lparr>fx_name = [], fx_is_SXFunction = False,
          fx_input = map mx_sparsity ins, fx_output = map mx_sparsity outs\<rparr>"
| "fx_node (SXFunction f) = bind (fx_node f) (\<lambda>n. Inr (n\<lparr>fx_is_SXFunction := True\<rparr>))"

definition derivative :: "FX \<Rightarrow> int \<Rightarrow> int \<Rightarrow> FXDerivative result" where
  "derivative f nfwd nadj = bind (fx_node f) (\<lambda>n. Inr (Derivative n nfwd nadj))"

text \<open>
  Modelled from the spec: \<^verbatim>\<open>jacSparsity\<close> belongs to the function objects, outside the
  two source files. Spec section 4.5 starts \<^verbatim>\<open>spJacF\<close> "from the structural Jacobian of
  the ODE output with respect to the differential state" and ends with "the square
  coefficient pattern later used by the structural linear solve", which works on one
  word per entry of the state and of the algebraic variable. The pattern has one row
  per entry of the output and one column per entry of the input. A function object of
  the embedding has no expression graph: every entry of the output is taken to depend
  on every entry of the input.
\<close>

definition jacSparsity :: "FXNode \<Rightarrow> nat \<Rightarrow> nat \<Rightarrow> CRSSparsity" where
  "jacSparsity f iind oind = sp_dense (sp_size (fx_output f ! oind)) (sp_size (fx_input f ! iind))"

text \<open>
  Modelled from the spec: the linear solver collaborator (spec section 6) "accepts a
  sparsity pattern at construction"; the embedding keeps the pattern it was built from.
\<close>

datatype LinearSolver = LinearSolver CRSSparsity

subsection \<open>The integrator object\<close>

text \<open>
  \<^verbatim>\<open>IntegratorInternal\<close> inherits the options registry. Its members \<^verbatim>\<open>f_\<close>, \<^verbatim>\<open>g_\<close>,
  \<^verbatim>\<open>nx_\<close>, ..., \<^verbatim>\<open>nrp_\<close>, \<^verbatim>\<open>t0_\<close>, \<^verbatim>\<open>tf_\<close>, \<^verbatim>\<open>linsol_f_\<close>, \<^verbatim>\<open>linsol_g_\<close> are the fields \<open>dae_f\<close>,
  \<open>dae_g\<close>, \<open>nx\<close>, ..., \<open>nrp\<close>, \<open>t0\<close>, \<open>tf\<close>, \<open>linsol_f\<close>, \<open>linsol_g\<close> (a name cannot end with
  an underscore here); a null handle of a linear solver is \<open>None\<close>. The
  input buffers \<^verbatim>\<open>x0()\<close>, \<^verbatim>\<open>p()\<close>, \<^verbatim>\<open>z0()\<close>, \<^verbatim>\<open>rx0()\<close>, \<^verbatim>\<open>rp()\<close>, \<^verbatim>\<open>rz0()\<close> and the output
  buffers \<^verbatim>\<open>xf()\<close>, \<^verbatim>\<open>qf()\<close>, \<^verbatim>\<open>zf()\<close>, \<^verbatim>\<open>rxf()\<close>, \<^verbatim>\<open>rqf()\<close>, \<^verbatim>\<open>rzf()\<close> are one field each.
\<close>

record IntegratorInternal = OptionsFunctionalityNode +
  dae_f :: FX
  dae_g :: FX
  nx :: int
  nz :: int
  nq :: int
  np :: int
  nrx :: int
  nrz :: int
  nrq :: int
  nrp :: int
  t0 :: real
  tf :: real
  input_x0 :: DMatrix
  input_p :: DMatrix
  input_z0 :: DMatrix
  input_rx0 :: DMatrix
  input_rp :: DMatrix
  input_rz0 :: DMatrix
  output_xf :: DMatrix
  output_qf :: DMatrix
  output_zf :: DMatrix
  output_rxf :: DMatrix
  output_rqf :: DMatrix
  output_rzf :: DMatrix
  linsol_f :: "LinearSolver option"
  linsol_g :: "LinearSolver option"

text \<open>
  The conversion operators of an option value are outside the two source files: a
  boolean or a number converts, any other value is a type mismatch.
\<close>

fun toBool :: "GenericType \<Rightarrow> bool result" where
  "toBool (GT_Bool b) = Inr b"
| "toBool (GT_Int i) = Inr (i \<noteq> 0)"
| "toBool v = Inl TypeMismatch"

fun toDouble :: "GenericType \<Rightarrow> real result" where
  "toDouble (GT_Real x) = Inr x"
| "toDouble (GT_Int i) = Inr (of_int i)"
| "toDouble v = Inl TypeMismatch"

text \<open>
  The constructor. The dimensions other than \<^verbatim>\<open>np_\<close> are left uninitialised by the
  source; the embedding starts them at 0 and the buffers empty.
\<close>

definition IntegratorInternal_ctor :: "FX \<Rightarrow> FX \<Rightarrow> IntegratorInternal" where
  "IntegratorInternal_ctor f g =
     (let I0 = \<lparr>allowed_options = allowed_options OptionsFunctionalityNode_ctor,
                options = options OptionsFunctionalityNode_ctor,
                dae_f = f, dae_g = g,
                nx = 0, nz = 0, nq = 0, np = 0, nrx = 0, nrz = 0, nrq = 0, nrp = 0,
                t0 = 0, tf = 0,
                input_x0 = DMatrix_empty, input_p = DMatrix_empty, input_z0 = DMatrix_empty,
                input_rx0 = DMatrix_empty, input_rp = DMatrix_empty, input_rz0 = DMatrix_empty,
                output_xf = DMatrix_empty, output_qf = DMatrix_empty, output_zf = DMatrix_empty,
                output_rxf = DMatrix_empty, output_rqf = DMatrix_empty,
                output_rzf = DMatrix_empty, linsol_f = None, linsol_g = None\<rparr>;
          I1 = snd (setOption ''name'' (GT_String ''unnamed_integrator'') I0);
          I2 = addOption ''print_stats'' OT_BOOLEAN (GT_Bool False) I1;
          I3 = addOption ''t0'' OT_REAL (GT_Real 0) I2;
          I4 = addOption ''tf'' OT_REAL (GT_Real 1) I3;
          I5 = addOption ''augmented_options'' OT_DICTIONARY GT_Null I4;
          I6 = addOption ''expand_augmented'' OT_BOOLEAN (GT_Bool True) I5
      in I6\<lparr>np := - 1\<rparr>)"

subsection \<open>init\<close>

text \<open>
  The consistency checks of init (source lines 133 to 144), for the forward function
  object \<open>f\<close> and the backward one \<open>g\<close> when the handle \<^verbatim>\<open>g_\<close> is not null. The first and
  the third check stream both shapes into the text of the exception; the others are
  plain \<^verbatim>\<open>casadi_assert\<close>s.
\<close>

definition init_consistency :: "FXNode \<Rightarrow> FXNode option \<Rightarrow> IntegratorInternal \<Rightarrow> unit result" where
  "init_consistency f g I =
     bind (casadi_assert_message
             (shape (fx_output f ! DAE_ODE) = shape (sparsity (input_x0 I)))
             (InconsistentDimensions ''DAE_ODE''
                (shape (sparsity (input_x0 I))) (shape (fx_output f ! DAE_ODE)))) (\<lambda>_.
     bind (casadi_assert (fx_output f ! DAE_ODE = sparsity (input_x0 I))
             ''f_.output(DAE_ODE).sparsity()==x0().sparsity()'') (\<lambda>_.
     bind (casadi_assert_message
             (shape (fx_output f ! DAE_ALG) = shape (sparsity (input_z0 I)))
             (InconsistentDimensions ''DAE_ALG''
                (shape (sparsity (input_z0 I))) (shape (fx_output f ! DAE_ALG)))) (\<lambda>_.
     bind (casadi_assert (fx_output f ! DAE_ALG = sparsity (input_z0 I))
             ''f_.output(DAE_ALG).sparsity()==z0().sparsity()'') (\<lambda>_.
     (case g of
        None \<Rightarrow> Inr ()
      | Some g \<Rightarrow>
          bind (casadi_assert (fx_input g ! RDAE_P = sparsity (input_p I))
                  ''g_.input(RDAE_P).sparsity()==p().sparsity()'') (\<lambda>_.
          bind (casadi_assert (fx_input g ! RDAE_X = sparsity (input_x0 I))
                  ''g_.input(RDAE_X).sparsity()==x0().sparsity()'') (\<lambda>_.
          bind (casadi_assert (fx_input g ! RDAE_Z = sparsity (input_z0 I))
                  ''g_.input(RDAE_Z).sparsity()==z0().sparsity()'') (\<lambda>_.
          bind (casadi_assert (fx_output g ! RDAE_ODE = sparsity (input_rx0 I))
                  ''g_.output(RDAE_ODE).sparsity()==rx0().sparsity()'') (\<lambda>_.
          casadi_assert (fx_output g ! RDAE_ALG = sparsity (input_rz0 I))
                  ''g_.output(RDAE_ALG).sparsity()==rz0().sparsity()'')))))))))"

text \<open>
  The dimensions and the buffers (source lines 89 to 128). With a null \<^verbatim>\<open>g_\<close> the
  backward buffers are left as they are.
\<close>

definition init_allocate :: "FXNode \<Rightarrow> FXNode option \<Rightarrow> IntegratorInternal \<Rightarrow> IntegratorInternal" where
  "init_allocate f g I =
     (let I = I\<lparr>nx := int (sp_size (fx_input f ! DAE_X)),
                nz := int (sp_size (fx_input f ! DAE_Z)),
                nq := int (sp_size (fx_output f ! DAE_QUAD)),
                np := int (sp_size (fx_input f ! DAE_P))\<rparr>;
          I = (case g of
                 None \<Rightarrow> I\<lparr>nrx := 0, nrz := 0, nrq := 0, nrp := 0\<rparr>
               | Some g \<Rightarrow> I\<lparr>nrx := int (sp_size (fx_input g ! RDAE_RX)),
                             nrz := int (sp_size (fx_input g ! RDAE_RZ)),
                             nrp := int (sp_size (fx_input g ! RDAE_RP)),
                             nrq := int (sp_size (fx_output g ! RDAE_QUAD))\<rparr>);
          I = I\<lparr>input_x0 := zeros (fx_input f ! DAE_X),
                input_p := zeros (fx_input f ! DAE_P),
                input_z0 := zeros (fx_input f ! DAE_Z)\<rparr>;
          I = (case g of
                 None \<Rightarrow> I
               | Some g \<Rightarrow> I\<lparr>input_rx0 := zeros (fx_input g ! RDAE_RX),
                             input_rp := zeros (fx_input g ! RDAE_RP),
                             input_rz0 := zeros (fx_input g ! RDAE_RZ)\<rparr>);
          I = I\<lparr>output_xf := input_x0 I,
                output_qf := zeros (fx_output f ! DAE_QUAD),
                output_zf := input_z0 I\<rparr>;
          I = (case g of
                 None \<Rightarrow> I
               | Some g \<Rightarrow> I\<lparr>output_rxf := input_rx0 I,
                             output_rqf := zeros (fx_output g ! RDAE_QUAD),
                             output_rzf := input_rz0 I\<rparr>)
      in I)"

text \<open>
  \<^verbatim>\<open>spJacF\<close> and \<^verbatim>\<open>spJacG\<close> (source lines 926 to 962).
\<close>

definition spJacF :: "IntegratorInternal \<Rightarrow> CRSSparsity result" where
  "spJacF I =
     bind (fx_node (dae_f I)) (\<lambda>f.
     bind (patternUnion (jacSparsity f DAE_X DAE_ODE) (sp_diag (nat (nx I)))) (\<lambda>ret.
     if nz I = 0 then Inr ret
     else (let jac_ode_z = jacSparsity f DAE_Z DAE_ODE;
               jac_alg_x = jacSparsity f DAE_X DAE_ALG;
               jac_alg_z = jacSparsity f DAE_Z DAE_ALG
           in bind (horzcat ret jac_ode_z) (\<lambda>ret.
              bind (horzcat jac_alg_x jac_alg_z) (\<lambda>lower.
              append_sp ret lower)))))"

definition spJacG :: "IntegratorInternal \<Rightarrow> CRSSparsity result" where
  "spJacG I =
     bind (fx_node (dae_g I)) (\<lambda>g.
     bind (patternUnion (jacSparsity g RDAE_RX RDAE_ODE) (sp_diag (nat (nrx I)))) (\<lambda>ret.
     if nrz I = 0 then Inr ret
     else (let jac_ode_z = jacSparsity g RDAE_RZ RDAE_ODE;
               jac_alg_x = jacSparsity g RDAE_RX RDAE_ALG;
               jac_alg_z = jacSparsity g RDAE_RZ RDAE_ALG
           in bind (horzcat ret jac_ode_z) (\<lambda>ret.
              bind (horzcat jac_alg_x jac_alg_z) (\<lambda>lower.
              append_sp ret lower)))))"

text \<open>
  The linear solvers for the sparsity propagation (source lines 159 to 165).
\<close>

definition init_linsol :: "IntegratorInternal \<Rightarrow> IntegratorInternal result" where
  "init_linsol I =
     bind (spJacF I) (\<lambda>sp.
     (let I = I\<lparr>linsol_f := Some (LinearSolver sp)\<rparr> in
      if dae_g I \<noteq> FXNull
      then bind (spJacG I) (\<lambda>sp. Inr (I\<lparr>linsol_g := Some (LinearSolver sp)\<rparr>))
      else Inr I))"

text \<open>
  init. The base class method \<^verbatim>\<open>FXInternal::init\<close> belongs to a collaborator outside the
  two source files and touches none of the fields above; a function object is described
  as its own \<^verbatim>\<open>init\<close> leaves it.
\<close>

definition init_backward :: "FX \<Rightarrow> FXNode option result" where
  "init_backward g =
     (if g = FXNull then Inr None
      else bind (fx_node g) (\<lambda>gn.
           bind (casadi_assert_message (length (fx_input gn) = RDAE_NUM_IN)
                   (AssertionMessage
                      ''Wrong number of inputs for the backwards DAE callback function'')) (\<lambda>_.
           bind (casadi_assert_message (length (fx_output gn) = RDAE_NUM_OUT)
                   (AssertionMessage
                      ''Wrong number of outputs for the backwards DAE callback function'')) (\<lambda>_.
           Inr (Some gn)))))"

definition init :: "IntegratorInternal \<Rightarrow> IntegratorInternal result" where
  "init I =
     bind (casadi_assert (dae_f I \<noteq> FXNull) ''!f_.isNull()'') (\<lambda>_.
     bind (fx_node (dae_f I)) (\<lambda>f.
     bind (casadi_assert_message (length (fx_input f) = DAE_NUM_IN)
             (AssertionMessage ''Wrong number of inputs for the DAE callback function'')) (\<lambda>_.
     bind (casadi_assert_message (length (fx_output f) = DAE_NUM_OUT)
             (AssertionMessage ''Wrong number of outputs for the DAE callback function'')) (\<lambda>_.
     bind (init_backward (dae_g I)) (\<lambda>g.
     (let I = init_allocate f g I in
     bind (init_consistency f g I) (\<lambda>_.
     bind (bind (getOption ''t0'' I) toDouble) (\<lambda>a.
     bind (bind (getOption ''tf'' I) toDouble) (\<lambda>b.
     init_linsol (I\<lparr>t0 := a, tf := b\<rparr>))))))))))"

subsection \<open>Properties of init\<close>

lemma init_allocate_dims [simp]:
  "nx (init_allocate f g I) = int (sp_size (fx_input f ! DAE_X))"
  "nz (init_allocate f g I) = int (sp_size (fx_input f ! DAE_Z))"
  "nq (init_allocate f g I) = int (sp_size (fx_output f ! DAE_QUAD))"
  "np (init_allocate f g I) = int (sp_size (fx_input f ! DAE_P))"
  "nrx (init_allocate f g I) = (case g of None \<Rightarrow> 0 | Some gn \<Rightarrow> int (sp_size (fx_input gn ! RDAE_RX)))"
  "nrz (init_allocate f g I) = (case g of None \<Rightarrow> 0 | Some gn \<Rightarrow> int (sp_size (fx_input gn ! RDAE_RZ)))"
  "nrq (init_allocate f g I) = (case g of None \<Rightarrow> 0 | Some gn \<Rightarrow> int (sp_size (fx_output gn ! RDAE_QUAD)))"
  "nrp (init_allocate f g I) = (case g of None \<Rightarrow> 0 | Some gn \<Rightarrow> int (sp_size (fx_input gn ! RDAE_RP)))"
  by (simp_all add: init_allocate_def Let_def split: option.split)

lemma init_allocate_buffers [simp]:
  "input_x0 (init_allocate f g I) = zeros (fx_input f ! DAE_X)"
  "input_p (init_allocate f g I) = zeros (fx_input f ! DAE_P)"
  "input_z0 (init_allocate f g I) = zeros (fx_input f ! DAE_Z)"
  "input_rx0 (init_allocate f g I) = (case g of None \<Rightarrow> input_rx0 I | Some gn \<Rightarrow> zeros (fx_input gn ! RDAE_RX))"
  "input_rp (init_allocate f g I) = (case g of None \<Rightarrow> input_rp I | Some gn \<Rightarrow> zeros (fx_input gn ! RDAE_RP))"
  "input_rz0 (init_allocate f g I) = (case g of None \<Rightarrow> input_rz0 I | Some gn \<Rightarrow> zeros (fx_input gn ! RDAE_RZ))"
  "output_xf (init_allocate f g I) = zeros (fx_input f ! DAE_X)"
  "output_qf (init_allocate f g I) = zeros (fx_output f ! DAE_QUAD)"
  "output_zf (init_allocate f g I) = zeros (fx_input f ! DAE_Z)"
  "output_rxf (init_allocate f g I) = (case g of None \<Rightarrow> output_rxf I | Some gn \<Rightarrow> zeros (fx_input gn ! RDAE_RX))"
  "output_rqf (init_allocate f g I) = (case g of None \<Rightarrow> output_rqf I | Some gn \<Rightarrow> zeros (fx_output gn ! RDAE_QUAD))"
  "output_rzf (init_allocate f g I) = (case g of None \<Rightarrow> output_rzf I | Some gn \<Rightarrow> zeros (fx_input gn ! RDAE_RZ))"
  by (simp_all add: init_allocate_def Let_def split: option.split)

lemma init_allocate_kept [simp]:
  "dae_f (init_allocate f g I) = dae_f I"
  "dae_g (init_allocate f g I) = dae_g I"
  "options (init_allocate f g I) = options I"
  "allowed_options (init_allocate f g I) = allowed_options I"
  by (simp_all add: init_allocate_def Let_def split: option.split)

lemma getOption_init_allocate [simp]:
  "getOption name (init_allocate f g I) = getOption name I"
  by (simp add: getOption_def)

lemma ctor_simps [simp]:
  "dae_f (IntegratorInternal_ctor f g) = f"
  "dae_g (IntegratorInternal_ctor f g) = g"
  "input_rx0 (IntegratorInternal_ctor f g) = DMatrix_empty"
  "input_rp (IntegratorInternal_ctor f g) = DMatrix_empty"
  "input_rz0 (IntegratorInternal_ctor f g) = DMatrix_empty"
  "output_rxf (IntegratorInternal_ctor f g) = DMatrix_empty"
  "output_rqf (IntegratorInternal_ctor f g) = DMatrix_empty"
  "output_rzf (IntegratorInternal_ctor f g) = DMatrix_empty"
  by (simp_all add: IntegratorInternal_ctor_def Let_def addOption_def setOption_def
      OptionsFunctionalityNode_ctor_def)

lemma ctor_options [simp]:
  "getOption ''t0'' (IntegratorInternal_ctor f g) = Inr (GT_Real 0)"
  "getOption ''tf'' (IntegratorInternal_ctor f g) = Inr (GT_Real 1)"
  "getOption ''expand_augmented'' (IntegratorInternal_ctor f g) = Inr (GT_Bool True)"
  "getOption ''augmented_options'' (IntegratorInternal_ctor f g) = Inl (OptionNotSet ''augmented_options'')"
  by (simp_all add: IntegratorInternal_ctor_def Let_def addOption_def setOption_def
      OptionsFunctionalityNode_ctor_def getOption_def)

text \<open>
  Once the consistency checks have passed, the patterns of \<^verbatim>\<open>spJacF\<close> and \<^verbatim>\<open>spJacG\<close> fit
  and the linear solvers are built: \<open>with_linsol\<close> is the integrator they leave.
\<close>

definition with_linsol :: "IntegratorInternal \<Rightarrow> IntegratorInternal" where
  "with_linsol I =
     I\<lparr>linsol_f := Some (LinearSolver (sp_dense (nat (nx I) + nat (nz I))
                                               (nat (nx I) + nat (nz I)))),
       linsol_g := (if dae_g I \<noteq> FXNull
                    then Some (LinearSolver (sp_dense (nat (nrx I) + nat (nrz I))
                                                      (nat (nrx I) + nat (nrz I))))
                    else linsol_g I)\<rparr>"

lemma with_linsol_simps [simp]:
  "dae_f (with_linsol I) = dae_f I" "dae_g (with_linsol I) = dae_g I"
  "nx (with_linsol I) = nx I" "nz (with_linsol I) = nz I"
  "nq (with_linsol I) = nq I" "np (with_linsol I) = np I"
  "nrx (with_linsol I) = nrx I" "nrz (with_linsol I) = nrz I"
  "nrq (with_linsol I) = nrq I" "nrp (with_linsol I) = nrp I"
  "t0 (with_linsol I) = t0 I" "tf (with_linsol I) = tf I"
  "input_x0 (with_linsol I) = input_x0 I" "input_p (with_linsol I) = input_p I"
  "input_z0 (with_linsol I) = input_z0 I" "input_rx0 (with_linsol I) = input_rx0 I"
  "input_rp (with_linsol I) = input_rp I" "input_rz0 (with_linsol I) = input_rz0 I"
  "output_xf (with_linsol I) = output_xf I" "output_qf (with_linsol I) = output_qf I"
  "output_zf (with_linsol I) = output_zf I" "output_rxf (with_linsol I) = output_rxf I"
  "output_rqf (with_linsol I) = output_rqf I" "output_rzf (with_linsol I) = output_rzf I"
  "options (with_linsol I) = options I"
  "allowed_options (with_linsol I) = allowed_options I"
  by (simp_all add: with_linsol_def)

lemma getOption_with_linsol [simp]: "getOption name (with_linsol I) = getOption name I"
  by (simp add: getOption_def)

lemma spJacG_linsol_f [simp]: "spJacG (I\<lparr>linsol_f := x\<rparr>) = spJacG I"
  by (simp add: spJacG_def)

lemma spJac_pattern:
  assumes "sp_size o1 = n" "sp_size o2 = m" "sp_size i1 = n" "sp_size i2 = m"
  shows "bind (patternUnion (sp_dense (sp_size o1) (sp_size i1)) (sp_diag n)) (\<lambda>ret.
           if int m = 0 then Inr ret
           else bind (horzcat ret (sp_dense (sp_size o1) (sp_size i2))) (\<lambda>ret.
                bind (horzcat (sp_dense (sp_size o2) (sp_size i1))
                              (sp_dense (sp_size o2) (sp_size i2))) (\<lambda>lower.
                append_sp ret lower)))
         = Inr (sp_dense (n + m) (n + m))"
  using assms
  by (simp add: patternUnion_dense_diag horzcat_dense append_sp_dense)

lemma init_linsol_allocate:
  assumes "fx_node (dae_f I0) = Inr f" "init_backward (dae_g I0) = Inr g"
    "init_consistency f g (init_allocate f g I0) = Inr ()"
  shows "init_linsol ((init_allocate f g I0)\<lparr>t0 := a, tf := b\<rparr>)
           = Inr (with_linsol ((init_allocate f g I0)\<lparr>t0 := a, tf := b\<rparr>))"
proof -
  let ?I = "(init_allocate f g I0)\<lparr>t0 := a, tf := b\<rparr>"
  have c: "fx_output f ! DAE_ODE = fx_input f ! DAE_X" "fx_output f ! DAE_ALG = fx_input f ! DAE_Z"
    using assms(3)
    by (simp_all add: init_consistency_def bind_eq_Inr casadi_assert_Inr
        casadi_assert_message_Inr)
  have F: "spJacF ?I = Inr (sp_dense (nat (nx ?I) + nat (nz ?I)) (nat (nx ?I) + nat (nz ?I)))"
    unfolding spJacF_def jacSparsity_def Let_def
    using spJac_pattern [of "fx_output f ! DAE_ODE" "sp_size (fx_input f ! DAE_X)"
        "fx_output f ! DAE_ALG" "sp_size (fx_input f ! DAE_Z)"
        "fx_input f ! DAE_X" "fx_input f ! DAE_Z"]
    by (simp add: assms(1) c)
  show ?thesis
  proof (cases g)
    case None
    then have "dae_g I0 = FXNull"
      using assms(2) by (auto simp: init_backward_def bind_eq_Inr split: if_splits)
    then show ?thesis
      by (simp add: init_linsol_def F with_linsol_def Let_def)
  next
    case (Some gn)
    then have n: "dae_g I0 \<noteq> FXNull" "fx_node (dae_g I0) = Inr gn"
      using assms(2) by (auto simp: init_backward_def bind_eq_Inr split: if_splits)
    have d: "fx_output gn ! RDAE_ODE = fx_input gn ! RDAE_RX"
      "fx_output gn ! RDAE_ALG = fx_input gn ! RDAE_RZ"
      using assms(3) Some
      by (simp_all add: init_consistency_def bind_eq_Inr casadi_assert_Inr
          casadi_assert_message_Inr)
    have G: "spJacG ?I
        = Inr (sp_dense (nat (nrx ?I) + nat (nrz ?I)) (nat (nrx ?I) + nat (nrz ?I)))"
      unfolding spJacG_def jacSparsity_def Let_def
      using spJac_pattern [of "fx_output gn ! RDAE_ODE" "sp_size (fx_input gn ! RDAE_RX)"
          "fx_output gn ! RDAE_ALG" "sp_size (fx_input gn ! RDAE_RZ)"
          "fx_input gn ! RDAE_RX" "fx_input gn ! RDAE_RZ"]
      by (simp add: n d Some)
    show ?thesis
      by (simp add: init_linsol_def F G with_linsol_def Let_def n)
  qed
qed

text \<open>What a successful init establishes.\<close>

lemma init_Inr:
  assumes "init I0 = Inr I"
  obtains f g a b where
    "fx_node (dae_f I0) = Inr f" "dae_f I0 \<noteq> FXNull"
    "length (fx_input f) = DAE_NUM_IN" "length (fx_output f) = DAE_NUM_OUT"
    "init_backward (dae_g I0) = Inr g"
    "init_consistency f g (init_allocate f g I0) = Inr ()"
    "I = with_linsol ((init_allocate f g I0)\<lparr>t0 := a, tf := b\<rparr>)"
proof -
  from assms obtain f g a b where
    h: "fx_node (dae_f I0) = Inr f" "dae_f I0 \<noteq> FXNull"
      "length (fx_input f) = DAE_NUM_IN" "length (fx_output f) = DAE_NUM_OUT"
      "init_backward (dae_g I0) = Inr g"
      "init_consistency f g (init_allocate f g I0) = Inr ()"
      "init_linsol ((init_allocate f g I0)\<lparr>t0 := a, tf := b\<rparr>) = Inr I"
    unfolding init_def Let_def
    by (auto simp: bind_eq_Inr casadi_assert_Inr casadi_assert_message_Inr)
  from h(7) have i: "I = with_linsol ((init_allocate f g I0)\<lparr>t0 := a, tf := b\<rparr>)"
    by (simp add: init_linsol_allocate [OF h(1,5,6)])
  show ?thesis by (rule that [OF h(1,2,3,4,5,6) i])
qed

text \<open>init returns when the checks pass and the two times are numbers.\<close>

lemma init_returns:
  assumes "fx_node (dae_f I0) = Inr f"
    "length (fx_input f) = DAE_NUM_IN" "length (fx_output f) = DAE_NUM_OUT"
    "init_backward (dae_g I0) = Inr g"
    "init_consistency f g (init_allocate f g I0) = Inr ()"
    "bind (getOption ''t0'' I0) toDouble = Inr a"
    "bind (getOption ''tf'' I0) toDouble = Inr b"
  shows "init I0 = Inr (with_linsol ((init_allocate f g I0)\<lparr>t0 := a, tf := b\<rparr>))"
proof -
  from assms(1) have "dae_f I0 \<noteq> FXNull" by auto
  then show ?thesis
    using assms
    by (simp add: init_def Let_def casadi_assert_def casadi_assert_message_def
        init_linsol_allocate)
qed

text \<open>
  Two integrators for the checks below: a forward problem with two states and one
  parameter whose ODE output has three rows, and one with a consistent forward problem
  and a backward problem whose parameter input has two entries instead of one.
\<close>

definition mismatch_shape_f :: FXNode where
  "mismatch_shape_f =
     \<lparr>fx_name = ''f'', fx_is_SXFunction = True,
      fx_input = [sp_dense 1 1, sp_dense 2 1, sp_dense 0 0, sp_dense 1 1],
      fx_output = [sp_dense 3 1, sp_dense 0 0, sp_dense 0 0]\<rparr>"

definition mismatch_f :: FXNode where
  "mismatch_f =
     \<lparr>fx_name = ''f'', fx_is_SXFunction = True,
      fx_input = [sp_dense 1 1, sp_dense 2 1, sp_dense 0 0, sp_dense 1 1],
      fx_output = [sp_dense 2 1, sp_dense 0 0, sp_dense 0 0]\<rparr>"

definition mismatch_g :: FXNode where
  "mismatch_g =
     \<lparr>fx_name = ''g'', fx_is_SXFunction = True,
      fx_input = [sp_dense 1 1, sp_dense 2 1, sp_dense 0 0, sp_dense 2 1,
                  sp_dense 2 1, sp_dense 0 0, sp_dense 0 0],
      fx_output = [sp_dense 2 1, sp_dense 0 0, sp_dense 0 0]\<rparr>"

lemma init_stage:
  assumes "fx_node (dae_f I) = Inr f" "length (fx_input f) = DAE_NUM_IN"
    "length (fx_output f) = DAE_NUM_OUT" "init_backward (dae_g I) = Inr g"
    "init_consistency f g (init_allocate f g I) = Inl e"
  shows "init I = Inl e"
proof -
  from assms(1) have "dae_f I \<noteq> FXNull" by auto
  with assms show ?thesis by (simp add: init_def Let_def)
qed

text \<open>
  Claim C9, as the code has it. Once the arities are right, a forward ODE or algebraic
  output whose shape differs from the shape of the state or algebraic input makes init
  throw an exception that carries both shapes. Every other cross-check throws a plain
  assertion that names the failed condition and carries no shape: the sparsity pattern
  of those two outputs, and the five checks of the backward problem (its P, X and Z
  inputs against the forward ones, its ODE and ALG outputs against rx0 and rz0).
\<close>

theorem init_cross_check_failures:
  assumes f: "fx_node (dae_f I) = Inr f" "length (fx_input f) = DAE_NUM_IN"
    "length (fx_output f) = DAE_NUM_OUT"
    and g: "init_backward (dae_g I) = Inr g"
  shows "(shape (fx_output f ! DAE_ODE) \<noteq> shape (fx_input f ! DAE_X) \<longrightarrow>
            init I = Inl (InconsistentDimensions ''DAE_ODE''
                            (shape (fx_input f ! DAE_X)) (shape (fx_output f ! DAE_ODE))))
       \<and> (shape (fx_output f ! DAE_ODE) = shape (fx_input f ! DAE_X)
            \<and> fx_output f ! DAE_ODE \<noteq> fx_input f ! DAE_X \<longrightarrow>
            init I = Inl (AssertionFailed ''f_.output(DAE_ODE).sparsity()==x0().sparsity()''))
       \<and> (fx_output f ! DAE_ODE = fx_input f ! DAE_X
            \<and> shape (fx_output f ! DAE_ALG) \<noteq> shape (fx_input f ! DAE_Z) \<longrightarrow>
            init I = Inl (InconsistentDimensions ''DAE_ALG''
                            (shape (fx_input f ! DAE_Z)) (shape (fx_output f ! DAE_ALG))))
       \<and> (fx_output f ! DAE_ODE = fx_input f ! DAE_X
            \<and> shape (fx_output f ! DAE_ALG) = shape (fx_input f ! DAE_Z)
            \<and> fx_output f ! DAE_ALG \<noteq> fx_input f ! DAE_Z \<longrightarrow>
            init I = Inl (AssertionFailed ''f_.output(DAE_ALG).sparsity()==z0().sparsity()''))
       \<and> (fx_output f ! DAE_ODE = fx_input f ! DAE_X
            \<and> fx_output f ! DAE_ALG = fx_input f ! DAE_Z \<longrightarrow>
            (\<forall>gn. g = Some gn \<longrightarrow>
              (fx_input gn ! RDAE_P \<noteq> fx_input f ! DAE_P \<longrightarrow>
                 init I = Inl (AssertionFailed ''g_.input(RDAE_P).sparsity()==p().sparsity()''))
            \<and> (fx_input gn ! RDAE_P = fx_input f ! DAE_P
                 \<and> fx_input gn ! RDAE_X \<noteq> fx_input f ! DAE_X \<longrightarrow>
                 init I = Inl (AssertionFailed ''g_.input(RDAE_X).sparsity()==x0().sparsity()''))
            \<and> (fx_input gn ! RDAE_P = fx_input f ! DAE_P
                 \<and> fx_input gn ! RDAE_X = fx_input f ! DAE_X
                 \<and> fx_input gn ! RDAE_Z \<noteq> fx_input f ! DAE_Z \<longrightarrow>
                 init I = Inl (AssertionFailed ''g_.input(RDAE_Z).sparsity()==z0().sparsity()''))
            \<and> (fx_input gn ! RDAE_P = fx_input f ! DAE_P
                 \<and> fx_input gn ! RDAE_X = fx_input f ! DAE_X
                 \<and> fx_input gn ! RDAE_Z = fx_input f ! DAE_Z
                 \<and> fx_output gn ! RDAE_ODE \<noteq> fx_input gn ! RDAE_RX \<longrightarrow>
                 init I = Inl (AssertionFailed ''g_.output(RDAE_ODE).sparsity()==rx0().sparsity()''))
            \<and> (fx_input gn ! RDAE_P = fx_input f ! DAE_P
                 \<and> fx_input gn ! RDAE_X = fx_input f ! DAE_X
                 \<and> fx_input gn ! RDAE_Z = fx_input f ! DAE_Z
                 \<and> fx_output gn ! RDAE_ODE = fx_input gn ! RDAE_RX
                 \<and> fx_output gn ! RDAE_ALG \<noteq> fx_input gn ! RDAE_RZ \<longrightarrow>
                 init I = Inl (AssertionFailed ''g_.output(RDAE_ALG).sparsity()==rz0().sparsity()''))))"
proof -
  note stage = init_stage [OF f g]
  show ?thesis
    by (intro conjI impI allI; rule stage) (simp_all add: init_consistency_def)
qed

theorem init_cross_check_failures_witness:
  "fx_node (dae_f (IntegratorInternal_ctor (FXRef mismatch_shape_f) FXNull)) = Inr mismatch_shape_f
   \<and> length (fx_input mismatch_shape_f) = DAE_NUM_IN
   \<and> length (fx_output mismatch_shape_f) = DAE_NUM_OUT
   \<and> init_backward (dae_g (IntegratorInternal_ctor (FXRef mismatch_shape_f) FXNull)) = Inr None
   \<and> shape (fx_output mismatch_shape_f ! DAE_ODE) \<noteq> shape (fx_input mismatch_shape_f ! DAE_X)
   \<and> init (IntegratorInternal_ctor (FXRef mismatch_shape_f) FXNull)
       = Inl (InconsistentDimensions ''DAE_ODE'' (2, 1) (3, 1))
   \<and> fx_node (dae_f (IntegratorInternal_ctor (FXRef mismatch_f) (FXRef mismatch_g))) = Inr mismatch_f
   \<and> init_backward (dae_g (IntegratorInternal_ctor (FXRef mismatch_f) (FXRef mismatch_g)))
       = Inr (Some mismatch_g)
   \<and> fx_output mismatch_f ! DAE_ODE = fx_input mismatch_f ! DAE_X
   \<and> fx_output mismatch_f ! DAE_ALG = fx_input mismatch_f ! DAE_Z
   \<and> fx_input mismatch_g ! RDAE_P \<noteq> fx_input mismatch_f ! DAE_P
   \<and> init (IntegratorInternal_ctor (FXRef mismatch_f) (FXRef mismatch_g))
       = Inl (AssertionFailed ''g_.input(RDAE_P).sparsity()==p().sparsity()'')"
proof -
  have f1: "fx_node (dae_f (IntegratorInternal_ctor (FXRef mismatch_shape_f) FXNull))
              = Inr mismatch_shape_f"
    "length (fx_input mismatch_shape_f) = DAE_NUM_IN"
    "length (fx_output mismatch_shape_f) = DAE_NUM_OUT"
    by (simp_all add: mismatch_shape_f_def dae_scheme_defs)
  have g1: "init_backward (dae_g (IntegratorInternal_ctor (FXRef mismatch_shape_f) FXNull))
              = Inr None"
    by (simp add: init_backward_def)
  have s1: "shape (fx_output mismatch_shape_f ! DAE_ODE) = (3, 1)"
    "shape (fx_input mismatch_shape_f ! DAE_X) = (2, 1)"
    by (simp_all add: mismatch_shape_f_def dae_scheme_defs)
  have f2: "fx_node (dae_f (IntegratorInternal_ctor (FXRef mismatch_f) (FXRef mismatch_g)))
              = Inr mismatch_f"
    "length (fx_input mismatch_f) = DAE_NUM_IN"
    "length (fx_output mismatch_f) = DAE_NUM_OUT"
    by (simp_all add: mismatch_f_def dae_scheme_defs)
  have g2: "init_backward (dae_g (IntegratorInternal_ctor (FXRef mismatch_f) (FXRef mismatch_g)))
              = Inr (Some mismatch_g)"
    by (simp add: init_backward_def mismatch_g_def rdae_scheme_defs)
  have s2: "fx_output mismatch_f ! DAE_ODE = fx_input mismatch_f ! DAE_X"
    "fx_output mismatch_f ! DAE_ALG = fx_input mismatch_f ! DAE_Z"
    "fx_input mismatch_g ! RDAE_P \<noteq> fx_input mismatch_f ! DAE_P"
    by (simp_all add: mismatch_f_def mismatch_g_def dae_scheme_defs rdae_scheme_defs)
  show ?thesis
    using init_cross_check_failures [OF f1 g1] init_cross_check_failures [OF f2 g2]
      f1 g1 s1 f2 g2 s2
    by simp
qed

text \<open>
  Claim C9 as stated fails: a backward problem whose parameter input differs from the
  forward one makes init throw the plain assertion, which carries no shape.
\<close>

theorem init_backward_mismatch_counterexample:
  "init (IntegratorInternal_ctor (FXRef mismatch_f) (FXRef mismatch_g))
     = Inl (AssertionFailed ''g_.input(RDAE_P).sparsity()==p().sparsity()'')"
  by (simp add: init_def init_backward_def init_consistency_def
      mismatch_f_def mismatch_g_def dae_scheme_defs rdae_scheme_defs Let_def)

section \<open>Loops\<close>

text \<open>
  The counting loop \<^verbatim>\<open>for(int i=a; i<n; ++i) body\<close> over a state: the body reads the
  counter and returns the new state.
\<close>

function for_loop :: "int \<Rightarrow> int \<Rightarrow> (int \<Rightarrow> 's \<Rightarrow> 's) \<Rightarrow> 's \<Rightarrow> 's" where
  "for_loop i n body s = (if i < n then for_loop (i + 1) n body (body i s) else s)"
  by pat_completeness auto
termination
  by (relation "measure (\<lambda>(i, n, body, s). nat (n - i))") auto

declare for_loop.simps [simp del]

lemma for_loop_step: "i < n \<Longrightarrow> for_loop i n body s = for_loop (i + 1) n body (body i s)"
  by (subst for_loop.simps) simp

lemma for_loop_done: "\<not> i < n \<Longrightarrow> for_loop i n body s = s"
  by (subst for_loop.simps) simp

lemma for_loop_funpow: "for_loop i n (\<lambda>_. f) s = (f ^^ nat (n - i)) s"
proof (induction i n "\<lambda>_::int. f" s rule: for_loop.induct)
  case (1 i n s)
  show ?case
  proof (cases "i < n")
    case True
    then have "nat (n - i) = Suc (nat (n - (i + 1)))" by simp
    with True 1 show ?thesis
      by (simp add: for_loop_step funpow_swap1)
  next
    case False
    then show ?thesis by (simp add: for_loop_done)
  qed
qed

lemma for_loop_fold: "for_loop i n body s = fold body [i..n - 1] s"
proof (induction i n body s rule: for_loop.induct)
  case (1 i n body s)
  show ?case
  proof (cases "i < n")
    case True
    then have "[i..n - 1] = i # [i + 1..n - 1]"
      by (simp add: upto_rec1)
    with True 1 show ?thesis by (simp add: for_loop_step)
  next
    case False
    then show ?thesis by (simp add: for_loop_done)
  qed
qed

lemma upto_int_nat: "[0..int n - 1] = map int [0..<n]"
proof (induction n)
  case 0
  show ?case by simp
next
  case (Suc n)
  have "[0..int (Suc n) - 1] = [0..int n - 1] @ [int n]"
    by (simp add: upto_rec2)
  with Suc show ?case by simp
qed

lemma for_loop_nat: "for_loop 0 (int n) body s = fold (\<lambda>k. body (int k)) [0..<n] s"
  by (simp add: for_loop_fold upto_int_nat fold_map comp_def)

lemma for_loop_0_2: "for_loop 0 2 body s = body 1 (body 0 s)"
  by (simp add: for_loop_step for_loop_done)

section \<open>getAugOffset\<close>

text \<open>
  \<^verbatim>\<open>AugOffset\<close> holds eight vectors of \<^verbatim>\<open>int\<close>; the fields \<open>off_x\<close>, ..., \<open>off_rp\<close> are
  the members \<^verbatim>\<open>x\<close>, \<^verbatim>\<open>z\<close>, \<^verbatim>\<open>q\<close>, \<^verbatim>\<open>p\<close>, \<^verbatim>\<open>rx\<close>, \<^verbatim>\<open>rz\<close>, \<^verbatim>\<open>rq\<close>, \<^verbatim>\<open>rp\<close>. The elements
  are C++ \<^verbatim>\<open>int\<close>s of 32 bits: \<open>int32\<close> reduces a sum to that range, as two's complement
  arithmetic does when the sum overflows.
\<close>

definition INT_MAX :: int where
  "INT_MAX = 2147483647"

definition int32 :: "int \<Rightarrow> int" where
  "int32 x = (x + 2147483648) mod 4294967296 - 2147483648"

record AugOffset =
  off_x :: "int list"
  off_z :: "int list"
  off_q :: "int list"
  off_p :: "int list"
  off_rx :: "int list"
  off_rz :: "int list"
  off_rq :: "int list"
  off_rp :: "int list"

text \<open>The body of the first loop: the nondifferentiated and the forward directions.\<close>

definition count_fwd :: "IntegratorInternal \<Rightarrow> AugOffset \<Rightarrow> AugOffset" where
  "count_fwd I ret =
     (let ret = (if nx I > 0
                 then ret\<lparr>off_x := off_x ret @ [int (size1 (sparsity (input_x0 I)))]\<rparr>
                 else ret);
          ret = (if nz I > 0
                 then ret\<lparr>off_z := off_z ret @ [int (size1 (sparsity (input_z0 I)))]\<rparr>
                 else ret);
          ret = (if nq I > 0
                 then ret\<lparr>off_q := off_q ret @ [int (size1 (sparsity (output_qf I)))]\<rparr>
                 else ret);
          ret = (if np I > 0
                 then ret\<lparr>off_p := off_p ret @ [int (size1 (sparsity (input_p I)))]\<rparr>
                 else ret);
          ret = (if nrx I > 0
                 then ret\<lparr>off_rx := off_rx ret @ [int (size1 (sparsity (input_rx0 I)))]\<rparr>
                 else ret);
          ret = (if nrz I > 0
                 then ret\<lparr>off_rz := off_rz ret @ [int (size1 (sparsity (input_rz0 I)))]\<rparr>
                 else ret);
          ret = (if nrq I > 0
                 then ret\<lparr>off_rq := off_rq ret @ [int (size1 (sparsity (output_rqf I)))]\<rparr>
                 else ret);
          ret = (if nrp I > 0
                 then ret\<lparr>off_rp := off_rp ret @ [int (size1 (sparsity (input_rp I)))]\<rparr>
                 else ret)
      in ret)"

text \<open>The body of the second loop: the adjoint directions.\<close>

definition count_adj :: "IntegratorInternal \<Rightarrow> AugOffset \<Rightarrow> AugOffset" where
  "count_adj I ret =
     (let ret = (if nx I > 0
                 then ret\<lparr>off_rx := off_rx ret @ [int (size1 (sparsity (input_x0 I)))]\<rparr>
                 else ret);
          ret = (if nz I > 0
                 then ret\<lparr>off_rz := off_rz ret @ [int (size1 (sparsity (input_z0 I)))]\<rparr>
                 else ret);
          ret = (if np I > 0
                 then ret\<lparr>off_rq := off_rq ret @ [int (size1 (sparsity (input_p I)))]\<rparr>
                 else ret);
          ret = (if nq I > 0
                 then ret\<lparr>off_rp := off_rp ret @ [int (size1 (sparsity (output_qf I)))]\<rparr>
                 else ret);
          ret = (if nrx I > 0
                 then ret\<lparr>off_x := off_x ret @ [int (size1 (sparsity (input_rx0 I)))]\<rparr>
                 else ret);
          ret = (if nrz I > 0
                 then ret\<lparr>off_z := off_z ret @ [int (size1 (sparsity (input_rz0 I)))]\<rparr>
                 else ret);
          ret = (if nrp I > 0
                 then ret\<lparr>off_q := off_q ret @ [int (size1 (sparsity (input_rp I)))]\<rparr>
                 else ret);
          ret = (if nrq I > 0
                 then ret\<lparr>off_p := off_p ret @ [int (size1 (sparsity (output_rqf I)))]\<rparr>
                 else ret)
      in ret)"

text \<open>
  \<^verbatim>\<open>for(int i=1; i<v.size(); ++i) v[i] += v[i-1];\<close> (source lines 680 to 687): the
  addition is that of \<^verbatim>\<open>int\<close>.
\<close>

definition cumulative :: "int list \<Rightarrow> int list" where
  "cumulative v =
     for_loop 1 (int (length v)) (\<lambda>i v. v[nat i := int32 (v ! nat i + v ! nat (i - 1))]) v"

definition getAugOffset :: "IntegratorInternal \<Rightarrow> int \<Rightarrow> int \<Rightarrow> AugOffset" where
  "getAugOffset I nfwd nadj =
     (let ret = \<lparr>off_x = [0], off_z = [0], off_q = [0], off_p = [0],
                 off_rx = [0], off_rz = [0], off_rq = [0], off_rp = [0]\<rparr>;
          ret = for_loop (- 1) nfwd (\<lambda>dir. count_fwd I) ret;
          ret = for_loop 0 nadj (\<lambda>dir. count_adj I) ret
      in \<lparr>off_x = cumulative (off_x ret), off_z = cumulative (off_z ret),
          off_q = cumulative (off_q ret), off_p = cumulative (off_p ret),
          off_rx = cumulative (off_rx ret), off_rz = cumulative (off_rz ret),
          off_rq = cumulative (off_rq ret), off_rp = cumulative (off_rp ret)\<rparr>)"

subsection \<open>Closed form of the two counting loops\<close>

text \<open>\<open>grow c k n\<close>: what \<open>k\<close> passes append to a vector when each pushes \<open>n\<close> under guard \<open>c\<close>.\<close>

definition grow :: "bool \<Rightarrow> nat \<Rightarrow> nat \<Rightarrow> int list" where
  "grow c k n = (if c then replicate k (int n) else [])"

text \<open>The running sums of a vector, and a vector that starts with 0 and grows twice.\<close>

definition psums :: "int list \<Rightarrow> int list" where
  "psums v = map (\<lambda>i. sum_list (take (Suc i) v)) [0..<length v]"

definition raw_offsets :: "bool \<Rightarrow> nat \<Rightarrow> nat \<Rightarrow> bool \<Rightarrow> nat \<Rightarrow> nat \<Rightarrow> int list" where
  "raw_offsets c1 k1 n1 c2 k2 n2 = 0 # grow c1 k1 n1 @ grow c2 k2 n2"

text \<open>The running sums in the arithmetic of \<^verbatim>\<open>int\<close>.\<close>

definition wsums :: "int list \<Rightarrow> int list" where
  "wsums v = map int32 (psums v)"

lemma grow_0 [simp]: "grow c 0 n = []"
  by (simp add: grow_def)

lemma grow_add: "grow c a n @ grow c b n = grow c (a + b) n"
  by (simp add: grow_def replicate_add)

lemma grow_Suc: "grow c k n @ grow c (Suc 0) n = grow c (Suc k) n"
  by (simp add: grow_add)

lemma grow_nonneg: "\<forall>a \<in> set (grow c k n). 0 \<le> a"
  by (simp add: grow_def)

lemma sum_list_grow: "sum_list (grow c k n) = (if c then int k * int n else 0)"
  by (simp add: grow_def sum_list_replicate)

lemma length_grow: "length (grow c k n) = (if c then k else 0)"
  by (simp add: grow_def)

lemma push_if:
  "(if c then r\<lparr>off_x := off_x r @ [int v]\<rparr> else r) = r\<lparr>off_x := off_x r @ grow c (Suc 0) v\<rparr>"
  "(if c then r\<lparr>off_z := off_z r @ [int v]\<rparr> else r) = r\<lparr>off_z := off_z r @ grow c (Suc 0) v\<rparr>"
  "(if c then r\<lparr>off_q := off_q r @ [int v]\<rparr> else r) = r\<lparr>off_q := off_q r @ grow c (Suc 0) v\<rparr>"
  "(if c then r\<lparr>off_p := off_p r @ [int v]\<rparr> else r) = r\<lparr>off_p := off_p r @ grow c (Suc 0) v\<rparr>"
  "(if c then r\<lparr>off_rx := off_rx r @ [int v]\<rparr> else r) = r\<lparr>off_rx := off_rx r @ grow c (Suc 0) v\<rparr>"
  "(if c then r\<lparr>off_rz := off_rz r @ [int v]\<rparr> else r) = r\<lparr>off_rz := off_rz r @ grow c (Suc 0) v\<rparr>"
  "(if c then r\<lparr>off_rq := off_rq r @ [int v]\<rparr> else r) = r\<lparr>off_rq := off_rq r @ grow c (Suc 0) v\<rparr>"
  "(if c then r\<lparr>off_rp := off_rp r @ [int v]\<rparr> else r) = r\<lparr>off_rp := off_rp r @ grow c (Suc 0) v\<rparr>"
  by (simp_all add: grow_def)

lemma count_fwd_closed:
  "count_fwd I ret =
     \<lparr>off_x = off_x ret @ grow (nx I > 0) (Suc 0) (size1 (sparsity (input_x0 I))),
      off_z = off_z ret @ grow (nz I > 0) (Suc 0) (size1 (sparsity (input_z0 I))),
      off_q = off_q ret @ grow (nq I > 0) (Suc 0) (size1 (sparsity (output_qf I))),
      off_p = off_p ret @ grow (np I > 0) (Suc 0) (size1 (sparsity (input_p I))),
      off_rx = off_rx ret @ grow (nrx I > 0) (Suc 0) (size1 (sparsity (input_rx0 I))),
      off_rz = off_rz ret @ grow (nrz I > 0) (Suc 0) (size1 (sparsity (input_rz0 I))),
      off_rq = off_rq ret @ grow (nrq I > 0) (Suc 0) (size1 (sparsity (output_rqf I))),
      off_rp = off_rp ret @ grow (nrp I > 0) (Suc 0) (size1 (sparsity (input_rp I)))\<rparr>"
  unfolding count_fwd_def Let_def push_if by simp

lemma count_adj_closed:
  "count_adj I ret =
     \<lparr>off_x = off_x ret @ grow (nrx I > 0) (Suc 0) (size1 (sparsity (input_rx0 I))),
      off_z = off_z ret @ grow (nrz I > 0) (Suc 0) (size1 (sparsity (input_rz0 I))),
      off_q = off_q ret @ grow (nrp I > 0) (Suc 0) (size1 (sparsity (input_rp I))),
      off_p = off_p ret @ grow (nrq I > 0) (Suc 0) (size1 (sparsity (output_rqf I))),
      off_rx = off_rx ret @ grow (nx I > 0) (Suc 0) (size1 (sparsity (input_x0 I))),
      off_rz = off_rz ret @ grow (nz I > 0) (Suc 0) (size1 (sparsity (input_z0 I))),
      off_rq = off_rq ret @ grow (np I > 0) (Suc 0) (size1 (sparsity (input_p I))),
      off_rp = off_rp ret @ grow (nq I > 0) (Suc 0) (size1 (sparsity (output_qf I)))\<rparr>"
  unfolding count_adj_def Let_def push_if by simp

lemma count_fwd_funpow:
  "(count_fwd I ^^ k) ret =
     \<lparr>off_x = off_x ret @ grow (nx I > 0) k (size1 (sparsity (input_x0 I))),
      off_z = off_z ret @ grow (nz I > 0) k (size1 (sparsity (input_z0 I))),
      off_q = off_q ret @ grow (nq I > 0) k (size1 (sparsity (output_qf I))),
      off_p = off_p ret @ grow (np I > 0) k (size1 (sparsity (input_p I))),
      off_rx = off_rx ret @ grow (nrx I > 0) k (size1 (sparsity (input_rx0 I))),
      off_rz = off_rz ret @ grow (nrz I > 0) k (size1 (sparsity (input_rz0 I))),
      off_rq = off_rq ret @ grow (nrq I > 0) k (size1 (sparsity (output_rqf I))),
      off_rp = off_rp ret @ grow (nrp I > 0) k (size1 (sparsity (input_rp I)))\<rparr>"
  (is "_ = ?r k")
proof (induction k)
  case 0
  show ?case by simp
next
  case (Suc k)
  have "(count_fwd I ^^ Suc k) ret = count_fwd I ((count_fwd I ^^ k) ret)"
    by simp
  also have "\<dots> = count_fwd I (?r k)"
    by (simp only: Suc)
  also have "\<dots> = ?r (Suc k)"
    by (subst count_fwd_closed) (simp add: grow_Suc del: grow_0)
  finally show ?case .
qed

lemma count_adj_funpow:
  "(count_adj I ^^ k) ret =
     \<lparr>off_x = off_x ret @ grow (nrx I > 0) k (size1 (sparsity (input_rx0 I))),
      off_z = off_z ret @ grow (nrz I > 0) k (size1 (sparsity (input_rz0 I))),
      off_q = off_q ret @ grow (nrp I > 0) k (size1 (sparsity (input_rp I))),
      off_p = off_p ret @ grow (nrq I > 0) k (size1 (sparsity (output_rqf I))),
      off_rx = off_rx ret @ grow (nx I > 0) k (size1 (sparsity (input_x0 I))),
      off_rz = off_rz ret @ grow (nz I > 0) k (size1 (sparsity (input_z0 I))),
      off_rq = off_rq ret @ grow (np I > 0) k (size1 (sparsity (input_p I))),
      off_rp = off_rp ret @ grow (nq I > 0) k (size1 (sparsity (output_qf I)))\<rparr>"
  (is "_ = ?r k")
proof (induction k)
  case 0
  show ?case by simp
next
  case (Suc k)
  have "(count_adj I ^^ Suc k) ret = count_adj I ((count_adj I ^^ k) ret)"
    by simp
  also have "\<dots> = count_adj I (?r k)"
    by (simp only: Suc)
  also have "\<dots> = ?r (Suc k)"
    by (subst count_adj_closed) (simp add: grow_Suc del: grow_0)
  finally show ?case .
qed

subsection \<open>Closed form of the cumulative sums\<close>

lemma length_psums [simp]: "length (psums v) = length v"
  by (simp add: psums_def)

lemma nth_psums: "i < length v \<Longrightarrow> psums v ! i = sum_list (take (Suc i) v)"
  by (simp add: psums_def)

lemma psums_Cons_hd: "hd (psums (a # v)) = a"
  by (simp add: psums_def upt_conv_Cons del: upt_Suc)

lemma psums_last:
  assumes "v \<noteq> []"
  shows "last (psums v) = sum_list v"
proof -
  from assms have n: "psums v \<noteq> []" "length v - 1 < length v" "Suc (length v - 1) = length v"
    by (auto simp: psums_def)
  have "last (psums v) = psums v ! (length v - 1)"
    using n(1) by (simp add: last_conv_nth)
  also have "\<dots> = sum_list (take (Suc (length v - 1)) v)"
    using n(2) by (rule nth_psums)
  finally show ?thesis using n(3) by simp
qed


lemma sum_list_take_mono:
  fixes v :: "int list"
  assumes "\<forall>a \<in> set v. 0 \<le> a" "i \<le> j"
  shows "sum_list (take i v) \<le> sum_list (take j v)"
proof -
  have "take j v = take i v @ take (j - i) (drop i v)"
    using assms(2) by (metis le_add_diff_inverse take_add)
  moreover have "0 \<le> sum_list (take (j - i) (drop i v))"
    using assms(1) by (intro sum_list_nonneg) (auto dest: in_set_takeD in_set_dropD)
  ultimately show ?thesis by simp
qed

lemma sorted_psums:
  assumes "\<forall>a \<in> set v. (0::int) \<le> a"
  shows "sorted (psums v)"
  unfolding sorted_iff_nth_mono
  using assms by (auto simp: nth_psums intro!: sum_list_take_mono)

lemma int32_id: "- 2147483648 \<le> x \<Longrightarrow> x \<le> INT_MAX \<Longrightarrow> int32 x = x"
  by (simp add: int32_def INT_MAX_def)

lemma int32_0 [simp]: "int32 0 = 0"
  by (simp add: int32_def)

lemma int32_add_right [simp]: "int32 (a + int32 b) = int32 (a + b)"
proof -
  have "(a + ((b + 2147483648) mod 4294967296 - 2147483648) + 2147483648) mod 4294967296
      = (a + (b + 2147483648) mod 4294967296) mod (4294967296::int)"
    by (simp add: algebra_simps)
  also have "\<dots> = (a + (b + 2147483648)) mod 4294967296"
    by (rule mod_add_right_eq)
  finally show ?thesis
    by (simp add: int32_def algebra_simps)
qed

lemma int32_add_left [simp]: "int32 (int32 a + b) = int32 (a + b)"
  using int32_add_right [of b a] by (simp add: add.commute)

lemma length_wsums [simp]: "length (wsums v) = length v"
  by (simp add: wsums_def)

lemma nth_wsums: "i < length v \<Longrightarrow> wsums v ! i = int32 (sum_list (take (Suc i) v))"
  by (simp add: wsums_def nth_psums)

lemma wsums_Nil_iff [simp]: "wsums v = [] \<longleftrightarrow> v = []"
  by (simp add: wsums_def psums_def)

lemma wsums_last: "v \<noteq> [] \<Longrightarrow> last (wsums v) = int32 (sum_list v)"
  by (simp add: wsums_def last_map psums_last psums_def)


lemma wsums_hd: "hd (wsums (0 # v)) = 0"
proof -
  have "psums (0 # v) \<noteq> []" by (simp add: psums_def)
  then show ?thesis by (simp add: wsums_def hd_map psums_Cons_hd)
qed

lemma wsums_exact:
  assumes "\<forall>a \<in> set v. 0 \<le> a" "sum_list v \<le> INT_MAX"
  shows "wsums v = psums v"
proof (rule nth_equalityI)
  show "length (wsums v) = length (psums v)" by simp
next
  fix i assume "i < length (wsums v)"
  then have i: "i < length v" by simp
  have "sum_list (take (Suc i) v) \<le> sum_list (take (length v) v)"
    using assms(1) i by (intro sum_list_take_mono) simp_all
  then have u: "sum_list (take (Suc i) v) \<le> INT_MAX" using assms(2) by simp
  have "0 \<le> sum_list (take (Suc i) v)"
    using assms(1) by (intro sum_list_nonneg) (auto dest: in_set_takeD)
  then have "int32 (sum_list (take (Suc i) v)) = sum_list (take (Suc i) v)"
    using u by (intro int32_id) simp_all
  then show "wsums v ! i = psums v ! i"
    using i by (simp add: nth_wsums nth_psums)
qed

lemma cumulative_loop:
  "1 \<le> i \<Longrightarrow> i \<le> int (length v) \<Longrightarrow> length w = length v \<Longrightarrow>
   (\<forall>j < length v. w ! j = (if int j < i then int32 (sum_list (take (Suc j) v)) else v ! j)) \<Longrightarrow>
   for_loop i (int (length v)) (\<lambda>i v. v[nat i := int32 (v ! nat i + v ! nat (i - 1))]) w = wsums v"
proof (induction i "int (length v)"
    "\<lambda>(i::int) (v::int list). v[nat i := int32 (v ! nat i + v ! nat (i - 1))]" w
    rule: for_loop.induct)
  case (1 i w)
  show ?case
  proof (cases "i < int (length v)")
    case False
    with 1(3) have "i = int (length v)" by simp
    with 1(4,5) have "w = wsums v"
      by (intro nth_equalityI) (simp_all add: nth_wsums)
    with False show ?thesis by (simp add: for_loop_done)
  next
    case True
    let ?w = "w[nat i := int32 (w ! nat i + w ! nat (i - 1))]"
    have a: "nat i < length v" "nat (i - 1) < length v" "nat i = Suc (nat (i - 1))"
      using True 1(2) by auto
    have wi: "w ! nat i = v ! nat i" using 1(5) a(1) 1(2) by auto
    have wp: "w ! nat (i - 1) = int32 (sum_list (take (nat i) v))" using 1(5) a 1(2) by auto
    have tk: "sum_list (take (Suc (nat i)) v) = v ! nat i + sum_list (take (nat i) v)"
      using a(1) by (simp add: take_Suc_conv_app_nth)
    have "for_loop (i + 1) (int (length v))
            (\<lambda>i v. v[nat i := int32 (v ! nat i + v ! nat (i - 1))]) ?w = wsums v"
    proof (rule 1(1) [OF True])
      show "1 \<le> i + 1" using 1(2) by simp
      show "i + 1 \<le> int (length v)" using True by simp
      show "length ?w = length v" using 1(4) by simp
      show "\<forall>j<length v. ?w ! j
              = (if int j < i + 1 then int32 (sum_list (take (Suc j) v)) else v ! j)"
      proof (intro allI impI)
        fix j assume j: "j < length v"
        show "?w ! j = (if int j < i + 1 then int32 (sum_list (take (Suc j) v)) else v ! j)"
        proof (cases "j = nat i")
          case True
          then show ?thesis using j 1(4) wi wp tk 1(2) by simp
        next
          case False
          then show ?thesis using j 1(5) 1(2) by auto
        qed
      qed
    qed
    with True show ?thesis by (simp add: for_loop_step)
  qed
qed

lemma cumulative_wsums: "cumulative (0 # v) = wsums (0 # v)"
  unfolding cumulative_def
  by (rule cumulative_loop) (auto simp: less_Suc_eq_0_disj)

subsection \<open>Closed form of getAugOffset\<close>

lemma getAugOffset_closed:
  "getAugOffset I nfwd nadj =
     \<lparr>off_x = wsums (raw_offsets (nx I > 0) (nat (nfwd + 1)) (size1 (sparsity (input_x0 I)))
                 (nrx I > 0) (nat nadj) (size1 (sparsity (input_rx0 I)))),
      off_z = wsums (raw_offsets (nz I > 0) (nat (nfwd + 1)) (size1 (sparsity (input_z0 I)))
                 (nrz I > 0) (nat nadj) (size1 (sparsity (input_rz0 I)))),
      off_q = wsums (raw_offsets (nq I > 0) (nat (nfwd + 1)) (size1 (sparsity (output_qf I)))
                 (nrp I > 0) (nat nadj) (size1 (sparsity (input_rp I)))),
      off_p = wsums (raw_offsets (np I > 0) (nat (nfwd + 1)) (size1 (sparsity (input_p I)))
                 (nrq I > 0) (nat nadj) (size1 (sparsity (output_rqf I)))),
      off_rx = wsums (raw_offsets (nrx I > 0) (nat (nfwd + 1)) (size1 (sparsity (input_rx0 I)))
                 (nx I > 0) (nat nadj) (size1 (sparsity (input_x0 I)))),
      off_rz = wsums (raw_offsets (nrz I > 0) (nat (nfwd + 1)) (size1 (sparsity (input_rz0 I)))
                 (nz I > 0) (nat nadj) (size1 (sparsity (input_z0 I)))),
      off_rq = wsums (raw_offsets (nrq I > 0) (nat (nfwd + 1)) (size1 (sparsity (output_rqf I)))
                 (np I > 0) (nat nadj) (size1 (sparsity (input_p I)))),
      off_rp = wsums (raw_offsets (nrp I > 0) (nat (nfwd + 1)) (size1 (sparsity (input_rp I)))
                 (nq I > 0) (nat nadj) (size1 (sparsity (output_qf I))))\<rparr>"
proof -
  have n: "nat (nfwd - - 1) = nat (nfwd + 1)" by simp
  show ?thesis
    unfolding getAugOffset_def Let_def for_loop_funpow count_fwd_funpow count_adj_funpow
    by (simp add: cumulative_wsums n raw_offsets_def del: grow_0)
qed

lemma raw_offsets_props:
  "hd (psums (raw_offsets c1 k1 n1 c2 k2 n2)) = 0"
  "sorted (psums (raw_offsets c1 k1 n1 c2 k2 n2))"
  "last (psums (raw_offsets c1 k1 n1 c2 k2 n2))
     = (if c1 then int k1 * int n1 else 0) + (if c2 then int k2 * int n2 else 0)"
  "length (psums (raw_offsets c1 k1 n1 c2 k2 n2))
     = 1 + (if c1 then k1 else 0) + (if c2 then k2 else 0)"
proof -
  show "hd (psums (raw_offsets c1 k1 n1 c2 k2 n2)) = 0"
    by (simp add: raw_offsets_def psums_Cons_hd)
  have "\<forall>a \<in> set (raw_offsets c1 k1 n1 c2 k2 n2). 0 \<le> a"
    using grow_nonneg [of c1 k1 n1] grow_nonneg [of c2 k2 n2]
    by (auto simp: raw_offsets_def)
  then show "sorted (psums (raw_offsets c1 k1 n1 c2 k2 n2))"
    by (rule sorted_psums)
  show "last (psums (raw_offsets c1 k1 n1 c2 k2 n2))
     = (if c1 then int k1 * int n1 else 0) + (if c2 then int k2 * int n2 else 0)"
    by (simp add: psums_last raw_offsets_def sum_list_grow)
  show "length (psums (raw_offsets c1 k1 n1 c2 k2 n2))
     = 1 + (if c1 then k1 else 0) + (if c2 then k2 else 0)"
    by (simp add: raw_offsets_def length_grow)
qed

lemma sum_list_raw_offsets:
  "sum_list (raw_offsets c1 k1 n1 c2 k2 n2)
     = (if c1 then int k1 * int n1 else 0) + (if c2 then int k2 * int n2 else 0)"
  by (simp add: raw_offsets_def sum_list_grow)

lemma wraw_offsets_props:
  "hd (wsums (raw_offsets c1 k1 n1 c2 k2 n2)) = 0"
  "last (wsums (raw_offsets c1 k1 n1 c2 k2 n2))
     = int32 ((if c1 then int k1 * int n1 else 0) + (if c2 then int k2 * int n2 else 0))"
  "length (wsums (raw_offsets c1 k1 n1 c2 k2 n2))
     = 1 + (if c1 then k1 else 0) + (if c2 then k2 else 0)"
proof -
  show "hd (wsums (raw_offsets c1 k1 n1 c2 k2 n2)) = 0"
    unfolding raw_offsets_def by (rule wsums_hd)
  have "raw_offsets c1 k1 n1 c2 k2 n2 \<noteq> []"
    by (simp add: raw_offsets_def)
  then have "last (wsums (raw_offsets c1 k1 n1 c2 k2 n2))
     = int32 (sum_list (raw_offsets c1 k1 n1 c2 k2 n2))"
    by (rule wsums_last)
  then show "last (wsums (raw_offsets c1 k1 n1 c2 k2 n2))
     = int32 ((if c1 then int k1 * int n1 else 0) + (if c2 then int k2 * int n2 else 0))"
    by (simp only: sum_list_raw_offsets)
  show "length (wsums (raw_offsets c1 k1 n1 c2 k2 n2))
     = 1 + (if c1 then k1 else 0) + (if c2 then k2 else 0)"
    by (simp add: raw_offsets_def length_grow)
qed

lemma wraw_offsets_exact:
  assumes "(if c1 then int k1 * int n1 else 0) + (if c2 then int k2 * int n2 else 0) \<le> INT_MAX"
  shows "wsums (raw_offsets c1 k1 n1 c2 k2 n2) = psums (raw_offsets c1 k1 n1 c2 k2 n2)"
proof (rule wsums_exact)
  show "\<forall>a \<in> set (raw_offsets c1 k1 n1 c2 k2 n2). 0 \<le> a"
    using grow_nonneg [of c1 k1 n1] grow_nonneg [of c2 k2 n2]
    by (auto simp: raw_offsets_def)
  show "sum_list (raw_offsets c1 k1 n1 c2 k2 n2) \<le> INT_MAX"
    using assms by (simp only: sum_list_raw_offsets)
qed


subsection \<open>The offset sequences\<close>

text \<open>
  \<open>contribution n k m\<close>: the rows that \<open>k\<close> directions add to a sequence through blocks
  shaped like the buffer \<open>m\<close>, which the source appends only when the dimension \<open>n\<close> is
  positive. \<open>offset_sequence v e\<close>: the sequence starts at 0, never decreases and ends
  at \<open>e\<close>. \<open>offset_sequence32 v e\<close>: the sequence starts at 0 and ends at \<open>e\<close> reduced to
  the range of \<^verbatim>\<open>int\<close>; it is an \<open>offset_sequence\<close> when \<open>e\<close> is in that range.
\<close>

definition contribution :: "int \<Rightarrow> int \<Rightarrow> DMatrix \<Rightarrow> int" where
  "contribution n k m = (if n > 0 then k * int (size1 (sparsity m)) else 0)"

definition offset_sequence :: "int list \<Rightarrow> int \<Rightarrow> bool" where
  "offset_sequence v e = (hd v = 0 \<and> sorted v \<and> last v = e)"

definition offset_sequence32 :: "int list \<Rightarrow> int \<Rightarrow> bool" where
  "offset_sequence32 v e =
     (hd v = 0 \<and> last v = int32 e \<and> (e \<le> INT_MAX \<longrightarrow> offset_sequence v e))"

text \<open>
  \<open>in_range I nfwd nadj\<close>: none of the eight sums of block sizes exceeds the largest
  \<^verbatim>\<open>int\<close>.
\<close>

definition in_range :: "IntegratorInternal \<Rightarrow> int \<Rightarrow> int \<Rightarrow> bool" where
  "in_range I nfwd nadj =
     (contribution (nx I) (1 + nfwd) (input_x0 I) + contribution (nrx I) nadj (input_rx0 I) \<le> INT_MAX
      \<and> contribution (nz I) (1 + nfwd) (input_z0 I) + contribution (nrz I) nadj (input_rz0 I) \<le> INT_MAX
      \<and> contribution (nq I) (1 + nfwd) (output_qf I) + contribution (nrp I) nadj (input_rp I) \<le> INT_MAX
      \<and> contribution (np I) (1 + nfwd) (input_p I) + contribution (nrq I) nadj (output_rqf I) \<le> INT_MAX
      \<and> contribution (nrx I) (1 + nfwd) (input_rx0 I) + contribution (nx I) nadj (input_x0 I) \<le> INT_MAX
      \<and> contribution (nrz I) (1 + nfwd) (input_rz0 I) + contribution (nz I) nadj (input_z0 I) \<le> INT_MAX
      \<and> contribution (nrq I) (1 + nfwd) (output_rqf I) + contribution (np I) nadj (input_p I) \<le> INT_MAX
      \<and> contribution (nrp I) (1 + nfwd) (input_rp I) + contribution (nq I) nadj (output_qf I) \<le> INT_MAX)"

lemma contribution_raw:
  assumes "0 \<le> k1" "0 \<le> k2"
  shows "(if n1 > 0 then int (nat k1) * int (size1 (sparsity m1)) else 0)
           + (if n2 > 0 then int (nat k2) * int (size1 (sparsity m2)) else 0)
         = contribution n1 k1 m1 + contribution n2 k2 m2"
  using assms by (simp add: contribution_def)

lemma getAugOffset_exact:
  assumes "0 \<le> nfwd" "0 \<le> nadj" "in_range I nfwd nadj"
  shows "getAugOffset I nfwd nadj =
     \<lparr>off_x = psums (raw_offsets (nx I > 0) (nat (nfwd + 1)) (size1 (sparsity (input_x0 I)))
                 (nrx I > 0) (nat nadj) (size1 (sparsity (input_rx0 I)))),
      off_z = psums (raw_offsets (nz I > 0) (nat (nfwd + 1)) (size1 (sparsity (input_z0 I)))
                 (nrz I > 0) (nat nadj) (size1 (sparsity (input_rz0 I)))),
      off_q = psums (raw_offsets (nq I > 0) (nat (nfwd + 1)) (size1 (sparsity (output_qf I)))
                 (nrp I > 0) (nat nadj) (size1 (sparsity (input_rp I)))),
      off_p = psums (raw_offsets (np I > 0) (nat (nfwd + 1)) (size1 (sparsity (input_p I)))
                 (nrq I > 0) (nat nadj) (size1 (sparsity (output_rqf I)))),
      off_rx = psums (raw_offsets (nrx I > 0) (nat (nfwd + 1)) (size1 (sparsity (input_rx0 I)))
                 (nx I > 0) (nat nadj) (size1 (sparsity (input_x0 I)))),
      off_rz = psums (raw_offsets (nrz I > 0) (nat (nfwd + 1)) (size1 (sparsity (input_rz0 I)))
                 (nz I > 0) (nat nadj) (size1 (sparsity (input_z0 I)))),
      off_rq = psums (raw_offsets (nrq I > 0) (nat (nfwd + 1)) (size1 (sparsity (output_rqf I)))
                 (np I > 0) (nat nadj) (size1 (sparsity (input_p I)))),
      off_rp = psums (raw_offsets (nrp I > 0) (nat (nfwd + 1)) (size1 (sparsity (input_rp I)))
                 (nq I > 0) (nat nadj) (size1 (sparsity (output_qf I))))\<rparr>"
proof -
  have a: "0 \<le> nfwd + 1" using assms(1) by simp
  have e: "wsums (raw_offsets (n1 > 0) (nat (nfwd + 1)) (size1 (sparsity m1))
                              (n2 > 0) (nat nadj) (size1 (sparsity m2)))
         = psums (raw_offsets (n1 > 0) (nat (nfwd + 1)) (size1 (sparsity m1))
                              (n2 > 0) (nat nadj) (size1 (sparsity m2)))"
    if "contribution n1 (1 + nfwd) m1 + contribution n2 nadj m2 \<le> INT_MAX"
    for n1 n2 :: int and m1 m2 :: DMatrix
    using that contribution_raw [OF a assms(2), of n1 m1 n2 m2]
    by (intro wraw_offsets_exact) (simp add: add.commute)
  show ?thesis
    unfolding getAugOffset_closed
    using assms(3) by (simp add: in_range_def e)
qed

text \<open>
  The scenario of spec section 8: one state, no algebraic variable, no parameter, and a
  backward problem with one backward state.
\<close>

definition scenario_adjoint_f :: FXNode where
  "scenario_adjoint_f =
     \<lparr>fx_name = ''f'', fx_is_SXFunction = True,
      fx_input = [sp_dense 1 1, sp_dense 1 1, sp_dense 0 0, sp_dense 0 0],
      fx_output = [sp_dense 1 1, sp_dense 0 0, sp_dense 0 0]\<rparr>"

definition scenario_adjoint_g :: FXNode where
  "scenario_adjoint_g =
     \<lparr>fx_name = ''g'', fx_is_SXFunction = True,
      fx_input = [sp_dense 1 1, sp_dense 1 1, sp_dense 0 0, sp_dense 0 0,
                  sp_dense 1 1, sp_dense 0 0, sp_dense 0 0],
      fx_output = [sp_dense 1 1, sp_dense 0 0, sp_dense 0 0]\<rparr>"

definition scenario_adjoint :: IntegratorInternal where
  "scenario_adjoint =
     with_linsol ((init_allocate scenario_adjoint_f (Some scenario_adjoint_g)
        (IntegratorInternal_ctor (FXRef scenario_adjoint_f) (FXRef scenario_adjoint_g)))
       \<lparr>t0 := 0, tf := 1\<rparr>)"

lemma init_scenario_adjoint:
  "init (IntegratorInternal_ctor (FXRef scenario_adjoint_f) (FXRef scenario_adjoint_g))
     = Inr scenario_adjoint"
  unfolding scenario_adjoint_def
  by (rule init_returns)
    (simp_all add: init_backward_def init_consistency_def
      scenario_adjoint_f_def scenario_adjoint_g_def dae_scheme_defs rdae_scheme_defs Let_def)

lemma scenario_adjoint_dims:
  "nx scenario_adjoint = 1" "nz scenario_adjoint = 0" "np scenario_adjoint = 0"
  "nq scenario_adjoint = 0"
  "nrx scenario_adjoint = 1" "nrz scenario_adjoint = 0" "nrp scenario_adjoint = 0"
  "nrq scenario_adjoint = 0"
  "size1 (sparsity (input_x0 scenario_adjoint)) = 1"
  "size1 (sparsity (input_rx0 scenario_adjoint)) = 1"
  by (simp_all add: scenario_adjoint_def scenario_adjoint_f_def scenario_adjoint_g_def
      dae_scheme_defs rdae_scheme_defs)

text \<open>
  A forward problem whose state is a dense column of 65536 rows, with no backward
  problem.
\<close>

definition wide_f :: FXNode where
  "wide_f =
     \<lparr>fx_name = ''f'', fx_is_SXFunction = True,
      fx_input = [sp_dense 1 1, sp_dense 65536 1, sp_dense 0 0, sp_dense 0 0],
      fx_output = [sp_dense 65536 1, sp_dense 0 0, sp_dense 0 0]\<rparr>"

definition wide :: IntegratorInternal where
  "wide =
     with_linsol ((init_allocate wide_f None (IntegratorInternal_ctor (FXRef wide_f) FXNull))
       \<lparr>t0 := 0, tf := 1\<rparr>)"

lemma init_wide: "init (IntegratorInternal_ctor (FXRef wide_f) FXNull) = Inr wide"
  unfolding wide_def
  by (rule init_returns)
    (simp_all add: init_backward_def init_consistency_def wide_f_def
      dae_scheme_defs Let_def)

lemma wide_dims:
  "nx wide = 65536" "nrx wide = 0"
  "size1 (sparsity (input_x0 wide)) = 65536"
  by (simp_all add: wide_def wide_f_def dae_scheme_defs)

text \<open>
  A forward problem whose state has two rows and one structural nonzero, with a
  backward problem of one backward state.
\<close>

definition sparse_column :: CRSSparsity where
  "sparse_column = \<lparr>size1 = 2, size2 = 1, nonzeros = [(0, 0)]\<rparr>"

lemma sparse_column_simps [simp]:
  "size1 sparse_column = 2" "size2 sparse_column = 1" "sp_size sparse_column = 1"
  by (simp_all add: sparse_column_def sp_size_def)






lemma offset_sequence32_raw:
  assumes "0 \<le> nfwd" "0 \<le> nadj"
  shows "offset_sequence32
           (wsums (raw_offsets (n1 > 0) (nat (nfwd + 1)) (size1 (sparsity m1))
                               (n2 > 0) (nat nadj) (size1 (sparsity m2))))
           (contribution n1 (1 + nfwd) m1 + contribution n2 nadj m2)"
proof -
  let ?raw = "raw_offsets (n1 > 0) (nat (nfwd + 1)) (size1 (sparsity m1))
                          (n2 > 0) (nat nadj) (size1 (sparsity m2))"
  let ?e = "contribution n1 (1 + nfwd) m1 + contribution n2 nadj m2"
  have a: "0 \<le> 1 + nfwd" using assms(1) by simp
  have n: "nat (nfwd + 1) = nat (1 + nfwd)" by (simp add: add.commute)
  have e: "(if n1 > 0 then int (nat (nfwd + 1)) * int (size1 (sparsity m1)) else 0)
           + (if n2 > 0 then int (nat nadj) * int (size1 (sparsity m2)) else 0) = ?e"
    unfolding n by (rule contribution_raw [OF a assms(2)])
  have l: "last (wsums ?raw) = int32 ?e"
    by (simp only: wraw_offsets_props(2) e)
  have s: "offset_sequence (wsums ?raw) ?e" if "?e \<le> INT_MAX"
  proof -
    have "wsums ?raw = psums ?raw"
      by (rule wraw_offsets_exact) (simp only: e that)
    then show ?thesis
      by (simp only: offset_sequence_def raw_offsets_props e)
  qed
  show ?thesis
    unfolding offset_sequence32_def
    using l s wraw_offsets_props(1) [of "n1 > 0" "nat (nfwd + 1)" "size1 (sparsity m1)"
        "n2 > 0" "nat nadj" "size1 (sparsity m2)"]
    by blast
qed

text \<open>
  Claim C7. For \<open>nfwd \<ge> 0\<close> and \<open>nadj \<ge> 0\<close> each of the eight sequences starts at 0 and
  ends at the sum of the blocks it received, reduced to the range of a 32-bit \<^verbatim>\<open>int\<close>:
  one block per nondifferentiated or forward direction from its own buffer, and one
  block per adjoint direction from the buffer the swap rule pairs it with. When that sum
  is at most \<open>INT_MAX\<close> the sequence is non-decreasing and ends at the sum itself.
\<close>

theorem getAugOffset_sequences:
  assumes "0 \<le> nfwd" "0 \<le> nadj"
  shows "offset_sequence32 (off_x (getAugOffset I nfwd nadj))
            (contribution (nx I) (1 + nfwd) (input_x0 I) + contribution (nrx I) nadj (input_rx0 I))
       \<and> offset_sequence32 (off_z (getAugOffset I nfwd nadj))
            (contribution (nz I) (1 + nfwd) (input_z0 I) + contribution (nrz I) nadj (input_rz0 I))
       \<and> offset_sequence32 (off_q (getAugOffset I nfwd nadj))
            (contribution (nq I) (1 + nfwd) (output_qf I) + contribution (nrp I) nadj (input_rp I))
       \<and> offset_sequence32 (off_p (getAugOffset I nfwd nadj))
            (contribution (np I) (1 + nfwd) (input_p I) + contribution (nrq I) nadj (output_rqf I))
       \<and> offset_sequence32 (off_rx (getAugOffset I nfwd nadj))
            (contribution (nrx I) (1 + nfwd) (input_rx0 I) + contribution (nx I) nadj (input_x0 I))
       \<and> offset_sequence32 (off_rz (getAugOffset I nfwd nadj))
            (contribution (nrz I) (1 + nfwd) (input_rz0 I) + contribution (nz I) nadj (input_z0 I))
       \<and> offset_sequence32 (off_rq (getAugOffset I nfwd nadj))
            (contribution (nrq I) (1 + nfwd) (output_rqf I) + contribution (np I) nadj (input_p I))
       \<and> offset_sequence32 (off_rp (getAugOffset I nfwd nadj))
            (contribution (nrp I) (1 + nfwd) (input_rp I) + contribution (nq I) nadj (output_qf I))"
  unfolding getAugOffset_closed
  by (simp add: offset_sequence32_raw [OF assms])

theorem getAugOffset_sequences_witness:
  "(0::int) \<le> 1 \<and> (0::int) \<le> 2 \<and> (4::int) \<le> INT_MAX \<and> (0::int) \<le> INT_MAX
   \<and> offset_sequence (off_x (getAugOffset scenario_adjoint 1 2)) 4
   \<and> offset_sequence (off_rx (getAugOffset scenario_adjoint 1 2)) 4
   \<and> offset_sequence (off_z (getAugOffset scenario_adjoint 1 2)) 0"
proof -
  have a: "(0::int) \<le> 1" "(0::int) \<le> 2" by simp_all
  show ?thesis
    using getAugOffset_sequences [OF a, where I = scenario_adjoint]
    by (simp add: contribution_def scenario_adjoint_dims offset_sequence32_def INT_MAX_def)
qed

text \<open>
  With a dense state of 65536 rows and 32767 forward directions the x sequence receives
  32768 blocks of 65536 rows: their sum is \<open>2\<^sup>3\<^sup>1\<close>, the last element of the sequence is
  \<open>- 2\<^sup>3\<^sup>1\<close>, and the sequence is not non-decreasing.
\<close>

theorem getAugOffset_overflow_counterexample:
  "init (IntegratorInternal_ctor (FXRef wide_f) FXNull) = Inr wide
   \<and> contribution (nx wide) (1 + 32767) (input_x0 wide)
       + contribution (nrx wide) 0 (input_rx0 wide) = 2147483648
   \<and> hd (off_x (getAugOffset wide 32767 0)) = 0
   \<and> last (off_x (getAugOffset wide 32767 0)) = - 2147483648
   \<and> \<not> sorted (off_x (getAugOffset wide 32767 0))"
proof -
  let ?v = "off_x (getAugOffset wide 32767 0)"
  have v: "?v = wsums (raw_offsets True 32768 65536 False 0
                         (size1 (sparsity (input_rx0 wide))))"
    by (simp add: getAugOffset_closed wide_dims)
  have h: "hd ?v = 0"
    unfolding v by (rule wraw_offsets_props)
  have l: "last ?v = - 2147483648"
    unfolding v wraw_offsets_props by (simp add: int32_def)
  have n: "?v \<noteq> []"
    unfolding v by (simp add: raw_offsets_def)
  have "\<not> sorted ?v"
  proof
    assume "sorted ?v"
    then have "hd ?v \<le> last ?v"
      using n by (metis hd_conv_nth last_conv_nth sorted_iff_nth_mono le0 diff_less
          length_greater_0_conv zero_less_one order_refl less_or_eq_imp_le)
    with h l show False by simp
  qed
  with h l show ?thesis
    by (simp add: init_wide contribution_def wide_dims)
qed





section \<open>getAugmented\<close>

text \<open>A counting loop whose body can throw.\<close>

function for_loopE :: "int \<Rightarrow> int \<Rightarrow> (int \<Rightarrow> 's \<Rightarrow> 's result) \<Rightarrow> 's \<Rightarrow> 's result" where
  "for_loopE i n body s =
     (if i < n
      then (case body i s of Inl e \<Rightarrow> Inl e | Inr s' \<Rightarrow> for_loopE (i + 1) n body s')
      else Inr s)"
  by pat_completeness auto
termination
  by (relation "measure (\<lambda>(i, n, body, s). nat (n - i))") auto

declare for_loopE.simps [simp del]

type_synonym MX1 = "FXDerivative MX"

text \<open>
  An iterator over a vector is the list of the elements it has not passed yet.
  \<open>deref_if c tmp k it\<close> is \<^verbatim>\<open>if(c) tmp[k] = *it++;\<close>, \<open>copy_n n it\<close> is
  \<^verbatim>\<open>copy(it, it+n, tmp.begin()); it += n;\<close> for a \<open>tmp\<close> of size \<open>n\<close>, \<open>push_if c v e\<close> is
  \<^verbatim>\<open>if(c) v.push_back(e);\<close>, and \<open>resize n v\<close> is \<^verbatim>\<open>v.resize(n)\<close>.
\<close>

definition deref_if :: "bool \<Rightarrow> 'a list \<Rightarrow> nat \<Rightarrow> 'a list \<Rightarrow> ('a list \<times> 'a list) result" where
  "deref_if c tmp k it =
     (if c then (case it of [] \<Rightarrow> Inl OutOfRange | b # r \<Rightarrow> Inr (tmp[k := b], r))
      else Inr (tmp, it))"

definition copy_n :: "nat \<Rightarrow> 'a list \<Rightarrow> ('a list \<times> 'a list) result" where
  "copy_n n it = (if length it < n then Inl OutOfRange else Inr (take n it, drop n it))"

definition push_if :: "bool \<Rightarrow> 'a list \<Rightarrow> 'a \<Rightarrow> 'a list" where
  "push_if c v e = (if c then v @ [e] else v)"

definition resize :: "nat \<Rightarrow> 'c MX list \<Rightarrow> 'c MX list" where
  "resize n v = take n v @ replicate (n - length v) MXNull"

definition port :: "CRSSparsity list \<Rightarrow> nat \<Rightarrow> CRSSparsity result" where
  "port ps i = (if i < length ps then Inr (ps ! i) else Inl OutOfRange)"

fun is_a_SXFunction :: "FX \<Rightarrow> bool" where
  "is_a_SXFunction (FXRef n) = fx_is_SXFunction n"
| "is_a_SXFunction (SXFunction f) = True"
| "is_a_SXFunction f = False"

text \<open>Source lines 221 to 227: the arguments of the forward derivative of f.\<close>

definition f_arg_body ::
  "IntegratorInternal \<Rightarrow> MX1 \<Rightarrow> MX1 \<Rightarrow> int
     \<Rightarrow> MX1 list \<times> MX1 list \<times> MX1 list \<times> MX1 list \<times> MX1 list
     \<Rightarrow> (MX1 list \<times> MX1 list \<times> MX1 list \<times> MX1 list \<times> MX1 list) result" where
  "f_arg_body I aug_t zero_t dir = (\<lambda>(tmp, x_it, z_it, p_it, f_arg).
     let tmp = tmp[DAE_T := (if dir < 0 then aug_t else zero_t)] in
     bind (deref_if (nx I > 0) tmp DAE_X x_it) (\<lambda>(tmp, x_it).
     bind (deref_if (nz I > 0) tmp DAE_Z z_it) (\<lambda>(tmp, z_it).
     bind (deref_if (np I > 0) tmp DAE_P p_it) (\<lambda>(tmp, p_it).
     Inr (tmp, x_it, z_it, p_it, f_arg @ tmp)))))"

text \<open>
  The loops that collect right-hand sides (source lines 236 to 242, 280 to 286, 320 to
  326 and 378 to 384): copy \<^verbatim>\<open>tmp.size()\<close> results into \<^verbatim>\<open>tmp\<close>, then push up to three of
  its slots. The guards and the slots are those of the call site.
\<close>

definition rhs_body ::
  "bool \<Rightarrow> nat \<Rightarrow> bool \<Rightarrow> nat \<Rightarrow> bool \<Rightarrow> nat \<Rightarrow> int
     \<Rightarrow> MX1 list \<times> MX1 list \<times> MX1 list \<times> MX1 list \<times> MX1 list
     \<Rightarrow> (MX1 list \<times> MX1 list \<times> MX1 list \<times> MX1 list \<times> MX1 list) result" where
  "rhs_body c1 k1 c2 k2 c3 k3 dir = (\<lambda>(tmp, res_it, ode, alg, quad).
     bind (copy_n (length tmp) res_it) (\<lambda>(tmp, res_it).
     Inr (tmp, res_it, push_if c1 ode (tmp ! k1), push_if c2 alg (tmp ! k2),
          push_if c3 quad (tmp ! k3))))"

text \<open>Source lines 262 to 271: the arguments of the forward derivative of g.\<close>

definition g_arg_body ::
  "IntegratorInternal \<Rightarrow> MX1 \<Rightarrow> MX1 \<Rightarrow> int
     \<Rightarrow> MX1 list \<times> MX1 list \<times> MX1 list \<times> MX1 list \<times> MX1 list \<times> MX1 list \<times> MX1 list \<times> MX1 list
     \<Rightarrow> (MX1 list \<times> MX1 list \<times> MX1 list \<times> MX1 list \<times> MX1 list \<times> MX1 list \<times> MX1 list
          \<times> MX1 list) result" where
  "g_arg_body I aug_t zero_t dir = (\<lambda>(tmp, x_it, z_it, p_it, rx_it, rz_it, rp_it, g_arg).
     let tmp = tmp[RDAE_T := (if dir < 0 then aug_t else zero_t)] in
     bind (deref_if (nx I > 0) tmp RDAE_X x_it) (\<lambda>(tmp, x_it).
     bind (deref_if (nz I > 0) tmp RDAE_Z z_it) (\<lambda>(tmp, z_it).
     bind (deref_if (np I > 0) tmp RDAE_P p_it) (\<lambda>(tmp, p_it).
     bind (deref_if (nrx I > 0) tmp RDAE_RX rx_it) (\<lambda>(tmp, rx_it).
     bind (deref_if (nrz I > 0) tmp RDAE_RZ rz_it) (\<lambda>(tmp, rz_it).
     bind (deref_if (nrp I > 0) tmp RDAE_RP rp_it) (\<lambda>(tmp, rp_it).
     Inr (tmp, x_it, z_it, p_it, rx_it, rz_it, rp_it, g_arg @ tmp))))))))"

text \<open>
  Source lines 302 to 307 and 341 to 346: the adjoint seeds, three iterators each.
\<close>

definition seed_body ::
  "bool \<Rightarrow> nat \<Rightarrow> bool \<Rightarrow> nat \<Rightarrow> bool \<Rightarrow> nat \<Rightarrow> int
     \<Rightarrow> MX1 list \<times> MX1 list \<times> MX1 list \<times> MX1 list \<times> MX1 list
     \<Rightarrow> (MX1 list \<times> MX1 list \<times> MX1 list \<times> MX1 list \<times> MX1 list) result" where
  "seed_body c1 k1 c2 k2 c3 k3 dir = (\<lambda>(tmp, it1, it2, it3, arg).
     bind (deref_if c1 tmp k1 it1) (\<lambda>(tmp, it1).
     bind (deref_if c2 tmp k2 it2) (\<lambda>(tmp, it2).
     bind (deref_if c3 tmp k3 it3) (\<lambda>(tmp, it3).
     Inr (tmp, it1, it2, it3, arg @ tmp)))))"

text \<open>
  Source lines 354 to 360: \<^verbatim>\<open>if(c) v[ind++] += tmp[k];\<close> for three vectors.
\<close>

definition add_at :: "bool \<Rightarrow> MX1 list \<Rightarrow> nat \<Rightarrow> MX1 \<Rightarrow> (MX1 list \<times> nat) result" where
  "add_at c v ind e =
     (if c then (if ind < length v then Inr (v[ind := Add (v ! ind) e], ind + 1)
                 else Inl OutOfRange)
      else Inr (v, ind))"

definition add_body ::
  "IntegratorInternal \<Rightarrow> int
     \<Rightarrow> MX1 list \<times> MX1 list \<times> (MX1 list \<times> nat) \<times> (MX1 list \<times> nat) \<times> (MX1 list \<times> nat)
     \<Rightarrow> (MX1 list \<times> MX1 list \<times> (MX1 list \<times> nat) \<times> (MX1 list \<times> nat) \<times> (MX1 list \<times> nat)) result"
  where
  "add_body I dir = (\<lambda>(tmp, res_it, (g_ode, g_ode_ind), (g_alg, g_alg_ind), (g_quad, g_quad_ind)).
     bind (copy_n (length tmp) res_it) (\<lambda>(tmp, res_it).
     bind (add_at (nx I > 0) g_ode g_ode_ind (tmp ! RDAE_X)) (\<lambda>go.
     bind (add_at (nz I > 0) g_alg g_alg_ind (tmp ! RDAE_Z)) (\<lambda>ga.
     bind (add_at (np I > 0) g_quad g_quad_ind (tmp ! RDAE_P)) (\<lambda>gq.
     Inr (tmp, res_it, go, ga, gq))))))"

text \<open>\<open>skip n it\<close> is \<^verbatim>\<open>res.begin() + n\<close>: an iterator past the first \<open>n\<close> elements.\<close>

definition skip :: "nat \<Rightarrow> 'a list \<Rightarrow> 'a list result" where
  "skip n it = (if length it < n then Inl OutOfRange else Inr (drop n it))"

text \<open>
  Source lines 213 to 245: the forward derivative of f feeds the forward lists. The
  result holds \<^verbatim>\<open>f_arg\<close>, the three lists and the iterators over the blocks of x, z, p.
\<close>

definition forward_f ::
  "IntegratorInternal \<Rightarrow> int \<Rightarrow> MX1 \<Rightarrow> MX1 \<Rightarrow> MX1 list \<Rightarrow> MX1 list \<Rightarrow> MX1 list
     \<Rightarrow> (MX1 list \<times> (MX1 list \<times> MX1 list \<times> MX1 list) \<times> (MX1 list \<times> MX1 list \<times> MX1 list)) result"
  where
  "forward_f I nfwd aug_t zero_t aug_x_split aug_z_split aug_p_split =
     bind (derivative (dae_f I) nfwd 0) (\<lambda>d.
     bind (for_loopE (- 1) nfwd (f_arg_body I aug_t zero_t)
             (replicate DAE_NUM_IN MXNull, aug_x_split, aug_z_split, aug_p_split, []))
       (\<lambda>(tmp, x_it, z_it, p_it, f_arg).
     let res = call d f_arg in
     bind (for_loopE (- 1) nfwd
             (rhs_body (nx I > 0) DAE_ODE (nz I > 0) DAE_ALG (nq I > 0) DAE_QUAD)
             (replicate DAE_NUM_OUT MXNull, res, [], [], []))
       (\<lambda>(tmp, res_it, f_ode, f_alg, f_quad).
     bind (casadi_assert (res_it = []) ''res_it==res.end()'') (\<lambda>_.
     Inr (f_arg, (f_ode, f_alg, f_quad), (x_it, z_it, p_it))))))"

text \<open>Source lines 250 to 289, run when \<^verbatim>\<open>g_\<close> is not null.\<close>

definition forward_g ::
  "IntegratorInternal \<Rightarrow> int \<Rightarrow> MX1 \<Rightarrow> MX1 \<Rightarrow> MX1 list \<Rightarrow> MX1 list \<Rightarrow> MX1 list
     \<Rightarrow> MX1 list \<times> MX1 list \<times> MX1 list
     \<Rightarrow> (MX1 list \<times> (MX1 list \<times> MX1 list \<times> MX1 list) \<times> (MX1 list \<times> MX1 list \<times> MX1 list)
          \<times> (MX1 list \<times> MX1 list \<times> MX1 list)) result"
  where
  "forward_g I nfwd aug_t zero_t aug_x_split aug_z_split aug_p_split = (\<lambda>(rx_it, rz_it, rp_it).
     bind (derivative (dae_g I) nfwd 0) (\<lambda>d.
     bind (for_loopE (- 1) nfwd (g_arg_body I aug_t zero_t)
             (replicate RDAE_NUM_IN MXNull, aug_x_split, aug_z_split, aug_p_split,
              rx_it, rz_it, rp_it, []))
       (\<lambda>(tmp, x_it, z_it, p_it, rx_it, rz_it, rp_it, g_arg).
     let res = call d g_arg in
     bind (for_loopE (- 1) nfwd
             (rhs_body (nrx I > 0) RDAE_ODE (nrz I > 0) RDAE_ALG (nrq I > 0) RDAE_QUAD)
             (replicate RDAE_NUM_OUT MXNull, res, [], [], []))
       (\<lambda>(tmp, res_it, g_ode, g_alg, g_quad).
     bind (casadi_assert (res_it = []) ''res_it==res.end()'') (\<lambda>_.
     Inr (g_arg, (g_ode, g_alg, g_quad), (x_it, z_it, p_it), (rx_it, rz_it, rp_it)))))))"

text \<open>Source lines 294 to 329: the adjoint derivative of f feeds the backward lists.\<close>

definition adjoint_f ::
  "IntegratorInternal \<Rightarrow> int \<Rightarrow> MX1 list \<Rightarrow> MX1 list \<times> MX1 list \<times> MX1 list
     \<Rightarrow> MX1 list \<times> MX1 list \<times> MX1 list
     \<Rightarrow> ((MX1 list \<times> MX1 list \<times> MX1 list) \<times> (nat \<times> nat \<times> nat)
          \<times> (MX1 list \<times> MX1 list \<times> MX1 list)) result"
  where
  "adjoint_f I nadj f_arg = (\<lambda>(g_ode, g_alg, g_quad) (rx_it, rz_it, rp_it).
     bind (derivative (dae_f I) 0 nadj) (\<lambda>d.
     bind (for_loopE 0 nadj
             (seed_body (nx I > 0) DAE_ODE (nz I > 0) DAE_ALG (nq I > 0) DAE_QUAD)
             (replicate DAE_NUM_OUT MXNull, rx_it, rz_it, rp_it, resize DAE_NUM_IN f_arg))
       (\<lambda>(tmp, rx_it, rz_it, rp_it, f_arg).
     let res = call d f_arg in
     bind (skip DAE_NUM_OUT res) (\<lambda>res_it.
     let g_ode_ind = length g_ode; g_alg_ind = length g_alg; g_quad_ind = length g_quad in
     bind (for_loopE 0 nadj
             (rhs_body (nx I > 0) DAE_X (nz I > 0) DAE_Z (np I > 0) DAE_P)
             (resize DAE_NUM_IN tmp, res_it, g_ode, g_alg, g_quad))
       (\<lambda>(tmp, res_it, g_ode, g_alg, g_quad).
     bind (casadi_assert (res_it = []) ''res_it==res.end()'') (\<lambda>_.
     Inr ((g_ode, g_alg, g_quad), (g_ode_ind, g_alg_ind, g_quad_ind),
          (rx_it, rz_it, rp_it))))))))"

text \<open>
  Source lines 368 to 370: the backward seeds among the nondifferentiated arguments are
  replaced by zeros of their sparsity.
\<close>

definition zero_seeds :: "IntegratorInternal \<Rightarrow> MX1 list \<Rightarrow> MX1 list" where
  "zero_seeds I g_arg =
     (let g_arg = (if nrx I > 0
                   then g_arg[RDAE_RX := Zeros (mx_sparsity (g_arg ! RDAE_RX))] else g_arg);
          g_arg = (if nrz I > 0
                   then g_arg[RDAE_RZ := Zeros (mx_sparsity (g_arg ! RDAE_RZ))] else g_arg);
          g_arg = (if nrp I > 0
                   then g_arg[RDAE_RP := Zeros (mx_sparsity (g_arg ! RDAE_RP))] else g_arg)
      in g_arg)"

text \<open>
  Source lines 333 to 387, run when \<^verbatim>\<open>g_\<close> is not null: the adjoint derivative of g is
  added to the backward lists, and, called again with zero backward seeds, feeds the
  forward lists.
\<close>

definition adjoint_g ::
  "IntegratorInternal \<Rightarrow> int \<Rightarrow> MX1 list \<Rightarrow> MX1 list \<times> MX1 list \<times> MX1 list
     \<Rightarrow> MX1 list \<times> MX1 list \<times> MX1 list \<Rightarrow> nat \<times> nat \<times> nat
     \<Rightarrow> MX1 list \<times> MX1 list \<times> MX1 list
     \<Rightarrow> ((MX1 list \<times> MX1 list \<times> MX1 list) \<times> (MX1 list \<times> MX1 list \<times> MX1 list)
          \<times> (MX1 list \<times> MX1 list \<times> MX1 list)) result"
  where
  "adjoint_g I nadj g_arg = (\<lambda>(f_ode, f_alg, f_quad) (g_ode, g_alg, g_quad)
       (g_ode_ind, g_alg_ind, g_quad_ind) (x_it, z_it, p_it).
     bind (derivative (dae_g I) 0 nadj) (\<lambda>d.
     bind (for_loopE 0 nadj
             (seed_body (nrx I > 0) RDAE_ODE (nrz I > 0) RDAE_ALG (nrq I > 0) RDAE_QUAD)
             (replicate RDAE_NUM_OUT MXNull, x_it, z_it, p_it, resize RDAE_NUM_IN g_arg))
       (\<lambda>(tmp, x_it, z_it, p_it, g_arg).
     let res = call d g_arg in
     bind (skip RDAE_NUM_OUT res) (\<lambda>res_it.
     bind (for_loopE 0 nadj (add_body I)
             (resize RDAE_NUM_IN tmp, res_it, (g_ode, g_ode_ind), (g_alg, g_alg_ind),
              (g_quad, g_quad_ind)))
       (\<lambda>(tmp, res_it, (g_ode, g_ode_ind), (g_alg, g_alg_ind), (g_quad, g_quad_ind)).
     bind (casadi_assert (g_ode_ind = length g_ode) ''g_ode_ind == g_ode.size()'') (\<lambda>_.
     bind (casadi_assert (g_alg_ind = length g_alg) ''g_alg_ind == g_alg.size()'') (\<lambda>_.
     bind (casadi_assert (g_quad_ind = length g_quad) ''g_quad_ind == g_quad.size()'') (\<lambda>_.
     let res = call d (zero_seeds I g_arg) in
     bind (skip RDAE_NUM_OUT res) (\<lambda>res_it.
     bind (for_loopE 0 nadj
             (rhs_body (nrx I > 0) RDAE_RX (nrz I > 0) RDAE_RZ (nrp I > 0) RDAE_RP)
             (resize RDAE_NUM_IN tmp, res_it, f_ode, f_alg, f_quad))
       (\<lambda>(tmp, res_it, f_ode, f_alg, f_quad).
     bind (casadi_assert (res_it = []) ''res_it==res.end()'') (\<lambda>_.
     Inr ((f_ode, f_alg, f_quad), (g_ode, g_alg, g_quad), (x_it, z_it, p_it)))))))))))))"

text \<open>
  Source lines 397 to 442. An output that received no block stays the empty expression.
\<close>

definition vertcat_out :: "MX1 list \<Rightarrow> MX1" where
  "vertcat_out v = (if v \<noteq> [] then Densify (Vertcat v) else MXNull)"

definition expand_if :: "bool \<Rightarrow> FX \<Rightarrow> FX" where
  "expand_if expand f_mx = (if expand then SXFunction f_mx else f_mx)"

text \<open>
  The symbols of the augmented problem (source lines 188 to 194) and their blocks (lines
  197 to 202), as functions of what they are built from: the buffers of the integrator
  and the offsets.
\<close>

definition aug_x :: "IntegratorInternal \<Rightarrow> AugOffset \<Rightarrow> MX1" where
  "aug_x I offset = msym ''aug_x'' (last (off_x offset)) (size2 (sparsity (input_x0 I)))"

definition aug_z :: "IntegratorInternal \<Rightarrow> AugOffset \<Rightarrow> MX1" where
  "aug_z I offset = msym ''aug_z'' (last (off_z offset))
     (max (size2 (sparsity (input_z0 I))) (size2 (sparsity (input_rz0 I))))"

definition aug_p :: "IntegratorInternal \<Rightarrow> AugOffset \<Rightarrow> MX1" where
  "aug_p I offset = msym ''aug_p'' (last (off_p offset))
     (max (size2 (sparsity (input_p I))) (size2 (sparsity (input_rp I))))"

definition aug_rx :: "IntegratorInternal \<Rightarrow> AugOffset \<Rightarrow> MX1" where
  "aug_rx I offset = msym ''aug_rx'' (last (off_rx offset)) (size2 (sparsity (input_x0 I)))"

definition aug_rz :: "IntegratorInternal \<Rightarrow> AugOffset \<Rightarrow> MX1" where
  "aug_rz I offset = msym ''aug_rz'' (last (off_rz offset))
     (max (size2 (sparsity (input_z0 I))) (size2 (sparsity (input_rz0 I))))"

definition aug_rp :: "IntegratorInternal \<Rightarrow> AugOffset \<Rightarrow> MX1" where
  "aug_rp I offset = msym ''aug_rp'' (last (off_rp offset))
     (max (size2 (sparsity (output_qf I))) (size2 (sparsity (input_rp I))))"

definition aug_x_split :: "IntegratorInternal \<Rightarrow> AugOffset \<Rightarrow> MX1 list" where
  "aug_x_split I offset = vertsplit (aug_x I offset) (off_x offset)"

definition aug_z_split :: "IntegratorInternal \<Rightarrow> AugOffset \<Rightarrow> MX1 list" where
  "aug_z_split I offset = vertsplit (aug_z I offset) (off_z offset)"

definition aug_p_split :: "IntegratorInternal \<Rightarrow> AugOffset \<Rightarrow> MX1 list" where
  "aug_p_split I offset = vertsplit (aug_p I offset) (off_p offset)"

definition aug_rx_split :: "IntegratorInternal \<Rightarrow> AugOffset \<Rightarrow> MX1 list" where
  "aug_rx_split I offset = vertsplit (aug_rx I offset) (off_rx offset)"

definition aug_rz_split :: "IntegratorInternal \<Rightarrow> AugOffset \<Rightarrow> MX1 list" where
  "aug_rz_split I offset = vertsplit (aug_rz I offset) (off_rz offset)"

definition aug_rp_split :: "IntegratorInternal \<Rightarrow> AugOffset \<Rightarrow> MX1 list" where
  "aug_rp_split I offset = vertsplit (aug_rp I offset) (off_rp offset)"

text \<open>
  The inputs \<^verbatim>\<open>f_in\<close>, \<^verbatim>\<open>g_in\<close> and the outputs \<^verbatim>\<open>f_out\<close>, \<^verbatim>\<open>g_out\<close> of the two functions
  that are formed (source lines 401 to 408 and 422 to 432).
\<close>

definition f_in :: "IntegratorInternal \<Rightarrow> MX1 \<Rightarrow> AugOffset \<Rightarrow> MX1 list" where
  "f_in I aug_t offset =
     (replicate DAE_NUM_IN MXNull)
       [DAE_T := aug_t, DAE_X := aug_x I offset, DAE_Z := aug_z I offset,
        DAE_P := aug_p I offset]"

definition g_in :: "IntegratorInternal \<Rightarrow> MX1 \<Rightarrow> AugOffset \<Rightarrow> MX1 list" where
  "g_in I aug_t offset =
     (replicate RDAE_NUM_IN MXNull)
       [RDAE_T := aug_t, RDAE_X := aug_x I offset, RDAE_Z := aug_z I offset,
        RDAE_P := aug_p I offset, RDAE_RX := aug_rx I offset, RDAE_RZ := aug_rz I offset,
        RDAE_RP := aug_rp I offset]"

definition f_out :: "MX1 list \<Rightarrow> MX1 list \<Rightarrow> MX1 list \<Rightarrow> MX1 list" where
  "f_out f_ode f_alg f_quad =
     (replicate DAE_NUM_OUT MXNull)
       [DAE_ODE := vertcat_out f_ode, DAE_ALG := vertcat_out f_alg,
        DAE_QUAD := vertcat_out f_quad]"

definition g_out :: "MX1 list \<Rightarrow> MX1 list \<Rightarrow> MX1 list \<Rightarrow> MX1 list" where
  "g_out g_ode g_alg g_quad =
     (replicate RDAE_NUM_OUT MXNull)
       [RDAE_ODE := vertcat_out g_ode, RDAE_ALG := vertcat_out g_alg,
        RDAE_QUAD := vertcat_out g_quad]"

definition getAugmented ::
  "IntegratorInternal \<Rightarrow> int \<Rightarrow> int \<Rightarrow> ((FX \<times> FX) \<times> AugOffset) result" where
  "getAugmented I nfwd nadj =
     (let offset = getAugOffset I nfwd nadj in
      bind (fx_node (dae_f I)) (\<lambda>f.
      bind (port (fx_input f) DAE_T) (\<lambda>sp_t.
      let aug_t = Sym ''aug_t'' sp_t; zero_t = Zeros sp_t in
      bind (forward_f I nfwd aug_t zero_t
              (aug_x_split I offset) (aug_z_split I offset) (aug_p_split I offset))
        (\<lambda>(f_arg, fs, its).
      bind (if dae_g I \<noteq> FXNull
            then forward_g I nfwd aug_t zero_t
                   (aug_x_split I offset) (aug_z_split I offset) (aug_p_split I offset)
                   (aug_rx_split I offset, aug_rz_split I offset, aug_rp_split I offset)
            else Inr ([], ([], [], []), its,
                      (aug_rx_split I offset, aug_rz_split I offset, aug_rp_split I offset)))
        (\<lambda>(g_arg, gs, its, rits).
      bind (if nadj > 0
            then bind (adjoint_f I nadj f_arg gs rits) (\<lambda>(gs, inds, rits).
                 if dae_g I \<noteq> FXNull
                 then bind (adjoint_g I nadj g_arg fs gs inds its) (\<lambda>(fs, gs, its).
                      Inr (fs, gs, its, rits))
                 else Inr (fs, gs, its, rits))
            else Inr (fs, gs, its, rits))
        (\<lambda>((f_ode, f_alg, f_quad), (g_ode, g_alg, g_quad),
            (x_it, z_it, p_it), (rx_it, rz_it, rp_it)).
      bind (bind (getOption ''expand_augmented'' I) toBool) (\<lambda>expand.
      let expand = (expand \<and> is_a_SXFunction (dae_f I)
                    \<and> (dae_g I = FXNull \<or> is_a_SXFunction (dae_g I)));
          first = (if dae_g I = FXNull \<and> nfwd = 0 then dae_f I
                   else expand_if expand
                          (MXFunction (f_in I aug_t offset) (f_out f_ode f_alg f_quad)));
          second = (if g_ode \<noteq> []
                    then expand_if expand
                           (MXFunction (g_in I aug_t offset) (g_out g_ode g_alg g_quad))
                    else FXNull)
      in
      bind (casadi_assert (x_it = []) ''aug_x_split_it == aug_x_split.end()'') (\<lambda>_.
      bind (casadi_assert (z_it = []) ''aug_z_split_it == aug_z_split.end()'') (\<lambda>_.
      bind (casadi_assert (p_it = []) ''aug_p_split_it == aug_p_split.end()'') (\<lambda>_.
      bind (casadi_assert (rx_it = []) ''aug_rx_split_it == aug_rx_split.end()'') (\<lambda>_.
      bind (casadi_assert (rz_it = []) ''aug_rz_split_it == aug_rz_split.end()'') (\<lambda>_.
      bind (casadi_assert (rp_it = []) ''aug_rp_split_it == aug_rp_split.end()'') (\<lambda>_.
      Inr ((first, second), offset))))))))))))))"

text \<open>
  The scenario of spec section 8 for the augmented problem: two states, no algebraic
  variable, one parameter, no backward problem.
\<close>

definition scenario_forward_f :: FXNode where
  "scenario_forward_f =
     \<lparr>fx_name = ''f'', fx_is_SXFunction = False,
      fx_input = [sp_dense 1 1, sp_dense 2 1, sp_dense 0 0, sp_dense 1 1],
      fx_output = [sp_dense 2 1, sp_dense 0 0, sp_dense 0 0]\<rparr>"

definition scenario_forward :: IntegratorInternal where
  "scenario_forward =
     with_linsol ((init_allocate scenario_forward_f None
        (IntegratorInternal_ctor (FXRef scenario_forward_f) FXNull))\<lparr>t0 := 0, tf := 1\<rparr>)"

subsection \<open>The loops of getAugmented in closed form\<close>

lemma for_loopE_step:
  "i < n \<Longrightarrow> for_loopE i n body s =
     (case body i s of Inl e \<Rightarrow> Inl e | Inr s' \<Rightarrow> for_loopE (i + 1) n body s')"
  by (subst for_loopE.simps) simp

lemma for_loopE_done: "\<not> i < n \<Longrightarrow> for_loopE i n body s = Inr s"
  by (subst for_loopE.simps) simp

lemma for_loopE_count:
  assumes "\<And>j. j < k \<Longrightarrow> body (a + int j) (st j) = Inr (st (Suc j))"
  shows "for_loopE a (a + int k) body (st 0) = Inr (st k)"
  using assms
proof (induction k arbitrary: a st)
  case 0
  show ?case by (simp add: for_loopE_done)
next
  case (Suc k)
  have b: "body a (st 0) = Inr (st (Suc 0))"
    using Suc.prems [of 0] by simp
  have r: "for_loopE (a + 1) ((a + 1) + int k) body (st (Suc 0)) = Inr (st (Suc k))"
  proof (rule Suc.IH [where st = "\<lambda>j. st (Suc j)"])
    fix j assume j: "j < k"
    have e: "a + 1 + int j = a + int (Suc j)" by simp
    show "body (a + 1 + int j) (st (Suc j)) = Inr (st (Suc (Suc j)))"
      unfolding e by (rule Suc.prems) (use j in simp)
  qed
  have e: "a + int (Suc k) = (a + 1) + int k" by simp
  have lt: "a < (a + 1) + int k" by simp
  show ?case
    unfolding e for_loopE_step [OF lt] b sum.case by (rule r)
qed

text \<open>
  What the loops leave behind: \<open>adv c j xs\<close> is an iterator over \<open>xs\<close> that was advanced \<open>j\<close>
  times under the guard \<open>c\<close>, and \<open>pick c xs j\<close> the content of a slot that was assigned
  element \<open>j\<close> under that guard and is empty otherwise.
\<close>

definition adv :: "bool \<Rightarrow> nat \<Rightarrow> 'a list \<Rightarrow> 'a list" where
  "adv c j xs = (if c then drop j xs else xs)"

definition pick :: "bool \<Rightarrow> 'c MX list \<Rightarrow> nat \<Rightarrow> 'c MX" where
  "pick c xs j = (if c then xs ! j else MXNull)"

lemma adv_0 [simp]: "adv c 0 xs = xs"
  by (simp add: adv_def)

lemma deref_if_adv:
  assumes "c \<longrightarrow> j < length xs"
  shows "deref_if c tmp k (adv c j xs) = Inr (if c then tmp[k := xs ! j] else tmp, adv c (Suc j) xs)"
proof (cases c)
  case False
  then show ?thesis by (simp add: deref_if_def adv_def)
next
  case True
  with assms have "drop j xs = xs ! j # drop (Suc j) xs"
    by (simp add: Cons_nth_drop_Suc)
  with True show ?thesis by (simp add: deref_if_def adv_def)
qed

text \<open>
  \<open>chunk m it j\<close> are the \<open>m\<close> results copied in round \<open>j\<close>, and \<open>picks c m s it k\<close> the
  elements pushed in \<open>k\<close> rounds from slot \<open>s\<close> under the guard \<open>c\<close>.
\<close>

definition chunk :: "nat \<Rightarrow> 'a list \<Rightarrow> nat \<Rightarrow> 'a list" where
  "chunk m it j = take m (drop (m * j) it)"

definition picks :: "bool \<Rightarrow> nat \<Rightarrow> nat \<Rightarrow> 'a list \<Rightarrow> nat \<Rightarrow> 'a list" where
  "picks c m s it k = (if c then map (\<lambda>j. it ! (m * j + s)) [0..<k] else [])"

lemma picks_0 [simp]: "picks c m s it 0 = []"
  by (simp add: picks_def)

lemma picks_Suc: "picks c m s it (Suc k) = picks c m s it k @ (if c then [it ! (m * k + s)] else [])"
  by (simp add: picks_def)

lemma copy_n_drop:
  assumes "m * Suc j \<le> length it"
  shows "copy_n m (drop (m * j) it) = Inr (chunk m it j, drop (m * Suc j) it)"
proof -
  have "drop m (drop (m * j) it) = drop (m * Suc j) it"
    by (simp add: add.commute)
  with assms show ?thesis by (simp add: copy_n_def chunk_def)
qed

lemma chunk_nth: "m * Suc j \<le> length it \<Longrightarrow> s < m \<Longrightarrow> chunk m it j ! s = it ! (m * j + s)"
  by (simp add: chunk_def)

lemma length_chunk: "m * Suc j \<le> length it \<Longrightarrow> length (chunk m it j) = m"
  by (simp add: chunk_def)

lemma rhs_loop:
  assumes "length tmp0 = m" "m * k \<le> length it" "k1 < m" "k2 < m" "k3 < m"
  shows "for_loopE a (a + int k) (rhs_body c1 k1 c2 k2 c3 k3) (tmp0, it, ode, alg, quad) =
           Inr (if k = 0 then tmp0 else chunk m it (k - 1), drop (m * k) it,
                ode @ picks c1 m k1 it k, alg @ picks c2 m k2 it k, quad @ picks c3 m k3 it k)"
proof -
  let ?st = "\<lambda>j. (if j = 0 then tmp0 else chunk m it (j - 1), drop (m * j) it,
                ode @ picks c1 m k1 it j, alg @ picks c2 m k2 it j, quad @ picks c3 m k3 it j)"
  have "for_loopE a (a + int k) (rhs_body c1 k1 c2 k2 c3 k3) (?st 0) = Inr (?st k)"
  proof (rule for_loopE_count)
    fix j assume j: "j < k"
    then have le: "m * Suc j \<le> length it"
      using assms(2) by (meson Suc_leI le_trans mult_le_mono2)
    have len: "length (if j = 0 then tmp0 else chunk m it (j - 1)) = m"
    proof (cases j)
      case 0
      then show ?thesis using assms(1) by simp
    next
      case (Suc i)
      then have "m * Suc i \<le> length it" using le by simp
      then show ?thesis using Suc by (simp add: length_chunk)
    qed
    show "rhs_body c1 k1 c2 k2 c3 k3 (a + int j) (?st j) = Inr (?st (Suc j))"
      unfolding rhs_body_def prod.case len
      by (simp add: copy_n_drop [OF le] chunk_nth [OF le] assms(3-5) picks_Suc push_if_def)
  qed
  then show ?thesis by simp
qed

text \<open>The group of arguments that direction \<open>j\<close> (counted from 0) contributes.\<close>

lemma replicate_enum:
  "replicate DAE_NUM_IN (x::'a) = [x, x, x, x]"
  "replicate DAE_NUM_OUT x = [x, x, x]"
  "replicate RDAE_NUM_IN x = [x, x, x, x, x, x, x]"
  "replicate RDAE_NUM_OUT x = [x, x, x]"
  by (simp_all add: dae_scheme_defs rdae_scheme_defs numeral_eq_Suc)

definition f_arg_group ::
  "IntegratorInternal \<Rightarrow> MX1 \<Rightarrow> MX1 \<Rightarrow> MX1 list \<Rightarrow> MX1 list \<Rightarrow> MX1 list \<Rightarrow> nat \<Rightarrow> MX1 list" where
  "f_arg_group I aug_t zero_t xs zs ps j =
     (replicate DAE_NUM_IN MXNull)
       [DAE_T := (if j = 0 then aug_t else zero_t),
        DAE_X := pick (nx I > 0) xs j,
        DAE_Z := pick (nz I > 0) zs j,
        DAE_P := pick (np I > 0) ps j]"

lemma f_arg_group_eq:
  "f_arg_group I aug_t zero_t xs zs ps j =
     [if j = 0 then aug_t else zero_t, pick (nx I > 0) xs j, pick (nz I > 0) zs j,
      pick (np I > 0) ps j]"
  by (simp add: f_arg_group_def replicate_enum) (simp add: dae_scheme_defs)

lemma f_arg_step:
  assumes "nx I > 0 \<longrightarrow> j < length xs" "nz I > 0 \<longrightarrow> j < length zs" "np I > 0 \<longrightarrow> j < length ps"
    and tmp: "tmp = replicate DAE_NUM_IN MXNull \<or> tmp = f_arg_group I aug_t zero_t xs zs ps i"
  shows "f_arg_body I aug_t zero_t (- 1 + int j)
           (tmp, adv (nx I > 0) j xs, adv (nz I > 0) j zs, adv (np I > 0) j ps, arg) =
         Inr (f_arg_group I aug_t zero_t xs zs ps j,
              adv (nx I > 0) (Suc j) xs, adv (nz I > 0) (Suc j) zs, adv (np I > 0) (Suc j) ps,
              arg @ f_arg_group I aug_t zero_t xs zs ps j)"
proof -
  have t: "(- 1 + int j < 0) = (j = 0)" by auto
  obtain a b c d where tmp4: "tmp = [a, b, c, d]"
    "\<not> nx I > 0 \<longrightarrow> b = MXNull" "\<not> nz I > 0 \<longrightarrow> c = MXNull" "\<not> np I > 0 \<longrightarrow> d = MXNull"
    using tmp by (auto simp: replicate_enum f_arg_group_eq pick_def)
  show ?thesis
    unfolding f_arg_body_def prod.case Let_def t tmp4(1) f_arg_group_eq
    using tmp4(2-4)
    by (simp add: deref_if_adv assms(1-3) dae_scheme_defs pick_def)
qed

lemma f_arg_loop:
  assumes "nx I > 0 \<longrightarrow> k \<le> length xs" "nz I > 0 \<longrightarrow> k \<le> length zs"
    "np I > 0 \<longrightarrow> k \<le> length ps"
  shows "for_loopE (- 1) (- 1 + int k) (f_arg_body I aug_t zero_t)
           (replicate DAE_NUM_IN MXNull, xs, zs, ps, arg) =
         Inr (if k = 0 then replicate DAE_NUM_IN MXNull
              else f_arg_group I aug_t zero_t xs zs ps (k - 1),
              adv (nx I > 0) k xs, adv (nz I > 0) k zs, adv (np I > 0) k ps,
              arg @ concat (map (f_arg_group I aug_t zero_t xs zs ps) [0..<k]))"
proof -
  let ?g = "f_arg_group I aug_t zero_t xs zs ps"
  let ?st = "\<lambda>j. (if j = 0 then replicate DAE_NUM_IN MXNull else ?g (j - 1),
              adv (nx I > 0) j xs, adv (nz I > 0) j zs, adv (np I > 0) j ps,
              arg @ concat (map ?g [0..<j]))"
  have "for_loopE (- 1) (- 1 + int k) (f_arg_body I aug_t zero_t) (?st 0) = Inr (?st k)"
  proof (rule for_loopE_count)
    fix j assume j: "j < k"
    have "f_arg_body I aug_t zero_t (- 1 + int j)
            (if j = 0 then replicate DAE_NUM_IN MXNull else ?g (j - 1),
             adv (nx I > 0) j xs, adv (nz I > 0) j zs, adv (np I > 0) j ps,
             arg @ concat (map ?g [0..<j])) =
          Inr (?g j, adv (nx I > 0) (Suc j) xs, adv (nz I > 0) (Suc j) zs,
               adv (np I > 0) (Suc j) ps, (arg @ concat (map ?g [0..<j])) @ ?g j)"
      by (rule f_arg_step) (use j assms in auto)
    then show "f_arg_body I aug_t zero_t (- 1 + int j) (?st j) = Inr (?st (Suc j))"
      by simp
  qed
  then show ?thesis by simp
qed

definition g_arg_group ::
  "IntegratorInternal \<Rightarrow> MX1 \<Rightarrow> MX1 \<Rightarrow> MX1 list \<Rightarrow> MX1 list \<Rightarrow> MX1 list
     \<Rightarrow> MX1 list \<Rightarrow> MX1 list \<Rightarrow> MX1 list \<Rightarrow> nat \<Rightarrow> MX1 list" where
  "g_arg_group I aug_t zero_t xs zs ps rxs rzs rps j =
     (replicate RDAE_NUM_IN MXNull)
       [RDAE_T := (if j = 0 then aug_t else zero_t),
        RDAE_X := pick (nx I > 0) xs j,
        RDAE_Z := pick (nz I > 0) zs j,
        RDAE_P := pick (np I > 0) ps j,
        RDAE_RX := pick (nrx I > 0) rxs j,
        RDAE_RZ := pick (nrz I > 0) rzs j,
        RDAE_RP := pick (nrp I > 0) rps j]"

lemma g_arg_group_eq:
  "g_arg_group I aug_t zero_t xs zs ps rxs rzs rps j =
     [if j = 0 then aug_t else zero_t, pick (nx I > 0) xs j, pick (nz I > 0) zs j,
      pick (np I > 0) ps j, pick (nrx I > 0) rxs j, pick (nrz I > 0) rzs j,
      pick (nrp I > 0) rps j]"
  by (simp add: g_arg_group_def replicate_enum) (simp add: rdae_scheme_defs)

lemma g_arg_step:
  assumes "nx I > 0 \<longrightarrow> j < length xs" "nz I > 0 \<longrightarrow> j < length zs" "np I > 0 \<longrightarrow> j < length ps"
    "nrx I > 0 \<longrightarrow> j < length rxs" "nrz I > 0 \<longrightarrow> j < length rzs" "nrp I > 0 \<longrightarrow> j < length rps"
    and tmp: "tmp = replicate RDAE_NUM_IN MXNull
              \<or> tmp = g_arg_group I aug_t zero_t xs zs ps rxs rzs rps i"
  shows "g_arg_body I aug_t zero_t (- 1 + int j)
           (tmp, adv (nx I > 0) j xs, adv (nz I > 0) j zs, adv (np I > 0) j ps,
            adv (nrx I > 0) j rxs, adv (nrz I > 0) j rzs, adv (nrp I > 0) j rps, arg) =
         Inr (g_arg_group I aug_t zero_t xs zs ps rxs rzs rps j,
              adv (nx I > 0) (Suc j) xs, adv (nz I > 0) (Suc j) zs, adv (np I > 0) (Suc j) ps,
              adv (nrx I > 0) (Suc j) rxs, adv (nrz I > 0) (Suc j) rzs,
              adv (nrp I > 0) (Suc j) rps,
              arg @ g_arg_group I aug_t zero_t xs zs ps rxs rzs rps j)"
proof -
  have t: "(- 1 + int j < 0) = (j = 0)" by auto
  obtain a b c d e f g where tmp7: "tmp = [a, b, c, d, e, f, g]"
    "\<not> nx I > 0 \<longrightarrow> b = MXNull" "\<not> nz I > 0 \<longrightarrow> c = MXNull" "\<not> np I > 0 \<longrightarrow> d = MXNull"
    "\<not> nrx I > 0 \<longrightarrow> e = MXNull" "\<not> nrz I > 0 \<longrightarrow> f = MXNull" "\<not> nrp I > 0 \<longrightarrow> g = MXNull"
    using tmp by (auto simp: replicate_enum g_arg_group_eq pick_def)
  show ?thesis
    unfolding g_arg_body_def prod.case Let_def t tmp7(1) g_arg_group_eq
    using tmp7(2-7)
    by (simp add: deref_if_adv assms(1-6) rdae_scheme_defs pick_def)
qed

lemma g_arg_loop:
  assumes "nx I > 0 \<longrightarrow> k \<le> length xs" "nz I > 0 \<longrightarrow> k \<le> length zs"
    "np I > 0 \<longrightarrow> k \<le> length ps" "nrx I > 0 \<longrightarrow> k \<le> length rxs"
    "nrz I > 0 \<longrightarrow> k \<le> length rzs" "nrp I > 0 \<longrightarrow> k \<le> length rps"
  shows "for_loopE (- 1) (- 1 + int k) (g_arg_body I aug_t zero_t)
           (replicate RDAE_NUM_IN MXNull, xs, zs, ps, rxs, rzs, rps, arg) =
         Inr (if k = 0 then replicate RDAE_NUM_IN MXNull
              else g_arg_group I aug_t zero_t xs zs ps rxs rzs rps (k - 1),
              adv (nx I > 0) k xs, adv (nz I > 0) k zs, adv (np I > 0) k ps,
              adv (nrx I > 0) k rxs, adv (nrz I > 0) k rzs, adv (nrp I > 0) k rps,
              arg @ concat (map (g_arg_group I aug_t zero_t xs zs ps rxs rzs rps) [0..<k]))"
proof -
  let ?g = "g_arg_group I aug_t zero_t xs zs ps rxs rzs rps"
  let ?st = "\<lambda>j. (if j = 0 then replicate RDAE_NUM_IN MXNull else ?g (j - 1),
              adv (nx I > 0) j xs, adv (nz I > 0) j zs, adv (np I > 0) j ps,
              adv (nrx I > 0) j rxs, adv (nrz I > 0) j rzs, adv (nrp I > 0) j rps,
              arg @ concat (map ?g [0..<j]))"
  have "for_loopE (- 1) (- 1 + int k) (g_arg_body I aug_t zero_t) (?st 0) = Inr (?st k)"
  proof (rule for_loopE_count)
    fix j assume j: "j < k"
    have "g_arg_body I aug_t zero_t (- 1 + int j)
            (if j = 0 then replicate RDAE_NUM_IN MXNull else ?g (j - 1),
             adv (nx I > 0) j xs, adv (nz I > 0) j zs, adv (np I > 0) j ps,
             adv (nrx I > 0) j rxs, adv (nrz I > 0) j rzs, adv (nrp I > 0) j rps,
             arg @ concat (map ?g [0..<j])) =
          Inr (?g j, adv (nx I > 0) (Suc j) xs, adv (nz I > 0) (Suc j) zs,
               adv (np I > 0) (Suc j) ps, adv (nrx I > 0) (Suc j) rxs,
               adv (nrz I > 0) (Suc j) rzs, adv (nrp I > 0) (Suc j) rps,
               (arg @ concat (map ?g [0..<j])) @ ?g j)"
      by (rule g_arg_step) (use j assms in auto)
    then show "g_arg_body I aug_t zero_t (- 1 + int j) (?st j) = Inr (?st (Suc j))"
      by simp
  qed
  then show ?thesis by simp
qed

text \<open>The adjoint seeds of direction \<open>j\<close>, and the loops that collect them.\<close>

definition seed_group :: "bool \<Rightarrow> MX1 list \<Rightarrow> bool \<Rightarrow> MX1 list \<Rightarrow> bool \<Rightarrow> MX1 list \<Rightarrow> nat \<Rightarrow> MX1 list"
  where
  "seed_group c1 it1 c2 it2 c3 it3 j = [pick c1 it1 j, pick c2 it2 j, pick c3 it3 j]"

lemma seed_step:
  assumes "c1 \<longrightarrow> j < length it1" "c2 \<longrightarrow> j < length it2" "c3 \<longrightarrow> j < length it3"
    and tmp: "tmp = [MXNull, MXNull, MXNull] \<or> tmp = seed_group c1 it1 c2 it2 c3 it3 i"
  shows "seed_body c1 0 c2 (Suc 0) c3 2 d
           (tmp, adv c1 j it1, adv c2 j it2, adv c3 j it3, arg) =
         Inr (seed_group c1 it1 c2 it2 c3 it3 j,
              adv c1 (Suc j) it1, adv c2 (Suc j) it2, adv c3 (Suc j) it3,
              arg @ seed_group c1 it1 c2 it2 c3 it3 j)"
proof -
  obtain a b c where tmp3: "tmp = [a, b, c]"
    "\<not> c1 \<longrightarrow> a = MXNull" "\<not> c2 \<longrightarrow> b = MXNull" "\<not> c3 \<longrightarrow> c = MXNull"
    using tmp by (auto simp: seed_group_def pick_def)
  show ?thesis
    unfolding seed_body_def prod.case tmp3(1) seed_group_def
    using tmp3(2-4)
    by (simp add: deref_if_adv assms(1-3) pick_def)
qed

lemma seed_loop:
  assumes "c1 \<longrightarrow> k \<le> length it1" "c2 \<longrightarrow> k \<le> length it2" "c3 \<longrightarrow> k \<le> length it3"
  shows "for_loopE 0 (int k) (seed_body c1 0 c2 (Suc 0) c3 2)
           ([MXNull, MXNull, MXNull], it1, it2, it3, arg) =
         Inr (if k = 0 then [MXNull, MXNull, MXNull]
              else seed_group c1 it1 c2 it2 c3 it3 (k - 1),
              adv c1 k it1, adv c2 k it2, adv c3 k it3,
              arg @ concat (map (seed_group c1 it1 c2 it2 c3 it3) [0..<k]))"
proof -
  let ?g = "seed_group c1 it1 c2 it2 c3 it3"
  let ?st = "\<lambda>j. (if j = 0 then [MXNull, MXNull, MXNull] else ?g (j - 1),
              adv c1 j it1, adv c2 j it2, adv c3 j it3, arg @ concat (map ?g [0..<j]))"
  have "for_loopE 0 (0 + int k) (seed_body c1 0 c2 (Suc 0) c3 2) (?st 0) = Inr (?st k)"
  proof (rule for_loopE_count)
    fix j assume j: "j < k"
    have "seed_body c1 0 c2 (Suc 0) c3 2 (0 + int j)
            (if j = 0 then [MXNull, MXNull, MXNull] else ?g (j - 1),
             adv c1 j it1, adv c2 j it2, adv c3 j it3, arg @ concat (map ?g [0..<j])) =
          Inr (?g j, adv c1 (Suc j) it1, adv c2 (Suc j) it2, adv c3 (Suc j) it3,
               (arg @ concat (map ?g [0..<j])) @ ?g j)"
      by (rule seed_step) (use j assms in auto)
    then show "seed_body c1 0 c2 (Suc 0) c3 2 (0 + int j) (?st j) = Inr (?st (Suc j))"
      by simp
  qed
  then show ?thesis by simp
qed

text \<open>
  The loop that adds to the entries \<open>ind\<close>, \<open>ind + 1\<close>, ... of a list: \<open>added\<close> is the list
  and \<open>bump\<close> the index after \<open>k\<close> rounds.
\<close>

definition added :: "bool \<Rightarrow> MX1 list \<Rightarrow> nat \<Rightarrow> nat \<Rightarrow> nat \<Rightarrow> MX1 list \<Rightarrow> nat \<Rightarrow> MX1 list" where
  "added c v ind m s it k =
     (if c then take ind v @ map (\<lambda>j. Add (v ! (ind + j)) (it ! (m * j + s))) [0..<k]
                  @ drop (ind + k) v
      else v)"

definition bump :: "bool \<Rightarrow> nat \<Rightarrow> nat \<Rightarrow> nat" where
  "bump c ind k = (if c then ind + k else ind)"

lemma added_0 [simp]: "added c v ind m s it 0 = v"
  by (simp add: added_def)

lemma bump_0 [simp]: "bump c ind 0 = ind"
  by (simp add: bump_def)

lemma nth_mid: "length pre = n \<Longrightarrow> (pre @ x # post) ! n = x"
  by (simp add: nth_append)

lemma upd_mid: "length pre = n \<Longrightarrow> (pre @ x # post)[n := e] = pre @ e # post"
  by (simp add: list_update_append)

lemma add_at_added:
  assumes "c \<longrightarrow> ind + j < length v"
  shows "add_at c (added c v ind m s it j) (bump c ind j) (it ! (m * j + s)) =
           Inr (added c v ind m s it (Suc j), bump c ind (Suc j))"
proof (cases c)
  case False
  then show ?thesis by (simp add: add_at_def added_def bump_def)
next
  case True
  define pre where "pre = take ind v @ map (\<lambda>j. Add (v ! (ind + j)) (it ! (m * j + s))) [0..<j]"
  define post where "post = drop (ind + Suc j) v"
  have l: "length pre = ind + j"
    using assms True by (simp add: pre_def)
  have d: "drop (ind + j) v = v ! (ind + j) # post"
    using assms True by (simp add: Cons_nth_drop_Suc post_def)
  have a: "added c v ind m s it j = pre @ v ! (ind + j) # post"
    using True d by (simp add: added_def pre_def)
  have r: "added c v ind m s it (Suc j) = pre @ Add (v ! (ind + j)) (it ! (m * j + s)) # post"
    using True by (simp add: added_def pre_def post_def)
  have b: "bump c ind j = ind + j" "bump c ind (Suc j) = ind + j + 1"
    using True by (simp_all add: bump_def)
  have len: "ind + j < length (pre @ v ! (ind + j) # post)"
    using l by simp
  show ?thesis
    unfolding a b r add_at_def
    using True len by (simp only: if_True nth_mid [OF l] upd_mid [OF l])
qed

lemma add_loop:
  assumes "length tmp0 = m" "m * k \<le> length it"
    "RDAE_X < m" "RDAE_Z < m" "RDAE_P < m"
    "nx I > 0 \<longrightarrow> i1 + k \<le> length v1" "nz I > 0 \<longrightarrow> i2 + k \<le> length v2"
    "np I > 0 \<longrightarrow> i3 + k \<le> length v3"
  shows "for_loopE 0 (int k) (add_body I) (tmp0, it, (v1, i1), (v2, i2), (v3, i3)) =
           Inr (if k = 0 then tmp0 else chunk m it (k - 1), drop (m * k) it,
                (added (nx I > 0) v1 i1 m RDAE_X it k, bump (nx I > 0) i1 k),
                (added (nz I > 0) v2 i2 m RDAE_Z it k, bump (nz I > 0) i2 k),
                (added (np I > 0) v3 i3 m RDAE_P it k, bump (np I > 0) i3 k))"
proof -
  let ?st = "\<lambda>j. (if j = 0 then tmp0 else chunk m it (j - 1), drop (m * j) it,
                (added (nx I > 0) v1 i1 m RDAE_X it j, bump (nx I > 0) i1 j),
                (added (nz I > 0) v2 i2 m RDAE_Z it j, bump (nz I > 0) i2 j),
                (added (np I > 0) v3 i3 m RDAE_P it j, bump (np I > 0) i3 j))"
  have "for_loopE 0 (0 + int k) (add_body I) (?st 0) = Inr (?st k)"
  proof (rule for_loopE_count)
    fix j assume j: "j < k"
    then have le: "m * Suc j \<le> length it"
      using assms(2) by (meson Suc_leI le_trans mult_le_mono2)
    have len: "length (if j = 0 then tmp0 else chunk m it (j - 1)) = m"
    proof (cases j)
      case 0
      then show ?thesis using assms(1) by simp
    next
      case (Suc i)
      then have "m * Suc i \<le> length it" using le by simp
      then show ?thesis using Suc by (simp add: length_chunk)
    qed
    have r: "nx I > 0 \<longrightarrow> i1 + j < length v1" "nz I > 0 \<longrightarrow> i2 + j < length v2"
      "np I > 0 \<longrightarrow> i3 + j < length v3"
      using j assms(6-8) by auto
    show "add_body I (0 + int j) (?st j) = Inr (?st (Suc j))"
      unfolding add_body_def prod.case len
      by (simp add: copy_n_drop [OF le] chunk_nth [OF le] assms(3-5)
          add_at_added [OF r(1)] add_at_added [OF r(2)] add_at_added [OF r(3)])
  qed
  then show ?thesis by simp
qed

subsection \<open>The four stages in closed form\<close>

lemma length_call [simp]: "length (call d arg) = derivative_num_out d"
  by (simp add: call_def)

lemma nth_call: "k < derivative_num_out d \<Longrightarrow> call d arg ! k = CallOut d arg k"
  by (simp add: call_def)

lemma derivative_node: "fx_node f = Inr n \<Longrightarrow> derivative f nfwd nadj = Inr (Derivative n nfwd nadj)"
  by (simp add: derivative_def)

lemma skip_ok: "n \<le> length it \<Longrightarrow> skip n it = Inr (drop n it)"
  by (simp add: skip_def)

text \<open>The arguments collected for the forward derivative of f.\<close>

definition F_arg ::
  "IntegratorInternal \<Rightarrow> int \<Rightarrow> MX1 \<Rightarrow> MX1 \<Rightarrow> MX1 list \<Rightarrow> MX1 list \<Rightarrow> MX1 list \<Rightarrow> MX1 list" where
  "F_arg I nfwd aug_t zero_t xs zs ps =
     concat (map (f_arg_group I aug_t zero_t xs zs ps) [0..<nat (nfwd + 1)])"

lemma forward_f_closed:
  assumes f: "fx_node (dae_f I) = Inr f" "length (fx_output f) = DAE_NUM_OUT"
    and n: "0 \<le> nfwd"
    and l: "nx I > 0 \<longrightarrow> nat (nfwd + 1) \<le> length xs" "nz I > 0 \<longrightarrow> nat (nfwd + 1) \<le> length zs"
      "np I > 0 \<longrightarrow> nat (nfwd + 1) \<le> length ps"
  shows "forward_f I nfwd aug_t zero_t xs zs ps =
    Inr (F_arg I nfwd aug_t zero_t xs zs ps,
         (picks (nx I > 0) DAE_NUM_OUT DAE_ODE
            (call (Derivative f nfwd 0) (F_arg I nfwd aug_t zero_t xs zs ps)) (nat (nfwd + 1)),
          picks (nz I > 0) DAE_NUM_OUT DAE_ALG
            (call (Derivative f nfwd 0) (F_arg I nfwd aug_t zero_t xs zs ps)) (nat (nfwd + 1)),
          picks (nq I > 0) DAE_NUM_OUT DAE_QUAD
            (call (Derivative f nfwd 0) (F_arg I nfwd aug_t zero_t xs zs ps)) (nat (nfwd + 1))),
         (adv (nx I > 0) (nat (nfwd + 1)) xs, adv (nz I > 0) (nat (nfwd + 1)) zs,
          adv (np I > 0) (nat (nfwd + 1)) ps))"
proof -
  define k where "k = nat (nfwd + 1)"
  define res where "res = call (Derivative f nfwd 0) (F_arg I nfwd aug_t zero_t xs zs ps)"
  have nf: "nfwd = - 1 + int k"
    using n by (simp add: k_def)
  have lr: "length res = DAE_NUM_OUT * k"
    using n f(2) by (simp add: res_def k_def nat_add_distrib)
  have loop1: "for_loopE (- 1) nfwd (f_arg_body I aug_t zero_t)
                 (replicate DAE_NUM_IN MXNull, xs, zs, ps, []) =
               Inr (if k = 0 then replicate DAE_NUM_IN MXNull
                    else f_arg_group I aug_t zero_t xs zs ps (k - 1),
                    adv (nx I > 0) k xs, adv (nz I > 0) k zs, adv (np I > 0) k ps,
                    F_arg I nfwd aug_t zero_t xs zs ps)"
    unfolding nf using f_arg_loop [of I k xs zs ps aug_t zero_t "[]"] l
    by (simp add: F_arg_def k_def [symmetric] nf [symmetric])
  have loop2: "for_loopE (- 1) nfwd
                 (rhs_body (nx I > 0) DAE_ODE (nz I > 0) DAE_ALG (nq I > 0) DAE_QUAD)
                 (replicate DAE_NUM_OUT MXNull, res, [], [], []) =
               Inr (if k = 0 then replicate DAE_NUM_OUT MXNull else chunk DAE_NUM_OUT res (k - 1),
                    drop (DAE_NUM_OUT * k) res,
                    [] @ picks (nx I > 0) DAE_NUM_OUT DAE_ODE res k,
                    [] @ picks (nz I > 0) DAE_NUM_OUT DAE_ALG res k,
                    [] @ picks (nq I > 0) DAE_NUM_OUT DAE_QUAD res k)"
    unfolding nf
    by (rule rhs_loop) (simp_all add: lr dae_scheme_defs)
  show ?thesis
    unfolding forward_f_def derivative_node [OF f(1)] bind_Inr loop1 prod.case Let_def
      res_def [symmetric] loop2 k_def [symmetric]
    by (simp add: lr)
qed

text \<open>The arguments collected for the forward derivative of g.\<close>

definition G_arg ::
  "IntegratorInternal \<Rightarrow> int \<Rightarrow> MX1 \<Rightarrow> MX1 \<Rightarrow> MX1 list \<Rightarrow> MX1 list \<Rightarrow> MX1 list
     \<Rightarrow> MX1 list \<Rightarrow> MX1 list \<Rightarrow> MX1 list \<Rightarrow> MX1 list" where
  "G_arg I nfwd aug_t zero_t xs zs ps rxs rzs rps =
     concat (map (g_arg_group I aug_t zero_t xs zs ps rxs rzs rps) [0..<nat (nfwd + 1)])"

lemma forward_g_closed:
  assumes g: "fx_node (dae_g I) = Inr g" "length (fx_output g) = RDAE_NUM_OUT"
    and n: "0 \<le> nfwd"
    and l: "nx I > 0 \<longrightarrow> nat (nfwd + 1) \<le> length xs" "nz I > 0 \<longrightarrow> nat (nfwd + 1) \<le> length zs"
      "np I > 0 \<longrightarrow> nat (nfwd + 1) \<le> length ps"
      "nrx I > 0 \<longrightarrow> nat (nfwd + 1) \<le> length rxs" "nrz I > 0 \<longrightarrow> nat (nfwd + 1) \<le> length rzs"
      "nrp I > 0 \<longrightarrow> nat (nfwd + 1) \<le> length rps"
  shows "forward_g I nfwd aug_t zero_t xs zs ps (rxs, rzs, rps) =
    Inr (G_arg I nfwd aug_t zero_t xs zs ps rxs rzs rps,
         (picks (nrx I > 0) RDAE_NUM_OUT RDAE_ODE
            (call (Derivative g nfwd 0) (G_arg I nfwd aug_t zero_t xs zs ps rxs rzs rps))
            (nat (nfwd + 1)),
          picks (nrz I > 0) RDAE_NUM_OUT RDAE_ALG
            (call (Derivative g nfwd 0) (G_arg I nfwd aug_t zero_t xs zs ps rxs rzs rps))
            (nat (nfwd + 1)),
          picks (nrq I > 0) RDAE_NUM_OUT RDAE_QUAD
            (call (Derivative g nfwd 0) (G_arg I nfwd aug_t zero_t xs zs ps rxs rzs rps))
            (nat (nfwd + 1))),
         (adv (nx I > 0) (nat (nfwd + 1)) xs, adv (nz I > 0) (nat (nfwd + 1)) zs,
          adv (np I > 0) (nat (nfwd + 1)) ps),
         (adv (nrx I > 0) (nat (nfwd + 1)) rxs, adv (nrz I > 0) (nat (nfwd + 1)) rzs,
          adv (nrp I > 0) (nat (nfwd + 1)) rps))"
proof -
  define k where "k = nat (nfwd + 1)"
  define res where
    "res = call (Derivative g nfwd 0) (G_arg I nfwd aug_t zero_t xs zs ps rxs rzs rps)"
  have nf: "nfwd = - 1 + int k"
    using n by (simp add: k_def)
  have lr: "length res = RDAE_NUM_OUT * k"
    using n g(2) by (simp add: res_def k_def nat_add_distrib)
  have loop1: "for_loopE (- 1) nfwd (g_arg_body I aug_t zero_t)
                 (replicate RDAE_NUM_IN MXNull, xs, zs, ps, rxs, rzs, rps, []) =
               Inr (if k = 0 then replicate RDAE_NUM_IN MXNull
                    else g_arg_group I aug_t zero_t xs zs ps rxs rzs rps (k - 1),
                    adv (nx I > 0) k xs, adv (nz I > 0) k zs, adv (np I > 0) k ps,
                    adv (nrx I > 0) k rxs, adv (nrz I > 0) k rzs, adv (nrp I > 0) k rps,
                    G_arg I nfwd aug_t zero_t xs zs ps rxs rzs rps)"
    unfolding nf using g_arg_loop [of I k xs zs ps rxs rzs rps aug_t zero_t "[]"] l
    by (simp add: G_arg_def k_def [symmetric] nf [symmetric])
  have loop2: "for_loopE (- 1) nfwd
                 (rhs_body (nrx I > 0) RDAE_ODE (nrz I > 0) RDAE_ALG (nrq I > 0) RDAE_QUAD)
                 (replicate RDAE_NUM_OUT MXNull, res, [], [], []) =
               Inr (if k = 0 then replicate RDAE_NUM_OUT MXNull
                    else chunk RDAE_NUM_OUT res (k - 1),
                    drop (RDAE_NUM_OUT * k) res,
                    [] @ picks (nrx I > 0) RDAE_NUM_OUT RDAE_ODE res k,
                    [] @ picks (nrz I > 0) RDAE_NUM_OUT RDAE_ALG res k,
                    [] @ picks (nrq I > 0) RDAE_NUM_OUT RDAE_QUAD res k)"
    unfolding nf
    by (rule rhs_loop) (simp_all add: lr rdae_scheme_defs)
  show ?thesis
    unfolding forward_g_def prod.case derivative_node [OF g(1)] bind_Inr loop1 Let_def
      res_def [symmetric] loop2 k_def [symmetric]
    by (simp add: lr)
qed

lemma rhs_loop0:
  assumes "length tmp0 = m" "m * k \<le> length it" "k1 < m" "k2 < m" "k3 < m"
  shows "for_loopE 0 (int k) (rhs_body c1 k1 c2 k2 c3 k3) (tmp0, it, ode, alg, quad) =
           Inr (if k = 0 then tmp0 else chunk m it (k - 1), drop (m * k) it,
                ode @ picks c1 m k1 it k, alg @ picks c2 m k2 it k, quad @ picks c3 m k3 it k)"
  using rhs_loop [OF assms, where a = 0] by simp

text \<open>The adjoint seeds collected in \<open>k\<close> rounds.\<close>

definition seeds :: "bool \<Rightarrow> MX1 list \<Rightarrow> bool \<Rightarrow> MX1 list \<Rightarrow> bool \<Rightarrow> MX1 list \<Rightarrow> nat \<Rightarrow> MX1 list"
  where
  "seeds c1 it1 c2 it2 c3 it3 k = concat (map (seed_group c1 it1 c2 it2 c3 it3) [0..<k])"

lemma length_resize [simp]: "length (resize n v) = n"
  by (simp add: resize_def)

lemma seed_loop_enum:
  assumes "c1 \<longrightarrow> k \<le> length it1" "c2 \<longrightarrow> k \<le> length it2" "c3 \<longrightarrow> k \<le> length it3"
  shows "for_loopE 0 (int k) (seed_body c1 DAE_ODE c2 DAE_ALG c3 DAE_QUAD)
           (replicate DAE_NUM_OUT MXNull, it1, it2, it3, arg) =
         Inr (if k = 0 then [MXNull, MXNull, MXNull]
              else seed_group c1 it1 c2 it2 c3 it3 (k - 1),
              adv c1 k it1, adv c2 k it2, adv c3 k it3,
              arg @ seeds c1 it1 c2 it2 c3 it3 k)"
    and "for_loopE 0 (int k) (seed_body c1 RDAE_ODE c2 RDAE_ALG c3 RDAE_QUAD)
           (replicate RDAE_NUM_OUT MXNull, it1, it2, it3, arg) =
         Inr (if k = 0 then [MXNull, MXNull, MXNull]
              else seed_group c1 it1 c2 it2 c3 it3 (k - 1),
              adv c1 k it1, adv c2 k it2, adv c3 k it3,
              arg @ seeds c1 it1 c2 it2 c3 it3 k)"
proof -
  have e: "DAE_ODE = 0" "DAE_ALG = Suc 0" "DAE_QUAD = 2"
    "RDAE_ODE = 0" "RDAE_ALG = Suc 0" "RDAE_QUAD = 2"
    by (simp_all add: dae_scheme_defs rdae_scheme_defs)
  show "for_loopE 0 (int k) (seed_body c1 DAE_ODE c2 DAE_ALG c3 DAE_QUAD)
           (replicate DAE_NUM_OUT MXNull, it1, it2, it3, arg) =
         Inr (if k = 0 then [MXNull, MXNull, MXNull]
              else seed_group c1 it1 c2 it2 c3 it3 (k - 1),
              adv c1 k it1, adv c2 k it2, adv c3 k it3,
              arg @ seeds c1 it1 c2 it2 c3 it3 k)"
    unfolding e replicate_enum seeds_def by (rule seed_loop [OF assms])
  show "for_loopE 0 (int k) (seed_body c1 RDAE_ODE c2 RDAE_ALG c3 RDAE_QUAD)
           (replicate RDAE_NUM_OUT MXNull, it1, it2, it3, arg) =
         Inr (if k = 0 then [MXNull, MXNull, MXNull]
              else seed_group c1 it1 c2 it2 c3 it3 (k - 1),
              adv c1 k it1, adv c2 k it2, adv c3 k it3,
              arg @ seeds c1 it1 c2 it2 c3 it3 k)"
    unfolding e replicate_enum seeds_def by (rule seed_loop [OF assms])
qed

lemma adjoint_f_closed:
  assumes f: "fx_node (dae_f I) = Inr f" "length (fx_output f) = DAE_NUM_OUT"
    "length (fx_input f) = DAE_NUM_IN"
    and n: "0 \<le> nadj"
    and l: "nx I > 0 \<longrightarrow> nat nadj \<le> length rx_it" "nz I > 0 \<longrightarrow> nat nadj \<le> length rz_it"
      "nq I > 0 \<longrightarrow> nat nadj \<le> length rp_it"
  shows "adjoint_f I nadj f_arg (g_ode, g_alg, g_quad) (rx_it, rz_it, rp_it) =
    Inr ((g_ode @ picks (nx I > 0) DAE_NUM_IN DAE_X
            (drop DAE_NUM_OUT (call (Derivative f 0 nadj)
               (resize DAE_NUM_IN f_arg
                  @ seeds (nx I > 0) rx_it (nz I > 0) rz_it (nq I > 0) rp_it (nat nadj))))
            (nat nadj),
          g_alg @ picks (nz I > 0) DAE_NUM_IN DAE_Z
            (drop DAE_NUM_OUT (call (Derivative f 0 nadj)
               (resize DAE_NUM_IN f_arg
                  @ seeds (nx I > 0) rx_it (nz I > 0) rz_it (nq I > 0) rp_it (nat nadj))))
            (nat nadj),
          g_quad @ picks (np I > 0) DAE_NUM_IN DAE_P
            (drop DAE_NUM_OUT (call (Derivative f 0 nadj)
               (resize DAE_NUM_IN f_arg
                  @ seeds (nx I > 0) rx_it (nz I > 0) rz_it (nq I > 0) rp_it (nat nadj))))
            (nat nadj)),
         (length g_ode, length g_alg, length g_quad),
         (adv (nx I > 0) (nat nadj) rx_it, adv (nz I > 0) (nat nadj) rz_it,
          adv (nq I > 0) (nat nadj) rp_it))"
proof -
  define k where "k = nat nadj"
  define arg where "arg = resize DAE_NUM_IN f_arg
                  @ seeds (nx I > 0) rx_it (nz I > 0) rz_it (nq I > 0) rp_it k"
  define res where "res = call (Derivative f 0 nadj) arg"
  define tmp where "tmp = (if k = 0 then [MXNull, MXNull, MXNull]
              else seed_group (nx I > 0) rx_it (nz I > 0) rz_it (nq I > 0) rp_it (k - 1))"
  have na: "nadj = int k"
    using n by (simp add: k_def)
  have lr: "length res = DAE_NUM_OUT + DAE_NUM_IN * k"
    using f(2,3) by (simp add: res_def k_def)
  have loop1: "for_loopE 0 nadj
                 (seed_body (nx I > 0) DAE_ODE (nz I > 0) DAE_ALG (nq I > 0) DAE_QUAD)
                 (replicate DAE_NUM_OUT MXNull, rx_it, rz_it, rp_it, resize DAE_NUM_IN f_arg) =
               Inr (tmp, adv (nx I > 0) k rx_it, adv (nz I > 0) k rz_it, adv (nq I > 0) k rp_it,
                    arg)"
    unfolding na tmp_def arg_def
    by (rule seed_loop_enum) (use l in \<open>simp_all add: k_def\<close>)
  have sk: "skip DAE_NUM_OUT res = Inr (drop DAE_NUM_OUT res)"
    by (rule skip_ok) (simp add: lr)
  have loop2: "for_loopE 0 nadj
                 (rhs_body (nx I > 0) DAE_X (nz I > 0) DAE_Z (np I > 0) DAE_P)
                 (resize DAE_NUM_IN tmp, drop DAE_NUM_OUT res, g_ode, g_alg, g_quad) =
               Inr (if k = 0 then resize DAE_NUM_IN tmp
                    else chunk DAE_NUM_IN (drop DAE_NUM_OUT res) (k - 1),
                    drop (DAE_NUM_IN * k) (drop DAE_NUM_OUT res),
                    g_ode @ picks (nx I > 0) DAE_NUM_IN DAE_X (drop DAE_NUM_OUT res) k,
                    g_alg @ picks (nz I > 0) DAE_NUM_IN DAE_Z (drop DAE_NUM_OUT res) k,
                    g_quad @ picks (np I > 0) DAE_NUM_IN DAE_P (drop DAE_NUM_OUT res) k)"
    unfolding na
    by (rule rhs_loop0) (simp_all add: lr, simp_all add: dae_scheme_defs)
  show ?thesis
    unfolding adjoint_f_def prod.case derivative_node [OF f(1)] bind_Inr loop1 Let_def
      arg_def [symmetric] res_def [symmetric] sk loop2 k_def [symmetric]
    by (simp add: lr)
qed

lemma add_loop0:
  assumes "length tmp0 = m" "m * k \<le> length it"
    "RDAE_X < m" "RDAE_Z < m" "RDAE_P < m"
    "nx I > 0 \<longrightarrow> i1 + k \<le> length v1" "nz I > 0 \<longrightarrow> i2 + k \<le> length v2"
    "np I > 0 \<longrightarrow> i3 + k \<le> length v3"
  shows "for_loopE 0 (int k) (add_body I) (tmp0, it, (v1, i1), (v2, i2), (v3, i3)) =
           Inr (if k = 0 then tmp0 else chunk m it (k - 1), drop (m * k) it,
                (added (nx I > 0) v1 i1 m RDAE_X it k, bump (nx I > 0) i1 k),
                (added (nz I > 0) v2 i2 m RDAE_Z it k, bump (nz I > 0) i2 k),
                (added (np I > 0) v3 i3 m RDAE_P it k, bump (np I > 0) i3 k))"
  by (rule add_loop [OF assms])

lemma length_added:
  "c \<longrightarrow> ind + k \<le> length v \<Longrightarrow> length (added c v ind m s it k) = length v"
  by (auto simp: added_def)

lemma adjoint_g_closed:
  assumes g: "fx_node (dae_g I) = Inr g" "length (fx_output g) = RDAE_NUM_OUT"
    "length (fx_input g) = RDAE_NUM_IN"
    and n: "0 \<le> nadj"
    and l: "nrx I > 0 \<longrightarrow> nat nadj \<le> length x_it" "nrz I > 0 \<longrightarrow> nat nadj \<le> length z_it"
      "nrq I > 0 \<longrightarrow> nat nadj \<le> length p_it"
    and i: "bump (nx I > 0) i1 (nat nadj) = length g_ode"
      "bump (nz I > 0) i2 (nat nadj) = length g_alg"
      "bump (np I > 0) i3 (nat nadj) = length g_quad"
  shows "adjoint_g I nadj g_arg (f_ode, f_alg, f_quad) (g_ode, g_alg, g_quad) (i1, i2, i3)
           (x_it, z_it, p_it) =
    Inr ((f_ode @ picks (nrx I > 0) RDAE_NUM_IN RDAE_RX
            (drop RDAE_NUM_OUT (call (Derivative g 0 nadj)
               (zero_seeds I (resize RDAE_NUM_IN g_arg
                  @ seeds (nrx I > 0) x_it (nrz I > 0) z_it (nrq I > 0) p_it (nat nadj)))))
            (nat nadj),
          f_alg @ picks (nrz I > 0) RDAE_NUM_IN RDAE_RZ
            (drop RDAE_NUM_OUT (call (Derivative g 0 nadj)
               (zero_seeds I (resize RDAE_NUM_IN g_arg
                  @ seeds (nrx I > 0) x_it (nrz I > 0) z_it (nrq I > 0) p_it (nat nadj)))))
            (nat nadj),
          f_quad @ picks (nrp I > 0) RDAE_NUM_IN RDAE_RP
            (drop RDAE_NUM_OUT (call (Derivative g 0 nadj)
               (zero_seeds I (resize RDAE_NUM_IN g_arg
                  @ seeds (nrx I > 0) x_it (nrz I > 0) z_it (nrq I > 0) p_it (nat nadj)))))
            (nat nadj)),
         (added (nx I > 0) g_ode i1 RDAE_NUM_IN RDAE_X
            (drop RDAE_NUM_OUT (call (Derivative g 0 nadj)
               (resize RDAE_NUM_IN g_arg
                  @ seeds (nrx I > 0) x_it (nrz I > 0) z_it (nrq I > 0) p_it (nat nadj))))
            (nat nadj),
          added (nz I > 0) g_alg i2 RDAE_NUM_IN RDAE_Z
            (drop RDAE_NUM_OUT (call (Derivative g 0 nadj)
               (resize RDAE_NUM_IN g_arg
                  @ seeds (nrx I > 0) x_it (nrz I > 0) z_it (nrq I > 0) p_it (nat nadj))))
            (nat nadj),
          added (np I > 0) g_quad i3 RDAE_NUM_IN RDAE_P
            (drop RDAE_NUM_OUT (call (Derivative g 0 nadj)
               (resize RDAE_NUM_IN g_arg
                  @ seeds (nrx I > 0) x_it (nrz I > 0) z_it (nrq I > 0) p_it (nat nadj))))
            (nat nadj)),
         (adv (nrx I > 0) (nat nadj) x_it, adv (nrz I > 0) (nat nadj) z_it,
          adv (nrq I > 0) (nat nadj) p_it))"
proof -
  define k where "k = nat nadj"
  define arg where "arg = resize RDAE_NUM_IN g_arg
                  @ seeds (nrx I > 0) x_it (nrz I > 0) z_it (nrq I > 0) p_it k"
  define res where "res = call (Derivative g 0 nadj) arg"
  define res2 where "res2 = call (Derivative g 0 nadj) (zero_seeds I arg)"
  define tmp where "tmp = (if k = 0 then [MXNull, MXNull, MXNull]
              else seed_group (nrx I > 0) x_it (nrz I > 0) z_it (nrq I > 0) p_it (k - 1))"
  define tmp2 where "tmp2 = (if k = 0 then resize RDAE_NUM_IN tmp
                             else chunk RDAE_NUM_IN (drop RDAE_NUM_OUT res) (k - 1))"
  have na: "nadj = int k"
    using n by (simp add: k_def)
  have lr: "length res = RDAE_NUM_OUT + RDAE_NUM_IN * k"
    "length res2 = RDAE_NUM_OUT + RDAE_NUM_IN * k"
    using g(2,3) by (simp_all add: res_def res2_def k_def)
  have loop1: "for_loopE 0 nadj
                 (seed_body (nrx I > 0) RDAE_ODE (nrz I > 0) RDAE_ALG (nrq I > 0) RDAE_QUAD)
                 (replicate RDAE_NUM_OUT MXNull, x_it, z_it, p_it, resize RDAE_NUM_IN g_arg) =
               Inr (tmp, adv (nrx I > 0) k x_it, adv (nrz I > 0) k z_it,
                    adv (nrq I > 0) k p_it, arg)"
    unfolding na tmp_def arg_def
    by (rule seed_loop_enum) (use l in \<open>simp_all add: k_def\<close>)
  have sk: "skip RDAE_NUM_OUT res = Inr (drop RDAE_NUM_OUT res)"
    "skip RDAE_NUM_OUT res2 = Inr (drop RDAE_NUM_OUT res2)"
    by (rule skip_ok, simp add: lr)+
  have ii: "nx I > 0 \<longrightarrow> i1 + k \<le> length g_ode" "nz I > 0 \<longrightarrow> i2 + k \<le> length g_alg"
    "np I > 0 \<longrightarrow> i3 + k \<le> length g_quad"
    using i by (auto simp: bump_def k_def)
  have loop2: "for_loopE 0 nadj (add_body I)
                 (resize RDAE_NUM_IN tmp, drop RDAE_NUM_OUT res, (g_ode, i1), (g_alg, i2),
                  (g_quad, i3)) =
               Inr (tmp2, drop (RDAE_NUM_IN * k) (drop RDAE_NUM_OUT res),
                (added (nx I > 0) g_ode i1 RDAE_NUM_IN RDAE_X (drop RDAE_NUM_OUT res) k,
                 bump (nx I > 0) i1 k),
                (added (nz I > 0) g_alg i2 RDAE_NUM_IN RDAE_Z (drop RDAE_NUM_OUT res) k,
                 bump (nz I > 0) i2 k),
                (added (np I > 0) g_quad i3 RDAE_NUM_IN RDAE_P (drop RDAE_NUM_OUT res) k,
                 bump (np I > 0) i3 k))"
    unfolding na tmp2_def
    by (rule add_loop0) (simp_all add: lr ii, simp_all add: rdae_scheme_defs)
  have lt2: "length tmp2 = RDAE_NUM_IN"
    by (cases "k = 0") (simp_all add: tmp2_def length_chunk lr)
  have r2: "resize RDAE_NUM_IN tmp2 = tmp2"
    using lt2 by (simp add: resize_def)
  have loop3: "for_loopE 0 nadj
                 (rhs_body (nrx I > 0) RDAE_RX (nrz I > 0) RDAE_RZ (nrp I > 0) RDAE_RP)
                 (tmp2, drop RDAE_NUM_OUT res2, f_ode, f_alg, f_quad) =
               Inr (if k = 0 then tmp2
                    else chunk RDAE_NUM_IN (drop RDAE_NUM_OUT res2) (k - 1),
                    drop (RDAE_NUM_IN * k) (drop RDAE_NUM_OUT res2),
                    f_ode @ picks (nrx I > 0) RDAE_NUM_IN RDAE_RX (drop RDAE_NUM_OUT res2) k,
                    f_alg @ picks (nrz I > 0) RDAE_NUM_IN RDAE_RZ (drop RDAE_NUM_OUT res2) k,
                    f_quad @ picks (nrp I > 0) RDAE_NUM_IN RDAE_RP (drop RDAE_NUM_OUT res2) k)"
    unfolding na
    by (rule rhs_loop0) (simp_all add: lr lt2, simp_all add: rdae_scheme_defs)
  have la: "length (added (nx I > 0) g_ode i1 RDAE_NUM_IN RDAE_X (drop RDAE_NUM_OUT res) k)
              = length g_ode"
    "length (added (nz I > 0) g_alg i2 RDAE_NUM_IN RDAE_Z (drop RDAE_NUM_OUT res) k)
              = length g_alg"
    "length (added (np I > 0) g_quad i3 RDAE_NUM_IN RDAE_P (drop RDAE_NUM_OUT res) k)
              = length g_quad"
    using ii by (simp_all add: length_added)
  show ?thesis
    unfolding adjoint_g_def prod.case derivative_node [OF g(1)] bind_Inr loop1 Let_def
      arg_def [symmetric] res_def [symmetric] res2_def [symmetric] sk loop2 la
      i [unfolded k_def [symmetric]] r2 loop3 k_def [symmetric]
    by (simp add: lr)
qed

subsection \<open>getAugmented in closed form\<close>

lemma length_vertsplit [simp]: "length (vertsplit e offs) = length offs - 1"
  by (simp add: vertsplit_def)

lemma length_psums_raw:
  "length (wsums (raw_offsets c1 k1 n1 c2 k2 n2)) - 1
     = (if c1 then k1 else 0) + (if c2 then k2 else 0)"
  using wraw_offsets_props(3) [of c1 k1 n1 c2 k2 n2] by simp

lemma length_aug_split:
  "length (aug_x_split I (getAugOffset I nfwd nadj))
     = (if nx I > 0 then nat (nfwd + 1) else 0) + (if nrx I > 0 then nat nadj else 0)"
  "length (aug_z_split I (getAugOffset I nfwd nadj))
     = (if nz I > 0 then nat (nfwd + 1) else 0) + (if nrz I > 0 then nat nadj else 0)"
  "length (aug_p_split I (getAugOffset I nfwd nadj))
     = (if np I > 0 then nat (nfwd + 1) else 0) + (if nrq I > 0 then nat nadj else 0)"
  "length (aug_rx_split I (getAugOffset I nfwd nadj))
     = (if nrx I > 0 then nat (nfwd + 1) else 0) + (if nx I > 0 then nat nadj else 0)"
  "length (aug_rz_split I (getAugOffset I nfwd nadj))
     = (if nrz I > 0 then nat (nfwd + 1) else 0) + (if nz I > 0 then nat nadj else 0)"
  "length (aug_rp_split I (getAugOffset I nfwd nadj))
     = (if nrp I > 0 then nat (nfwd + 1) else 0) + (if nq I > 0 then nat nadj else 0)"
  unfolding aug_x_split_def aug_z_split_def aug_p_split_def aug_rx_split_def aug_rz_split_def
    aug_rp_split_def length_vertsplit
  by (simp_all only: getAugOffset_closed AugOffset.simps length_psums_raw)

lemma adv_adv_Nil:
  "length xs = (if c1 then k1 else 0) + (if c2 then k2 else 0) \<Longrightarrow> adv c2 k2 (adv c1 k1 xs) = []"
  by (auto simp: adv_def)

lemma adv_False [simp]: "adv False k xs = xs"
  by (simp add: adv_def)

lemma length_adv: "length (adv c k xs) = length xs - (if c then k else 0)"
  by (simp add: adv_def)

lemma length_picks [simp]: "length (picks c m s it k) = (if c then k else 0)"
  by (simp add: picks_def)

lemma picks_False [simp]: "picks False m s it k = []"
  by (simp add: picks_def)

lemma picks_eq_Nil: "picks c m s it k = [] \<longleftrightarrow> \<not> c \<or> k = 0"
  by (simp add: picks_def)

text \<open>
  The arguments and results of the derivative calls of getAugmented in closed form.
\<close>

definition fwd_f_arg :: "IntegratorInternal \<Rightarrow> FXNode \<Rightarrow> int \<Rightarrow> int \<Rightarrow> MX1 list" where
  "fwd_f_arg I f nfwd nadj =
     F_arg I nfwd (Sym ''aug_t'' (fx_input f ! DAE_T)) (Zeros (fx_input f ! DAE_T))
       (aug_x_split I (getAugOffset I nfwd nadj)) (aug_z_split I (getAugOffset I nfwd nadj))
       (aug_p_split I (getAugOffset I nfwd nadj))"

definition fwd_f_res :: "IntegratorInternal \<Rightarrow> FXNode \<Rightarrow> int \<Rightarrow> int \<Rightarrow> MX1 list" where
  "fwd_f_res I f nfwd nadj = call (Derivative f nfwd 0) (fwd_f_arg I f nfwd nadj)"

definition adj_f_arg :: "IntegratorInternal \<Rightarrow> FXNode \<Rightarrow> int \<Rightarrow> int \<Rightarrow> MX1 list" where
  "adj_f_arg I f nfwd nadj =
     resize DAE_NUM_IN (fwd_f_arg I f nfwd nadj)
       @ seeds (nx I > 0) (adv (nrx I > 0) (nat (nfwd + 1))
                            (aug_rx_split I (getAugOffset I nfwd nadj)))
               (nz I > 0) (adv (nrz I > 0) (nat (nfwd + 1))
                            (aug_rz_split I (getAugOffset I nfwd nadj)))
               (nq I > 0) (adv (nrp I > 0) (nat (nfwd + 1))
                            (aug_rp_split I (getAugOffset I nfwd nadj)))
               (nat nadj)"

definition adj_f_res :: "IntegratorInternal \<Rightarrow> FXNode \<Rightarrow> int \<Rightarrow> int \<Rightarrow> MX1 list" where
  "adj_f_res I f nfwd nadj =
     drop DAE_NUM_OUT (call (Derivative f 0 nadj) (adj_f_arg I f nfwd nadj))"

lemma getAugmented_forward_only:
  assumes f: "fx_node (dae_f I) = Inr f" "length (fx_input f) = DAE_NUM_IN"
      "length (fx_output f) = DAE_NUM_OUT"
    and g: "dae_g I = FXNull" "nrx I = 0" "nrz I = 0" "nrq I = 0" "nrp I = 0"
    and n: "0 \<le> nfwd" "0 \<le> nadj"
    and e: "bind (getOption ''expand_augmented'' I) toBool = Inr b"
  shows "getAugmented I nfwd nadj =
    Inr ((if nfwd = 0 then dae_f I
          else expand_if (b \<and> is_a_SXFunction (dae_f I))
                 (MXFunction
                    (f_in I (Sym ''aug_t'' (fx_input f ! DAE_T)) (getAugOffset I nfwd nadj))
                    (f_out
                       (picks (nx I > 0) DAE_NUM_OUT DAE_ODE (fwd_f_res I f nfwd nadj)
                          (nat (nfwd + 1)))
                       (picks (nz I > 0) DAE_NUM_OUT DAE_ALG (fwd_f_res I f nfwd nadj)
                          (nat (nfwd + 1)))
                       (picks (nq I > 0) DAE_NUM_OUT DAE_QUAD (fwd_f_res I f nfwd nadj)
                          (nat (nfwd + 1))))),
          if nx I > 0 \<and> nadj > 0
          then expand_if (b \<and> is_a_SXFunction (dae_f I))
                 (MXFunction
                    (g_in I (Sym ''aug_t'' (fx_input f ! DAE_T)) (getAugOffset I nfwd nadj))
                    (g_out
                       (picks (nx I > 0) DAE_NUM_IN DAE_X (adj_f_res I f nfwd nadj) (nat nadj))
                       (picks (nz I > 0) DAE_NUM_IN DAE_Z (adj_f_res I f nfwd nadj) (nat nadj))
                       (picks (np I > 0) DAE_NUM_IN DAE_P (adj_f_res I f nfwd nadj) (nat nadj))))
          else FXNull),
         getAugOffset I nfwd nadj)"
proof -
  define offset where "offset = getAugOffset I nfwd nadj"
  define aug_t :: MX1 where "aug_t = Sym ''aug_t'' (fx_input f ! DAE_T)"
  define zero_t :: MX1 where "zero_t = Zeros (fx_input f ! DAE_T)"
  define kf where "kf = nat (nfwd + 1)"
  define ka where "ka = nat nadj"
  note len = length_aug_split [of I nfwd nadj, folded offset_def kf_def ka_def]
  have p: "port (fx_input f) DAE_T = Inr (fx_input f ! DAE_T)"
    by (simp add: port_def f(2) dae_scheme_defs)
  have ff: "forward_f I nfwd aug_t zero_t (aug_x_split I offset) (aug_z_split I offset)
              (aug_p_split I offset) =
            Inr (fwd_f_arg I f nfwd nadj,
                 (picks (nx I > 0) DAE_NUM_OUT DAE_ODE (fwd_f_res I f nfwd nadj) kf,
                  picks (nz I > 0) DAE_NUM_OUT DAE_ALG (fwd_f_res I f nfwd nadj) kf,
                  picks (nq I > 0) DAE_NUM_OUT DAE_QUAD (fwd_f_res I f nfwd nadj) kf),
                 (adv (nx I > 0) kf (aug_x_split I offset),
                  adv (nz I > 0) kf (aug_z_split I offset),
                  adv (np I > 0) kf (aug_p_split I offset)))"
    unfolding fwd_f_res_def fwd_f_arg_def kf_def offset_def [symmetric] aug_t_def [symmetric]
      zero_t_def [symmetric]
    by (rule forward_f_closed [OF f(1) f(3) n(1)]) (simp_all add: len kf_def)
  have af: "adjoint_f I nadj (fwd_f_arg I f nfwd nadj) ([], [], [])
              (aug_rx_split I offset, aug_rz_split I offset, aug_rp_split I offset) =
            Inr ((picks (nx I > 0) DAE_NUM_IN DAE_X (adj_f_res I f nfwd nadj) ka,
                  picks (nz I > 0) DAE_NUM_IN DAE_Z (adj_f_res I f nfwd nadj) ka,
                  picks (np I > 0) DAE_NUM_IN DAE_P (adj_f_res I f nfwd nadj) ka),
                 (0, 0, 0),
                 (adv (nx I > 0) ka (aug_rx_split I offset),
                  adv (nz I > 0) ka (aug_rz_split I offset),
                  adv (nq I > 0) ka (aug_rp_split I offset)))"
    using adjoint_f_closed [OF f(1) f(3) f(2) n(2), of "aug_rx_split I offset"
        "aug_rz_split I offset" "aug_rp_split I offset" "fwd_f_arg I f nfwd nadj" "[]" "[]" "[]"]
    by (simp add: len g adj_f_res_def adj_f_arg_def offset_def [symmetric] ka_def)
  have fin: "adv (nx I > 0) kf (aug_x_split I offset) = []"
      "adv (nz I > 0) kf (aug_z_split I offset) = []"
      "adv (np I > 0) kf (aug_p_split I offset) = []"
      "adv (nx I > 0) ka (aug_rx_split I offset) = []"
      "adv (nz I > 0) ka (aug_rz_split I offset) = []"
      "adv (nq I > 0) ka (aug_rp_split I offset) = []"
    using len by (auto simp: adv_def g)
  have fin0: "ka = 0 \<Longrightarrow> aug_rx_split I offset = []"
      "ka = 0 \<Longrightarrow> aug_rz_split I offset = []"
      "ka = 0 \<Longrightarrow> aug_rp_split I offset = []"
    using len(4-6) by (auto simp: g)
  show ?thesis
  proof (cases "nadj > 0")
    case True
    then have ka: "ka \<noteq> 0"
      by (simp add: ka_def)
    show ?thesis
      unfolding getAugmented_def Let_def offset_def [symmetric] f(1) bind_Inr p
        aug_t_def [symmetric] zero_t_def [symmetric] ff prod.case kf_def [symmetric]
        ka_def [symmetric]
      using True ka by (simp add: g af e fin picks_eq_Nil)
  next
    case False
    then have ka: "ka = 0"
      by (simp add: ka_def)
    show ?thesis
      unfolding getAugmented_def Let_def offset_def [symmetric] f(1) bind_Inr p
        aug_t_def [symmetric] zero_t_def [symmetric] ff prod.case kf_def [symmetric]
        ka_def [symmetric]
      using False ka by (simp add: g e fin fin0)
  qed
qed

text \<open>The same for the derivative calls of the backward problem.\<close>

definition fwd_g_arg :: "IntegratorInternal \<Rightarrow> FXNode \<Rightarrow> int \<Rightarrow> int \<Rightarrow> MX1 list" where
  "fwd_g_arg I f nfwd nadj =
     G_arg I nfwd (Sym ''aug_t'' (fx_input f ! DAE_T)) (Zeros (fx_input f ! DAE_T))
       (aug_x_split I (getAugOffset I nfwd nadj)) (aug_z_split I (getAugOffset I nfwd nadj))
       (aug_p_split I (getAugOffset I nfwd nadj)) (aug_rx_split I (getAugOffset I nfwd nadj))
       (aug_rz_split I (getAugOffset I nfwd nadj)) (aug_rp_split I (getAugOffset I nfwd nadj))"

definition fwd_g_res :: "IntegratorInternal \<Rightarrow> FXNode \<Rightarrow> FXNode \<Rightarrow> int \<Rightarrow> int \<Rightarrow> MX1 list" where
  "fwd_g_res I f g nfwd nadj = call (Derivative g nfwd 0) (fwd_g_arg I f nfwd nadj)"

definition adj_g_arg :: "IntegratorInternal \<Rightarrow> FXNode \<Rightarrow> int \<Rightarrow> int \<Rightarrow> MX1 list" where
  "adj_g_arg I f nfwd nadj =
     resize RDAE_NUM_IN (fwd_g_arg I f nfwd nadj)
       @ seeds (nrx I > 0) (adv (nx I > 0) (nat (nfwd + 1))
                             (aug_x_split I (getAugOffset I nfwd nadj)))
               (nrz I > 0) (adv (nz I > 0) (nat (nfwd + 1))
                             (aug_z_split I (getAugOffset I nfwd nadj)))
               (nrq I > 0) (adv (np I > 0) (nat (nfwd + 1))
                             (aug_p_split I (getAugOffset I nfwd nadj)))
               (nat nadj)"

definition adj_g_res :: "IntegratorInternal \<Rightarrow> FXNode \<Rightarrow> FXNode \<Rightarrow> int \<Rightarrow> int \<Rightarrow> MX1 list" where
  "adj_g_res I f g nfwd nadj =
     drop RDAE_NUM_OUT (call (Derivative g 0 nadj) (adj_g_arg I f nfwd nadj))"

definition adj_g_res_zero ::
  "IntegratorInternal \<Rightarrow> FXNode \<Rightarrow> FXNode \<Rightarrow> int \<Rightarrow> int \<Rightarrow> MX1 list" where
  "adj_g_res_zero I f g nfwd nadj =
     drop RDAE_NUM_OUT (call (Derivative g 0 nadj) (zero_seeds I (adj_g_arg I f nfwd nadj)))"

text \<open>The six vectors of right-hand sides when both problems are present.\<close>

definition aug_f_ode :: "IntegratorInternal \<Rightarrow> FXNode \<Rightarrow> FXNode \<Rightarrow> int \<Rightarrow> int \<Rightarrow> MX1 list" where
  "aug_f_ode I f g nfwd nadj =
     picks (nx I > 0) DAE_NUM_OUT DAE_ODE (fwd_f_res I f nfwd nadj) (nat (nfwd + 1))
       @ picks (nrx I > 0) RDAE_NUM_IN RDAE_RX (adj_g_res_zero I f g nfwd nadj) (nat nadj)"

definition aug_f_alg :: "IntegratorInternal \<Rightarrow> FXNode \<Rightarrow> FXNode \<Rightarrow> int \<Rightarrow> int \<Rightarrow> MX1 list" where
  "aug_f_alg I f g nfwd nadj =
     picks (nz I > 0) DAE_NUM_OUT DAE_ALG (fwd_f_res I f nfwd nadj) (nat (nfwd + 1))
       @ picks (nrz I > 0) RDAE_NUM_IN RDAE_RZ (adj_g_res_zero I f g nfwd nadj) (nat nadj)"

definition aug_f_quad :: "IntegratorInternal \<Rightarrow> FXNode \<Rightarrow> FXNode \<Rightarrow> int \<Rightarrow> int \<Rightarrow> MX1 list" where
  "aug_f_quad I f g nfwd nadj =
     picks (nq I > 0) DAE_NUM_OUT DAE_QUAD (fwd_f_res I f nfwd nadj) (nat (nfwd + 1))
       @ picks (nrp I > 0) RDAE_NUM_IN RDAE_RP (adj_g_res_zero I f g nfwd nadj) (nat nadj)"

definition aug_g_ode :: "IntegratorInternal \<Rightarrow> FXNode \<Rightarrow> FXNode \<Rightarrow> int \<Rightarrow> int \<Rightarrow> MX1 list" where
  "aug_g_ode I f g nfwd nadj =
     added (nx I > 0)
       (picks (nrx I > 0) RDAE_NUM_OUT RDAE_ODE (fwd_g_res I f g nfwd nadj) (nat (nfwd + 1))
          @ picks (nx I > 0) DAE_NUM_IN DAE_X (adj_f_res I f nfwd nadj) (nat nadj))
       (if nrx I > 0 then nat (nfwd + 1) else 0)
       RDAE_NUM_IN RDAE_X (adj_g_res I f g nfwd nadj) (nat nadj)"

definition aug_g_alg :: "IntegratorInternal \<Rightarrow> FXNode \<Rightarrow> FXNode \<Rightarrow> int \<Rightarrow> int \<Rightarrow> MX1 list" where
  "aug_g_alg I f g nfwd nadj =
     added (nz I > 0)
       (picks (nrz I > 0) RDAE_NUM_OUT RDAE_ALG (fwd_g_res I f g nfwd nadj) (nat (nfwd + 1))
          @ picks (nz I > 0) DAE_NUM_IN DAE_Z (adj_f_res I f nfwd nadj) (nat nadj))
       (if nrz I > 0 then nat (nfwd + 1) else 0)
       RDAE_NUM_IN RDAE_Z (adj_g_res I f g nfwd nadj) (nat nadj)"

definition aug_g_quad :: "IntegratorInternal \<Rightarrow> FXNode \<Rightarrow> FXNode \<Rightarrow> int \<Rightarrow> int \<Rightarrow> MX1 list" where
  "aug_g_quad I f g nfwd nadj =
     added (np I > 0)
       (picks (nrq I > 0) RDAE_NUM_OUT RDAE_QUAD (fwd_g_res I f g nfwd nadj) (nat (nfwd + 1))
          @ picks (np I > 0) DAE_NUM_IN DAE_P (adj_f_res I f nfwd nadj) (nat nadj))
       (if nrq I > 0 then nat (nfwd + 1) else 0)
       RDAE_NUM_IN RDAE_P (adj_g_res I f g nfwd nadj) (nat nadj)"

lemma getAugmented_backward:
  assumes f: "fx_node (dae_f I) = Inr f" "length (fx_input f) = DAE_NUM_IN"
      "length (fx_output f) = DAE_NUM_OUT"
    and g: "dae_g I \<noteq> FXNull" "fx_node (dae_g I) = Inr g" "length (fx_input g) = RDAE_NUM_IN"
      "length (fx_output g) = RDAE_NUM_OUT"
    and n: "0 \<le> nfwd" "0 \<le> nadj"
    and e: "bind (getOption ''expand_augmented'' I) toBool = Inr b"
  shows "getAugmented I nfwd nadj =
    Inr ((expand_if (b \<and> is_a_SXFunction (dae_f I) \<and> is_a_SXFunction (dae_g I))
            (MXFunction
               (f_in I (Sym ''aug_t'' (fx_input f ! DAE_T)) (getAugOffset I nfwd nadj))
               (f_out (aug_f_ode I f g nfwd nadj) (aug_f_alg I f g nfwd nadj)
                  (aug_f_quad I f g nfwd nadj))),
          if aug_g_ode I f g nfwd nadj \<noteq> []
          then expand_if (b \<and> is_a_SXFunction (dae_f I) \<and> is_a_SXFunction (dae_g I))
                 (MXFunction
                    (g_in I (Sym ''aug_t'' (fx_input f ! DAE_T)) (getAugOffset I nfwd nadj))
                    (g_out (aug_g_ode I f g nfwd nadj) (aug_g_alg I f g nfwd nadj)
                       (aug_g_quad I f g nfwd nadj)))
          else FXNull),
         getAugOffset I nfwd nadj)"
proof -
  define offset where "offset = getAugOffset I nfwd nadj"
  define aug_t :: MX1 where "aug_t = Sym ''aug_t'' (fx_input f ! DAE_T)"
  define zero_t :: MX1 where "zero_t = Zeros (fx_input f ! DAE_T)"
  define kf where "kf = nat (nfwd + 1)"
  define ka where "ka = nat nadj"
  define ex where "ex \<longleftrightarrow> b \<and> is_a_SXFunction (dae_f I) \<and> is_a_SXFunction (dae_g I)"
  note len = length_aug_split [of I nfwd nadj, folded offset_def kf_def ka_def]
  have p: "port (fx_input f) DAE_T = Inr (fx_input f ! DAE_T)"
    by (simp add: port_def f(2) dae_scheme_defs)
  have ff: "forward_f I nfwd aug_t zero_t (aug_x_split I offset) (aug_z_split I offset)
              (aug_p_split I offset) =
            Inr (fwd_f_arg I f nfwd nadj,
                 (picks (nx I > 0) DAE_NUM_OUT DAE_ODE (fwd_f_res I f nfwd nadj) kf,
                  picks (nz I > 0) DAE_NUM_OUT DAE_ALG (fwd_f_res I f nfwd nadj) kf,
                  picks (nq I > 0) DAE_NUM_OUT DAE_QUAD (fwd_f_res I f nfwd nadj) kf),
                 (adv (nx I > 0) kf (aug_x_split I offset),
                  adv (nz I > 0) kf (aug_z_split I offset),
                  adv (np I > 0) kf (aug_p_split I offset)))"
    unfolding fwd_f_res_def fwd_f_arg_def kf_def offset_def [symmetric] aug_t_def [symmetric]
      zero_t_def [symmetric]
    by (rule forward_f_closed [OF f(1) f(3) n(1)]) (simp_all add: len kf_def)
  have fg: "forward_g I nfwd aug_t zero_t (aug_x_split I offset) (aug_z_split I offset)
              (aug_p_split I offset)
              (aug_rx_split I offset, aug_rz_split I offset, aug_rp_split I offset) =
            Inr (fwd_g_arg I f nfwd nadj,
                 (picks (nrx I > 0) RDAE_NUM_OUT RDAE_ODE (fwd_g_res I f g nfwd nadj) kf,
                  picks (nrz I > 0) RDAE_NUM_OUT RDAE_ALG (fwd_g_res I f g nfwd nadj) kf,
                  picks (nrq I > 0) RDAE_NUM_OUT RDAE_QUAD (fwd_g_res I f g nfwd nadj) kf),
                 (adv (nx I > 0) kf (aug_x_split I offset),
                  adv (nz I > 0) kf (aug_z_split I offset),
                  adv (np I > 0) kf (aug_p_split I offset)),
                 (adv (nrx I > 0) kf (aug_rx_split I offset),
                  adv (nrz I > 0) kf (aug_rz_split I offset),
                  adv (nrp I > 0) kf (aug_rp_split I offset)))"
    unfolding fwd_g_res_def fwd_g_arg_def kf_def offset_def [symmetric] aug_t_def [symmetric]
      zero_t_def [symmetric]
    by (rule forward_g_closed [OF g(2) g(4) n(1)]) (simp_all add: len kf_def)
  define g1 where "g1 = picks (nrx I > 0) RDAE_NUM_OUT RDAE_ODE (fwd_g_res I f g nfwd nadj) kf"
  define g2 where "g2 = picks (nrz I > 0) RDAE_NUM_OUT RDAE_ALG (fwd_g_res I f g nfwd nadj) kf"
  define g3 where "g3 = picks (nrq I > 0) RDAE_NUM_OUT RDAE_QUAD (fwd_g_res I f g nfwd nadj) kf"
  have lg: "length g1 = (if nrx I > 0 then kf else 0)" "length g2 = (if nrz I > 0 then kf else 0)"
    "length g3 = (if nrq I > 0 then kf else 0)"
    by (simp_all add: g1_def g2_def g3_def)
  have af: "adjoint_f I nadj (fwd_f_arg I f nfwd nadj) (g1, g2, g3)
              (adv (nrx I > 0) kf (aug_rx_split I offset),
               adv (nrz I > 0) kf (aug_rz_split I offset),
               adv (nrp I > 0) kf (aug_rp_split I offset)) =
            Inr ((g1 @ picks (nx I > 0) DAE_NUM_IN DAE_X (adj_f_res I f nfwd nadj) ka,
                  g2 @ picks (nz I > 0) DAE_NUM_IN DAE_Z (adj_f_res I f nfwd nadj) ka,
                  g3 @ picks (np I > 0) DAE_NUM_IN DAE_P (adj_f_res I f nfwd nadj) ka),
                 (length g1, length g2, length g3),
                 (adv (nx I > 0) ka (adv (nrx I > 0) kf (aug_rx_split I offset)),
                  adv (nz I > 0) ka (adv (nrz I > 0) kf (aug_rz_split I offset)),
                  adv (nq I > 0) ka (adv (nrp I > 0) kf (aug_rp_split I offset))))"
    unfolding adj_f_res_def adj_f_arg_def offset_def [symmetric] ka_def kf_def [symmetric]
    by (rule adjoint_f_closed [OF f(1) f(3) f(2) n(2)])
      (simp_all add: len length_adv ka_def [symmetric])
  have ag: "adjoint_g I nadj (fwd_g_arg I f nfwd nadj)
              (picks (nx I > 0) DAE_NUM_OUT DAE_ODE (fwd_f_res I f nfwd nadj) kf,
               picks (nz I > 0) DAE_NUM_OUT DAE_ALG (fwd_f_res I f nfwd nadj) kf,
               picks (nq I > 0) DAE_NUM_OUT DAE_QUAD (fwd_f_res I f nfwd nadj) kf)
              (g1 @ picks (nx I > 0) DAE_NUM_IN DAE_X (adj_f_res I f nfwd nadj) ka,
               g2 @ picks (nz I > 0) DAE_NUM_IN DAE_Z (adj_f_res I f nfwd nadj) ka,
               g3 @ picks (np I > 0) DAE_NUM_IN DAE_P (adj_f_res I f nfwd nadj) ka)
              (length g1, length g2, length g3)
              (adv (nx I > 0) kf (aug_x_split I offset),
               adv (nz I > 0) kf (aug_z_split I offset),
               adv (np I > 0) kf (aug_p_split I offset)) =
            Inr ((aug_f_ode I f g nfwd nadj, aug_f_alg I f g nfwd nadj,
                  aug_f_quad I f g nfwd nadj),
                 (aug_g_ode I f g nfwd nadj, aug_g_alg I f g nfwd nadj,
                  aug_g_quad I f g nfwd nadj),
                 (adv (nrx I > 0) ka (adv (nx I > 0) kf (aug_x_split I offset)),
                  adv (nrz I > 0) ka (adv (nz I > 0) kf (aug_z_split I offset)),
                  adv (nrq I > 0) ka (adv (np I > 0) kf (aug_p_split I offset))))"
    unfolding aug_f_ode_def aug_f_alg_def aug_f_quad_def aug_g_ode_def aug_g_alg_def
      aug_g_quad_def adj_g_res_def adj_g_res_zero_def adj_g_arg_def offset_def [symmetric]
      kf_def [symmetric] g1_def [symmetric] g2_def [symmetric] g3_def [symmetric]
      lg [symmetric] ka_def
    by (rule adjoint_g_closed [OF g(2) g(4) g(3) n(2)])
      (simp_all add: len length_adv ka_def [symmetric] bump_def)
  have fin: "adv (nrx I > 0) ka (adv (nx I > 0) kf (aug_x_split I offset)) = []"
      "adv (nrz I > 0) ka (adv (nz I > 0) kf (aug_z_split I offset)) = []"
      "adv (nrq I > 0) ka (adv (np I > 0) kf (aug_p_split I offset)) = []"
      "adv (nx I > 0) ka (adv (nrx I > 0) kf (aug_rx_split I offset)) = []"
      "adv (nz I > 0) ka (adv (nrz I > 0) kf (aug_rz_split I offset)) = []"
      "adv (nq I > 0) ka (adv (nrp I > 0) kf (aug_rp_split I offset)) = []"
    by (rule adv_adv_Nil, rule len)+
  show ?thesis
  proof (cases "nadj > 0")
    case True
    show ?thesis
      unfolding getAugmented_def Let_def offset_def [symmetric] f(1) bind_Inr p
        aug_t_def [symmetric] zero_t_def [symmetric] ff prod.case kf_def [symmetric]
        ka_def [symmetric] ex_def [symmetric]
      using True g(1)
      by (simp add: fg g1_def [symmetric] g2_def [symmetric] g3_def [symmetric] af ag e fin
          ex_def [symmetric])
  next
    case False
    then have ka: "ka = 0"
      by (simp add: ka_def)
    have z: "nat nadj = 0"
      using False by simp
    have l: "aug_f_ode I f g nfwd nadj
               = picks (nx I > 0) DAE_NUM_OUT DAE_ODE (fwd_f_res I f nfwd nadj) kf"
      "aug_f_alg I f g nfwd nadj
               = picks (nz I > 0) DAE_NUM_OUT DAE_ALG (fwd_f_res I f nfwd nadj) kf"
      "aug_f_quad I f g nfwd nadj
               = picks (nq I > 0) DAE_NUM_OUT DAE_QUAD (fwd_f_res I f nfwd nadj) kf"
      "aug_g_ode I f g nfwd nadj = g1" "aug_g_alg I f g nfwd nadj = g2"
      "aug_g_quad I f g nfwd nadj = g3"
      unfolding aug_f_ode_def aug_f_alg_def aug_f_quad_def aug_g_ode_def aug_g_alg_def
        aug_g_quad_def z g1_def g2_def g3_def kf_def
      by simp_all
    show ?thesis
      unfolding getAugmented_def Let_def offset_def [symmetric] f(1) bind_Inr p
        aug_t_def [symmetric] zero_t_def [symmetric] ff prod.case kf_def [symmetric]
        ka_def [symmetric] l
      using False g(1) fin
      by (simp add: fg g1_def [symmetric] g2_def [symmetric] g3_def [symmetric] e ka
          ex_def [symmetric])
  qed
qed

subsection \<open>getAugmented on an initialised integrator\<close>

text \<open>
  The number of rows of an output and of an input of a function object,
  \<^verbatim>\<open>fx.output(k).size1()\<close> and \<^verbatim>\<open>fx.input(k).size1()\<close>.
\<close>

definition output_size1 :: "FX \<Rightarrow> nat \<Rightarrow> int result" where
  "output_size1 fx k =
     bind (fx_node fx) (\<lambda>n. bind (port (fx_output n) k) (\<lambda>sp. Inr (int (size1 sp))))"

definition input_size1 :: "FX \<Rightarrow> nat \<Rightarrow> int result" where
  "input_size1 fx k =
     bind (fx_node fx) (\<lambda>n. bind (port (fx_input n) k) (\<lambda>sp. Inr (int (size1 sp))))"

lemma init_forward:
  assumes "init I0 = Inr I"
  obtains f where "fx_node (dae_f I) = Inr f" "length (fx_input f) = DAE_NUM_IN"
    "length (fx_output f) = DAE_NUM_OUT"
    "fx_output f ! DAE_ODE = sparsity (input_x0 I)"
    "fx_input f ! DAE_X = sparsity (input_x0 I)"
    "dae_g I = FXNull \<longrightarrow> nrx I = 0 \<and> nrz I = 0 \<and> nrq I = 0 \<and> nrp I = 0"
proof -
  from assms obtain f g a b where
    i: "fx_node (dae_f I0) = Inr f"
      "length (fx_input f) = DAE_NUM_IN" "length (fx_output f) = DAE_NUM_OUT"
      "init_backward (dae_g I0) = Inr g"
      "init_consistency f g (init_allocate f g I0) = Inr ()"
      "I = with_linsol ((init_allocate f g I0)\<lparr>t0 := a, tf := b\<rparr>)"
    by (rule init_Inr)
  have ode: "fx_output f ! DAE_ODE = fx_input f ! DAE_X"
    using i(5) unfolding init_consistency_def
    by (simp add: bind_eq_Inr casadi_assert_Inr casadi_assert_message_Inr)
  have nul: "dae_g I0 = FXNull \<longrightarrow> g = None"
    using i(4) by (auto simp: init_backward_def)
  show thesis
    by (rule that [of f]) (use i ode nul in \<open>simp_all\<close>)
qed

lemma init_backward_ports:
  assumes "init I0 = Inr I" "dae_g I \<noteq> FXNull"
  obtains g where "fx_node (dae_g I) = Inr g" "length (fx_input g) = RDAE_NUM_IN"
    "length (fx_output g) = RDAE_NUM_OUT"
    "fx_output g ! RDAE_ODE = sparsity (input_rx0 I)"
    "fx_input g ! RDAE_RX = sparsity (input_rx0 I)"
proof -
  from assms(1) obtain f g a b where
    i: "init_backward (dae_g I0) = Inr g"
      "init_consistency f g (init_allocate f g I0) = Inr ()"
      "I = with_linsol ((init_allocate f g I0)\<lparr>t0 := a, tf := b\<rparr>)"
    by (rule init_Inr)
  have ne: "dae_g I0 \<noteq> FXNull"
    using assms(2) i(3) by simp
  then obtain gn where
    g: "g = Some gn" "fx_node (dae_g I0) = Inr gn" "length (fx_input gn) = RDAE_NUM_IN"
      "length (fx_output gn) = RDAE_NUM_OUT"
    using i(1) unfolding init_backward_def
    by (auto simp: bind_eq_Inr casadi_assert_message_Inr)
  have ode: "fx_output gn ! RDAE_ODE = fx_input gn ! RDAE_RX"
    using i(2) unfolding init_consistency_def g(1)
    by (simp add: bind_eq_Inr casadi_assert_Inr casadi_assert_message_Inr)
  show thesis
    by (rule that [of gn]) (use i g ode in \<open>simp_all\<close>)
qed

text \<open>
  A forward problem without a state: one parameter and one quadrature.
\<close>

definition quadrature_f :: FXNode where
  "quadrature_f =
     \<lparr>fx_name = ''f'', fx_is_SXFunction = False,
      fx_input = [sp_dense 1 1, sp_dense 0 0, sp_dense 0 0, sp_dense 1 1],
      fx_output = [sp_dense 0 0, sp_dense 0 0, sp_dense 1 1]\<rparr>"

definition quadrature_only :: IntegratorInternal where
  "quadrature_only =
     with_linsol ((init_allocate quadrature_f None
        (IntegratorInternal_ctor (FXRef quadrature_f) FXNull))\<lparr>t0 := 0, tf := 1\<rparr>)"

lemma getOption_times [simp]:
  "getOption name (I\<lparr>t0 := a, tf := b\<rparr>) = getOption name I"
  by (simp add: getOption_def)

lemma init_scenario_forward:
  "init (IntegratorInternal_ctor (FXRef scenario_forward_f) FXNull) = Inr scenario_forward"
  unfolding scenario_forward_def
  by (rule init_returns)
    (simp_all add: init_backward_def init_consistency_def
      scenario_forward_f_def dae_scheme_defs Let_def)

lemma scenario_forward_simps:
  "dae_f scenario_forward = FXRef scenario_forward_f"
  "dae_g scenario_forward = FXNull"
  "nx scenario_forward = 2" "nz scenario_forward = 0" "np scenario_forward = 1"
  "nq scenario_forward = 0"
  "nrx scenario_forward = 0" "nrz scenario_forward = 0" "nrp scenario_forward = 0"
  "nrq scenario_forward = 0"
  "size1 (sparsity (input_x0 scenario_forward)) = 2"
  "size1 (sparsity (input_p scenario_forward)) = 1"
  "bind (getOption ''expand_augmented'' scenario_forward) toBool = Inr True"
  by (simp_all add: scenario_forward_def scenario_forward_f_def dae_scheme_defs
      getOption_init_allocate)

lemma init_quadrature_only:
  "init (IntegratorInternal_ctor (FXRef quadrature_f) FXNull) = Inr quadrature_only"
  unfolding quadrature_only_def
  by (rule init_returns)
    (simp_all add: init_backward_def init_consistency_def
      quadrature_f_def dae_scheme_defs Let_def)

lemma quadrature_only_simps:
  "dae_f quadrature_only = FXRef quadrature_f"
  "dae_g quadrature_only = FXNull"
  "nx quadrature_only = 0" "nz quadrature_only = 0" "np quadrature_only = 1"
  "nq quadrature_only = 1"
  "nrx quadrature_only = 0" "nrz quadrature_only = 0" "nrp quadrature_only = 0"
  "nrq quadrature_only = 0"
  "bind (getOption ''expand_augmented'' quadrature_only) toBool = Inr True"
  by (simp_all add: quadrature_only_def quadrature_f_def dae_scheme_defs
      getOption_init_allocate)

lemma scenario_adjoint_options:
  "hasOption ''augmented_options'' scenario_adjoint"
  "bind (getOption ''expand_augmented'' scenario_adjoint) toBool = Inr True"
proof -
  show "hasOption ''augmented_options'' scenario_adjoint"
    by (simp add: scenario_adjoint_def hasOption_def IntegratorInternal_ctor_def Let_def
        addOption_def)
  show "bind (getOption ''expand_augmented'' scenario_adjoint) toBool = Inr True"
    by (simp add: scenario_adjoint_def getOption_init_allocate)
qed

text \<open>
  Claim C5. On an initialised integrator without a backward problem, getAugmented with
  nfwd = 0 and nadj = 0 returns the handle \<^verbatim>\<open>f_\<close> itself as the forward problem and the null
  handle as the backward problem.
\<close>

theorem getAugmented_identity:
  assumes "init I0 = Inr I" "dae_g I = FXNull"
    and "bind (getOption ''expand_augmented'' I) toBool = Inr b"
  shows "getAugmented I 0 0 = Inr ((dae_f I, FXNull), getAugOffset I 0 0)"
proof -
  from assms(1) obtain f where
    f: "fx_node (dae_f I) = Inr f" "length (fx_input f) = DAE_NUM_IN"
      "length (fx_output f) = DAE_NUM_OUT"
      "dae_g I = FXNull \<longrightarrow> nrx I = 0 \<and> nrz I = 0 \<and> nrq I = 0 \<and> nrp I = 0"
    by (rule init_forward)
  have z: "(0::int) \<le> 0"
    by simp
  show ?thesis
    using getAugmented_forward_only [OF f(1-3) assms(2) _ _ _ _ z z assms(3)] f(4) assms(2)
    by simp
qed

theorem getAugmented_identity_witness:
  "init (IntegratorInternal_ctor (FXRef scenario_forward_f) FXNull) = Inr scenario_forward
   \<and> dae_g scenario_forward = FXNull
   \<and> getAugmented scenario_forward 0 0
       = Inr ((FXRef scenario_forward_f, FXNull), getAugOffset scenario_forward 0 0)"
  using getAugmented_identity [OF init_scenario_forward scenario_forward_simps(2)
      scenario_forward_simps(13)]
  by (simp add: init_scenario_forward scenario_forward_simps)

text \<open>
  Claim C6. On an initialised integrator without a backward problem, getAugmented with
  nfwd = 0 returns the handle \<^verbatim>\<open>f_\<close> itself as the forward problem for every nadj \<ge> 0. For
  nadj > 0 and a positive nx, the backward problem is a new function whose three outputs
  stack the adjoint sensitivities of \<^verbatim>\<open>f_.derivative(0, nadj)\<close> with respect to x, z and p;
  for nadj = 0 or nx = 0 the backward problem is null.
\<close>

theorem getAugmented_reuse:
  assumes "init I0 = Inr I" "dae_g I = FXNull" "0 \<le> nadj"
    and "bind (getOption ''expand_augmented'' I) toBool = Inr b"
    and "fx_node (dae_f I) = Inr f"
  shows "getAugmented I 0 nadj =
    Inr ((dae_f I,
          if nx I > 0 \<and> nadj > 0
          then expand_if (b \<and> is_a_SXFunction (dae_f I))
                 (MXFunction
                    (g_in I (Sym ''aug_t'' (fx_input f ! DAE_T)) (getAugOffset I 0 nadj))
                    (g_out
                       (picks (nx I > 0) DAE_NUM_IN DAE_X (adj_f_res I f 0 nadj) (nat nadj))
                       (picks (nz I > 0) DAE_NUM_IN DAE_Z (adj_f_res I f 0 nadj) (nat nadj))
                       (picks (np I > 0) DAE_NUM_IN DAE_P (adj_f_res I f 0 nadj) (nat nadj))))
          else FXNull),
         getAugOffset I 0 nadj)"
proof -
  from assms(1) obtain f' where
    f: "fx_node (dae_f I) = Inr f'" "length (fx_input f') = DAE_NUM_IN"
      "length (fx_output f') = DAE_NUM_OUT"
      "dae_g I = FXNull \<longrightarrow> nrx I = 0 \<and> nrz I = 0 \<and> nrq I = 0 \<and> nrp I = 0"
    by (rule init_forward)
  have e: "f' = f"
    using f(1) assms(5) by simp
  have z: "(0::int) \<le> 0"
    by simp
  show ?thesis
    using getAugmented_forward_only [OF f(1-3) assms(2) _ _ _ _ z assms(3) assms(4)] f(4)
      assms(2)
    by (simp add: e)
qed

theorem getAugmented_reuse_witness:
  "init (IntegratorInternal_ctor (FXRef scenario_forward_f) FXNull) = Inr scenario_forward
   \<and> dae_g scenario_forward = FXNull
   \<and> getAugmented scenario_forward 0 1 =
       Inr ((FXRef scenario_forward_f,
             MXFunction
               (g_in scenario_forward (Sym ''aug_t'' (sp_dense 1 1))
                  (getAugOffset scenario_forward 0 1))
               (g_out
                  [CallOut (Derivative scenario_forward_f 0 1)
                     (adj_f_arg scenario_forward scenario_forward_f 0 1) 4]
                  []
                  [CallOut (Derivative scenario_forward_f 0 1)
                     (adj_f_arg scenario_forward scenario_forward_f 0 1) 6])),
            getAugOffset scenario_forward 0 1)"
proof -
  have z: "(0::int) \<le> 1"
    by simp
  have n: "fx_node (dae_f scenario_forward) = Inr scenario_forward_f"
    by (simp add: scenario_forward_simps)
  have c: "call (Derivative scenario_forward_f 0 1) a =
             map (CallOut (Derivative scenario_forward_f 0 1) a) [0, 1, 2, 3, 4, 5, 6]" for a
    by (simp add: call_def scenario_forward_f_def upt_rec)
  have t: "fx_input scenario_forward_f ! 0 = sp_dense 1 1"
    "\<not> fx_is_SXFunction scenario_forward_f"
    by (simp_all add: scenario_forward_f_def)
  show ?thesis
    using getAugmented_reuse [OF init_scenario_forward scenario_forward_simps(2) z
        scenario_forward_simps(13) n]
    by (simp add: init_scenario_forward scenario_forward_simps expand_if_def picks_def
        adj_f_res_def c t dae_scheme_defs)
qed

text \<open>
  Claim C6 as stated fails: without a state, one adjoint direction builds no backward
  problem, although the forward problem has a parameter.
\<close>

theorem getAugmented_reuse_no_state_counterexample:
  "init (IntegratorInternal_ctor (FXRef quadrature_f) FXNull) = Inr quadrature_only
   \<and> dae_g quadrature_only = FXNull \<and> np quadrature_only = 1
   \<and> getAugmented quadrature_only 0 1
       = Inr ((FXRef quadrature_f, FXNull), getAugOffset quadrature_only 0 1)"
proof -
  have z: "(0::int) \<le> 0" "(0::int) \<le> 1"
    by simp_all
  have n: "fx_node (dae_f quadrature_only) = Inr quadrature_f"
    "length (fx_input quadrature_f) = DAE_NUM_IN" "length (fx_output quadrature_f) = DAE_NUM_OUT"
    by (simp_all add: quadrature_only_simps quadrature_f_def dae_scheme_defs)
  show ?thesis
    using getAugmented_forward_only [OF n quadrature_only_simps(2) quadrature_only_simps(7)
        quadrature_only_simps(8) quadrature_only_simps(10) quadrature_only_simps(9) z
        quadrature_only_simps(11)]
    by (simp add: init_quadrature_only quadrature_only_simps)
qed

subsection \<open>Rows of the augmented right-hand sides\<close>

text \<open>The rows of an expression of getAugmented, read off the ports of its callees.\<close>

abbreviation rows :: "MX1 \<Rightarrow> int" where
  "rows \<equiv> mx_size1 derivative_output"

lemma rows_picks_fwd:
  assumes "length (fx_output f) = m" "s < m" "k \<le> 1 + nat nfwd"
  shows "map rows (picks c m s (call (Derivative f nfwd nadj) arg) k)
           = (if c then replicate k (int (size1 (fx_output f ! s))) else [])"
proof -
  have "rows (call (Derivative f nfwd nadj) arg ! (m * j + s)) = int (size1 (fx_output f ! s))"
    if "j < k" for j
  proof -
    have "m * j + s < m * Suc j"
      using assms(2) by simp
    also have "m * Suc j \<le> m * (1 + nat nfwd)"
      using that assms(3) by (intro mult_le_mono2) simp
    finally have lt: "m * j + s < (1 + nat nfwd) * m"
      by (simp add: mult.commute)
    then have "m * j + s < derivative_num_out (Derivative f nfwd nadj)"
      by (simp add: assms(1))
    then show ?thesis
      using lt assms(2) by (simp add: nth_call assms(1))
  qed
  then show ?thesis
    by (auto simp: picks_def map_replicate_const [symmetric] simp del: map_replicate_const
        intro!: nth_equalityI)
qed

lemma rows_picks_adj:
  assumes "length (fx_output f) = mo" "length (fx_input f) = m" "s < m" "k \<le> nat nadj"
  shows "map rows (picks c m s (drop mo (call (Derivative f 0 nadj) arg)) k)
           = (if c then replicate k (int (size1 (fx_input f ! s))) else [])"
proof -
  have "rows (drop mo (call (Derivative f 0 nadj) arg) ! (m * j + s))
          = int (size1 (fx_input f ! s))"
    if "j < k" for j
  proof -
    have "m * j + s < m * Suc j"
      using assms(3) by simp
    also have "m * Suc j \<le> m * nat nadj"
      using that assms(4) by (intro mult_le_mono2) simp
    finally have lt: "mo + (m * j + s) < derivative_num_out (Derivative f 0 nadj)"
      by (simp add: assms(1,2) mult.commute)
    have "drop mo (call (Derivative f 0 nadj) arg) ! (m * j + s)
            = CallOut (Derivative f 0 nadj) arg (mo + (m * j + s))"
      using lt by (simp add: nth_call)
    then show ?thesis
      using assms(3) by (simp add: assms(1,2))
  qed
  then show ?thesis
    by (auto simp: picks_def intro!: nth_equalityI)
qed

lemma rows_added:
  assumes "c \<longrightarrow> ind + k \<le> length v"
  shows "map rows (added c v ind m s it k) = map rows v"
proof (cases c)
  case True
  then have l: "ind + k \<le> length v"
    using assms by simp
  have "map rows (added c v ind m s it k)
          = take ind (map rows v) @ map (\<lambda>j. rows (v ! (ind + j))) [0..<k]
              @ drop (ind + k) (map rows v)"
    using True by (simp add: added_def take_map drop_map comp_def)
  also have "map (\<lambda>j. rows (v ! (ind + j))) [0..<k] = take k (drop ind (map rows v))"
    using l by (auto intro!: nth_equalityI)
  also have "take ind (map rows v) @ take k (drop ind (map rows v))
               @ drop (ind + k) (map rows v) = map rows v"
    by (metis add.commute append_take_drop_id drop_drop)
  finally show ?thesis .
qed (simp add: added_def)

lemma sum_list_replicate_if:
  "sum_list (if c then replicate k (x::int) else []) = (if c then int k * x else 0)"
  by (simp add: sum_list_replicate)

lemma size1_vertcat_out:
  "size1 (mx_sparsity (vertcat_out v)) = nat (sum_list (map rows v))"
  by (simp add: vertcat_out_def)

lemma output_size1_FXRef:
  "k < length (fx_output n) \<Longrightarrow> output_size1 (FXRef n) k = Inr (int (size1 (fx_output n ! k)))"
  by (simp add: output_size1_def port_def)

lemma output_size1_MXFunction:
  "k < length outs \<Longrightarrow>
     output_size1 (expand_if e (MXFunction ins outs)) k
       = Inr (int (size1 (mx_sparsity (outs ! k))))"
  by (simp add: output_size1_def port_def expand_if_def)

lemma input_size1_MXFunction:
  "k < length ins \<Longrightarrow>
     input_size1 (expand_if e (MXFunction ins outs)) k
       = Inr (int (size1 (mx_sparsity (ins ! k))))"
  by (simp add: input_size1_def port_def expand_if_def)

lemma f_out_nth:
  "f_out a b c ! DAE_ODE = vertcat_out a" "length (f_out a b c) = DAE_NUM_OUT"
  "g_out a b c ! RDAE_ODE = vertcat_out a" "length (g_out a b c) = RDAE_NUM_OUT"
  by (simp_all add: f_out_def g_out_def dae_scheme_defs rdae_scheme_defs)

lemma f_in_nth:
  "f_in I t offset ! DAE_P = aug_p I offset" "length (f_in I t offset) = DAE_NUM_IN"
  by (simp_all add: f_in_def dae_scheme_defs)

lemma last_offsets:
  assumes "0 \<le> nfwd" "0 \<le> nadj" "in_range I nfwd nadj"
  shows "last (off_x (getAugOffset I nfwd nadj))
     = (if nx I > 0 then int (nat (nfwd + 1)) * int (size1 (sparsity (input_x0 I))) else 0)
       + (if nrx I > 0 then int (nat nadj) * int (size1 (sparsity (input_rx0 I))) else 0)"
  "last (off_rx (getAugOffset I nfwd nadj))
     = (if nrx I > 0 then int (nat (nfwd + 1)) * int (size1 (sparsity (input_rx0 I))) else 0)
       + (if nx I > 0 then int (nat nadj) * int (size1 (sparsity (input_x0 I))) else 0)"
  "last (off_p (getAugOffset I nfwd nadj))
     = (if np I > 0 then int (nat (nfwd + 1)) * int (size1 (sparsity (input_p I))) else 0)
       + (if nrq I > 0 then int (nat nadj) * int (size1 (sparsity (output_rqf I))) else 0)"
  by (simp_all only: getAugOffset_exact [OF assms] AugOffset.simps raw_offsets_props(3))

lemma init_dims:
  assumes "init I0 = Inr I"
  shows "0 \<le> nx I"
proof -
  from assms obtain f g a b where "I = with_linsol ((init_allocate f g I0)\<lparr>t0 := a, tf := b\<rparr>)"
    by (rule init_Inr)
  then show ?thesis
    by simp
qed

lemma rows_fwd_f:
  assumes "length (fx_output f) = DAE_NUM_OUT" "s < DAE_NUM_OUT" "0 \<le> nfwd"
  shows "sum_list (map rows (picks c DAE_NUM_OUT s (fwd_f_res I f nfwd nadj) (nat (nfwd + 1))))
           = (if c then int (nat (nfwd + 1)) * int (size1 (fx_output f ! s)) else 0)"
  unfolding fwd_f_res_def
  using assms(3) by (subst rows_picks_fwd [OF assms(1,2)]) (simp_all add: sum_list_replicate)

lemma rows_fwd_g:
  assumes "length (fx_output g) = RDAE_NUM_OUT" "s < RDAE_NUM_OUT" "0 \<le> nfwd"
  shows "sum_list (map rows (picks c RDAE_NUM_OUT s (fwd_g_res I f g nfwd nadj) (nat (nfwd + 1))))
           = (if c then int (nat (nfwd + 1)) * int (size1 (fx_output g ! s)) else 0)"
  unfolding fwd_g_res_def
  using assms(3) by (subst rows_picks_fwd [OF assms(1,2)]) (simp_all add: sum_list_replicate)

lemma rows_adj_f:
  assumes "length (fx_output f) = DAE_NUM_OUT" "length (fx_input f) = DAE_NUM_IN" "s < DAE_NUM_IN"
  shows "sum_list (map rows (picks c DAE_NUM_IN s (adj_f_res I f nfwd nadj) (nat nadj)))
           = (if c then int (nat nadj) * int (size1 (fx_input f ! s)) else 0)"
  unfolding adj_f_res_def
  by (subst rows_picks_adj [OF assms]) (simp_all add: sum_list_replicate)

lemma rows_adj_g_zero:
  assumes "length (fx_output g) = RDAE_NUM_OUT" "length (fx_input g) = RDAE_NUM_IN"
    "s < RDAE_NUM_IN"
  shows "sum_list (map rows (picks c RDAE_NUM_IN s (adj_g_res_zero I f g nfwd nadj) (nat nadj)))
           = (if c then int (nat nadj) * int (size1 (fx_input g ! s)) else 0)"
  unfolding adj_g_res_zero_def
  by (subst rows_picks_adj [OF assms]) (simp_all add: sum_list_replicate)

lemma rows_aug_f_ode:
  assumes "length (fx_output f) = DAE_NUM_OUT" "0 \<le> nfwd"
    "length (fx_output g) = RDAE_NUM_OUT" "length (fx_input g) = RDAE_NUM_IN"
  shows "sum_list (map rows (aug_f_ode I f g nfwd nadj))
           = (if nx I > 0 then int (nat (nfwd + 1)) * int (size1 (fx_output f ! DAE_ODE)) else 0)
             + (if nrx I > 0 then int (nat nadj) * int (size1 (fx_input g ! RDAE_RX)) else 0)"
  unfolding aug_f_ode_def map_append sum_list_append
  by (subst rows_fwd_f [OF assms(1) _ assms(2)], simp add: dae_scheme_defs,
      subst rows_adj_g_zero [OF assms(3,4)], simp add: rdae_scheme_defs, rule refl)

lemma rows_aug_g_ode:
  assumes "length (fx_output f) = DAE_NUM_OUT" "length (fx_input f) = DAE_NUM_IN" "0 \<le> nfwd"
    "length (fx_output g) = RDAE_NUM_OUT"
  shows "sum_list (map rows (aug_g_ode I f g nfwd nadj))
           = (if nrx I > 0 then int (nat (nfwd + 1)) * int (size1 (fx_output g ! RDAE_ODE)) else 0)
             + (if nx I > 0 then int (nat nadj) * int (size1 (fx_input f ! DAE_X)) else 0)"
  unfolding aug_g_ode_def
  by (subst rows_added, simp, unfold map_append sum_list_append,
      subst rows_fwd_g [OF assms(4) _ assms(3)], simp add: rdae_scheme_defs,
      subst rows_adj_f [OF assms(1,2)], simp add: dae_scheme_defs, rule refl)

text \<open>
  A forward problem whose state has two rows and no column, and one whose state is a row
  of two entries, with a parameter.
\<close>

definition structurally_empty_f :: FXNode where
  "structurally_empty_f =
     \<lparr>fx_name = ''f'', fx_is_SXFunction = False,
      fx_input = [sp_dense 1 1, sp_dense 2 0, sp_dense 0 0, sp_dense 0 0],
      fx_output = [sp_dense 2 0, sp_dense 0 0, sp_dense 0 0]\<rparr>"

definition structurally_empty :: IntegratorInternal where
  "structurally_empty =
     with_linsol ((init_allocate structurally_empty_f None
        (IntegratorInternal_ctor (FXRef structurally_empty_f) FXNull))\<lparr>t0 := 0, tf := 1\<rparr>)"

lemma init_structurally_empty:
  "init (IntegratorInternal_ctor (FXRef structurally_empty_f) FXNull) = Inr structurally_empty"
  unfolding structurally_empty_def
  by (rule init_returns)
    (simp_all add: init_backward_def init_consistency_def
      structurally_empty_f_def dae_scheme_defs Let_def)

lemma structurally_empty_simps:
  "dae_f structurally_empty = FXRef structurally_empty_f"
  "dae_g structurally_empty = FXNull"
  "nx structurally_empty = 0"
  "nrx structurally_empty = 0" "nrz structurally_empty = 0" "nrq structurally_empty = 0"
  "nrp structurally_empty = 0"
  "bind (getOption ''expand_augmented'' structurally_empty) toBool = Inr True"
  "nz structurally_empty = 0" "nq structurally_empty = 0" "np structurally_empty = 0"
  "size1 (sparsity (input_x0 structurally_empty)) = 2"
  by (simp_all add: structurally_empty_def structurally_empty_f_def dae_scheme_defs
      getOption_init_allocate)

definition row_state_f :: FXNode where
  "row_state_f =
     \<lparr>fx_name = ''f'', fx_is_SXFunction = False,
      fx_input = [sp_dense 1 1, sp_dense 1 2, sp_dense 0 0, sp_dense 1 1],
      fx_output = [sp_dense 1 2, sp_dense 0 0, sp_dense 0 0]\<rparr>"

definition row_state :: IntegratorInternal where
  "row_state =
     with_linsol ((init_allocate row_state_f None
        (IntegratorInternal_ctor (FXRef row_state_f) FXNull))\<lparr>t0 := 0, tf := 1\<rparr>)"

lemma init_row_state:
  "init (IntegratorInternal_ctor (FXRef row_state_f) FXNull) = Inr row_state"
  unfolding row_state_def
  by (rule init_returns)
    (simp_all add: init_backward_def init_consistency_def
      row_state_f_def dae_scheme_defs Let_def)

lemma row_state_simps:
  "dae_f row_state = FXRef row_state_f"
  "dae_g row_state = FXNull"
  "nx row_state = 2" "nz row_state = 0" "np row_state = 1" "nq row_state = 0"
  "nrx row_state = 0" "nrz row_state = 0" "nrp row_state = 0" "nrq row_state = 0"
  "size1 (sparsity (input_x0 row_state)) = 1"
  "size1 (sparsity (input_p row_state)) = 1"
  "bind (getOption ''expand_augmented'' row_state) toBool = Inr True"
  by (simp_all add: row_state_def row_state_f_def dae_scheme_defs getOption_init_allocate)

lemma psums_two_blocks: "psums [0, 2, 2] = [0, 2, 4]" "psums [0, 1, 1] = [0, 1, 2]"
  by code_simp+

lemma last_offsets_nonneg:
  assumes "0 \<le> nfwd" "0 \<le> nadj" "in_range I nfwd nadj"
  shows "0 \<le> last (off_x (getAugOffset I nfwd nadj))"
    "0 \<le> last (off_rx (getAugOffset I nfwd nadj))"
  unfolding last_offsets [OF assms] by simp_all

lemma output_width:
  assumes "sum_list (map rows v1) = w" "0 \<le> w"
  shows "output_size1 (expand_if ex (MXFunction ins (f_out v1 v2 v3))) DAE_ODE = Inr w"
    and "output_size1 (expand_if ex (MXFunction ins (g_out v1 v2 v3))) RDAE_ODE = Inr w"
proof -
  have k: "DAE_ODE < DAE_NUM_OUT" "RDAE_ODE < RDAE_NUM_OUT"
    by (simp_all add: dae_scheme_defs rdae_scheme_defs)
  show "output_size1 (expand_if ex (MXFunction ins (f_out v1 v2 v3))) DAE_ODE = Inr w"
    using k(1) assms by (simp add: output_size1_MXFunction f_out_nth size1_vertcat_out)
  show "output_size1 (expand_if ex (MXFunction ins (g_out v1 v2 v3))) RDAE_ODE = Inr w"
    using k(2) assms by (simp add: output_size1_MXFunction f_out_nth size1_vertcat_out)
qed

lemma forward_width:
  assumes i: "init I0 = Inr I" and n: "0 \<le> nfwd" "0 \<le> nadj"
    and e: "bind (getOption ''expand_augmented'' I) toBool = Inr b"
    and ir: "in_range I nfwd nadj"
  obtains a c where "getAugmented I nfwd nadj = Inr ((a, c), getAugOffset I nfwd nadj)"
    "output_size1 a DAE_ODE =
       Inr (if dae_g I = FXNull \<and> nfwd = 0 \<and> nx I = 0
            then int (size1 (sparsity (input_x0 I)))
            else last (off_x (getAugOffset I nfwd nadj)))"
    "c \<noteq> FXNull \<longrightarrow> output_size1 c RDAE_ODE = Inr (last (off_rx (getAugOffset I nfwd nadj)))"
    "dae_g I = FXNull \<and> nfwd > 0 \<longrightarrow>
       input_size1 a DAE_P = Inr (int (nat (last (off_p (getAugOffset I nfwd nadj)))))"
proof -
  from i obtain f where
    f: "fx_node (dae_f I) = Inr f" "length (fx_input f) = DAE_NUM_IN"
      "length (fx_output f) = DAE_NUM_OUT"
      "fx_output f ! DAE_ODE = sparsity (input_x0 I)"
      "fx_input f ! DAE_X = sparsity (input_x0 I)"
      "dae_g I = FXNull \<longrightarrow> nrx I = 0 \<and> nrz I = 0 \<and> nrq I = 0 \<and> nrp I = 0"
    by (rule init_forward)
  have nx: "0 \<le> nx I"
    using i by (rule init_dims)
  have k: "DAE_ODE < DAE_NUM_OUT" "RDAE_ODE < RDAE_NUM_OUT" "DAE_P < DAE_NUM_IN"
    "DAE_X < DAE_NUM_IN"
    by (simp_all add: dae_scheme_defs rdae_scheme_defs)
  show thesis
  proof (cases "dae_g I = FXNull")
    case True
    then have z: "nrx I = 0" "nrz I = 0" "nrq I = 0" "nrp I = 0"
      using f(6) by simp_all
    define F1 where
      "F1 = picks (nx I > 0) DAE_NUM_OUT DAE_ODE (fwd_f_res I f nfwd nadj) (nat (nfwd + 1))"
    define G1 where
      "G1 = picks (nx I > 0) DAE_NUM_IN DAE_X (adj_f_res I f nfwd nadj) (nat nadj)"
    note r = getAugmented_forward_only [OF f(1-3) True z n e, folded F1_def G1_def]
    have sF: "sum_list (map rows F1) = last (off_x (getAugOffset I nfwd nadj))"
      unfolding F1_def last_offsets [OF n ir] rows_fwd_f [OF f(3) k(1) n(1)] by (simp add: f(4) z)
    have sG: "sum_list (map rows G1) = last (off_rx (getAugOffset I nfwd nadj))"
      unfolding G1_def last_offsets [OF n ir] rows_adj_f [OF f(3) f(2) k(4)] by (simp add: f(5) z)
    note w2 = output_width(1) [OF sF last_offsets_nonneg(1) [OF n ir]]
    note w3 = output_width(2) [OF sG last_offsets_nonneg(2) [OF n ir]]
    have w1: "output_size1 (dae_f I) DAE_ODE = Inr (int (size1 (sparsity (input_x0 I))))"
      using f(1,3,4) k(1) by (simp add: output_size1_def port_def)
    have w4: "input_size1 (expand_if ex (MXFunction (f_in I t (getAugOffset I nfwd nadj)) outs))
                DAE_P = Inr (int (nat (last (off_p (getAugOffset I nfwd nadj)))))" for ex t outs
      using k(3) by (simp add: input_size1_MXFunction f_in_nth aug_p_def msym_def)
    have l0: "nfwd = 0 \<Longrightarrow> nx I > 0 \<Longrightarrow>
                last (off_x (getAugOffset I nfwd nadj)) = int (size1 (sparsity (input_x0 I)))"
      unfolding last_offsets [OF n ir] by (simp add: z)
    have rhs: "(if dae_g I = FXNull \<and> nfwd = 0 \<and> nx I = 0
                then int (size1 (sparsity (input_x0 I)))
                else last (off_x (getAugOffset I nfwd nadj)))
               = (if nfwd = 0 then int (size1 (sparsity (input_x0 I)))
                  else last (off_x (getAugOffset I nfwd nadj)))"
      using nx l0 True by auto
    show thesis
      by (rule that [OF r]) (simp_all add: rhs w1 w2 w3 w4 n)
  next
    case False
    with i obtain g where
      g: "fx_node (dae_g I) = Inr g" "length (fx_input g) = RDAE_NUM_IN"
        "length (fx_output g) = RDAE_NUM_OUT"
        "fx_output g ! RDAE_ODE = sparsity (input_rx0 I)"
        "fx_input g ! RDAE_RX = sparsity (input_rx0 I)"
      by (rule init_backward_ports)
    note r = getAugmented_backward [OF f(1-3) False g(1-3) n e]
    have sF: "sum_list (map rows (aug_f_ode I f g nfwd nadj))
                = last (off_x (getAugOffset I nfwd nadj))"
      unfolding last_offsets [OF n ir] rows_aug_f_ode [OF f(3) n(1) g(3) g(2)] by (simp add: f(4) g(5))
    have sG: "sum_list (map rows (aug_g_ode I f g nfwd nadj))
                = last (off_rx (getAugOffset I nfwd nadj))"
      unfolding last_offsets [OF n ir] rows_aug_g_ode [OF f(3) f(2) n(1) g(3)] by (simp add: f(5) g(4))
    note w2 = output_width(1) [OF sF last_offsets_nonneg(1) [OF n ir]]
    note w3 = output_width(2) [OF sG last_offsets_nonneg(2) [OF n ir]]
    show thesis
      by (rule that [OF r]) (simp_all add: w2 w3 False)
  qed
qed

text \<open>In the scenario with a backward problem, one adjoint direction builds a backward problem.\<close>

lemma scenario_adjoint_backward_built:
  assumes "getAugmented scenario_adjoint 0 1 = Inr ((a, c), offset)"
  shows "c \<noteq> FXNull"
proof -
  have f: "fx_node (dae_f scenario_adjoint) = Inr scenario_adjoint_f"
    "length (fx_input scenario_adjoint_f) = DAE_NUM_IN"
    "length (fx_output scenario_adjoint_f) = DAE_NUM_OUT"
    by (simp_all add: scenario_adjoint_def scenario_adjoint_f_def dae_scheme_defs)
  have g: "dae_g scenario_adjoint \<noteq> FXNull"
    "fx_node (dae_g scenario_adjoint) = Inr scenario_adjoint_g"
    "length (fx_input scenario_adjoint_g) = RDAE_NUM_IN"
    "length (fx_output scenario_adjoint_g) = RDAE_NUM_OUT"
    by (simp_all add: scenario_adjoint_def scenario_adjoint_g_def rdae_scheme_defs)
  have n: "(0::int) \<le> 0" "(0::int) \<le> 1"
    by simp_all
  have "length (aug_g_ode scenario_adjoint scenario_adjoint_f scenario_adjoint_g 0 1) = 2"
    unfolding aug_g_ode_def
    by (subst length_added) (simp_all add: scenario_adjoint_dims)
  then have ne: "aug_g_ode scenario_adjoint scenario_adjoint_f scenario_adjoint_g 0 1 \<noteq> []"
    by auto
  show ?thesis
    using assms
    unfolding getAugmented_backward [OF f g n scenario_adjoint_options(2)]
    by (auto simp: ne expand_if_def split: if_splits)
qed

text \<open>
  Claim C2. On an initialised integrator, for nfwd \<ge> 0 and nadj \<ge> 0 such that none of
  the eight sums of block sizes exceeds the largest \<^verbatim>\<open>int\<close>, getAugmented returns. The ODE
  output of the forward problem has as many rows as the last element of the x sequence,
  except when \<^verbatim>\<open>f_\<close> is reused (no backward problem, nfwd = 0) for a state without
  structural nonzeros (nx = 0): then it has the rows of the state, while the x sequence
  is [0]. The ODE output of the backward problem, when that is not null, has as many
  rows as the last element of the rx sequence. In the scenario nx = 2, nz = 0, np = 1
  with a state of two rows and a parameter of one row, no backward problem, nfwd = 1 and
  nadj = 0, the forward problem has an ODE output of 4 rows and a parameter input of 2
  rows, and the x sequence is [0, 2, 4].
\<close>

theorem getAugmented_port_widths:
  assumes "init I0 = Inr I" "0 \<le> nfwd" "0 \<le> nadj"
    and "bind (getOption ''expand_augmented'' I) toBool = Inr b"
    and "in_range I nfwd nadj"
  shows "\<exists>a c. getAugmented I nfwd nadj = Inr ((a, c), getAugOffset I nfwd nadj)
      \<and> (if dae_g I = FXNull \<and> nfwd = 0 \<and> nx I = 0
          then output_size1 a DAE_ODE = Inr (int (size1 (sparsity (input_x0 I))))
               \<and> off_x (getAugOffset I nfwd nadj) = [0]
          else output_size1 a DAE_ODE = Inr (last (off_x (getAugOffset I nfwd nadj))))
      \<and> (c \<noteq> FXNull \<longrightarrow>
           output_size1 c RDAE_ODE = Inr (last (off_rx (getAugOffset I nfwd nadj))))
      \<and> (nx I = 2 \<and> nz I = 0 \<and> np I = 1 \<and> dae_g I = FXNull
           \<and> size1 (sparsity (input_x0 I)) = 2 \<and> size1 (sparsity (input_p I)) = 1
           \<and> nfwd = 1 \<and> nadj = 0 \<longrightarrow>
           output_size1 a DAE_ODE = Inr 4 \<and> input_size1 a DAE_P = Inr 2
           \<and> off_x (getAugOffset I nfwd nadj) = [0, 2, 4])"
proof -
  from assms obtain a c where
    r: "getAugmented I nfwd nadj = Inr ((a, c), getAugOffset I nfwd nadj)"
      "output_size1 a DAE_ODE =
         Inr (if dae_g I = FXNull \<and> nfwd = 0 \<and> nx I = 0
              then int (size1 (sparsity (input_x0 I)))
              else last (off_x (getAugOffset I nfwd nadj)))"
      "c \<noteq> FXNull \<longrightarrow> output_size1 c RDAE_ODE = Inr (last (off_rx (getAugOffset I nfwd nadj)))"
      "dae_g I = FXNull \<and> nfwd > 0 \<longrightarrow>
         input_size1 a DAE_P = Inr (int (nat (last (off_p (getAugOffset I nfwd nadj)))))"
    by (rule forward_width)
  from assms(1) obtain f where
    z: "dae_g I = FXNull \<longrightarrow> nrx I = 0 \<and> nrz I = 0 \<and> nrq I = 0 \<and> nrp I = 0"
    by (rule init_forward)
  note x = getAugOffset_exact [OF assms(2,3,5)]
  have e: "off_x (getAugOffset I nfwd nadj) = [0]" if "dae_g I = FXNull" "nx I = 0"
    unfolding x AugOffset.simps
    using that z by (simp add: raw_offsets_def grow_def psums_def)
  have s: "output_size1 a DAE_ODE = Inr 4 \<and> input_size1 a DAE_P = Inr 2
           \<and> off_x (getAugOffset I nfwd nadj) = [0, 2, 4]"
    if h: "nx I = 2" "nz I = 0" "np I = 1" "dae_g I = FXNull"
      "size1 (sparsity (input_x0 I)) = 2" "size1 (sparsity (input_p I)) = 1"
      "nfwd = 1" "nadj = 0"
  proof -
    have n: "nrx I = 0" "nrq I = 0"
      using z h(4) by simp_all
    have x2: "off_x (getAugOffset I nfwd nadj) = [0, 2, 4]"
      unfolding x AugOffset.simps
      using psums_two_blocks(1) by (simp add: h n raw_offsets_def grow_def numeral_2_eq_2)
    have p: "last (off_p (getAugOffset I nfwd nadj)) = 2"
      unfolding last_offsets [OF assms(2,3,5)] by (simp add: h n)
    show ?thesis
      using r(2,4) x2 p by (simp add: h)
  qed
  have w: "if dae_g I = FXNull \<and> nfwd = 0 \<and> nx I = 0
          then output_size1 a DAE_ODE = Inr (int (size1 (sparsity (input_x0 I))))
               \<and> off_x (getAugOffset I nfwd nadj) = [0]
          else output_size1 a DAE_ODE = Inr (last (off_x (getAugOffset I nfwd nadj)))"
  proof (cases "dae_g I = FXNull \<and> nfwd = 0 \<and> nx I = 0")
    case True
    then have g: "dae_g I = FXNull" "nx I = 0"
      by simp_all
    show ?thesis
      by (subst if_P [OF True]) (rule conjI [OF r(2) [unfolded if_P [OF True]] e [OF g]])
  next
    case False
    show ?thesis
      by (subst if_not_P [OF False]) (rule r(2) [unfolded if_not_P [OF False]])
  qed
  show ?thesis
    using r(1) w r(3) s by blast
qed

theorem getAugmented_port_widths_witness:
  "init (IntegratorInternal_ctor (FXRef scenario_forward_f) FXNull) = Inr scenario_forward
   \<and> in_range scenario_forward 1 0
   \<and> nx scenario_forward = 2 \<and> nz scenario_forward = 0 \<and> np scenario_forward = 1
   \<and> dae_g scenario_forward = FXNull
   \<and> size1 (sparsity (input_x0 scenario_forward)) = 2
   \<and> size1 (sparsity (input_p scenario_forward)) = 1
   \<and> (\<exists>a c. getAugmented scenario_forward 1 0 = Inr ((a, c), getAugOffset scenario_forward 1 0)
         \<and> output_size1 a DAE_ODE = Inr 4 \<and> input_size1 a DAE_P = Inr 2
         \<and> off_x (getAugOffset scenario_forward 1 0) = [0, 2, 4])
   \<and> init (IntegratorInternal_ctor (FXRef scenario_adjoint_f) (FXRef scenario_adjoint_g))
       = Inr scenario_adjoint
   \<and> in_range scenario_adjoint 0 1
   \<and> (\<exists>a c. getAugmented scenario_adjoint 0 1 = Inr ((a, c), getAugOffset scenario_adjoint 0 1)
         \<and> c \<noteq> FXNull \<and> output_size1 a DAE_ODE = Inr 2 \<and> output_size1 c RDAE_ODE = Inr 2)
   \<and> init (IntegratorInternal_ctor (FXRef structurally_empty_f) FXNull) = Inr structurally_empty
   \<and> in_range structurally_empty 0 0
   \<and> dae_g structurally_empty = FXNull \<and> nx structurally_empty = 0
   \<and> (\<exists>a c. getAugmented structurally_empty 0 0
               = Inr ((a, c), getAugOffset structurally_empty 0 0)
         \<and> output_size1 a DAE_ODE = Inr 2
         \<and> off_x (getAugOffset structurally_empty 0 0) = [0])"
proof -
  have z: "(0::int) \<le> 1" "(0::int) \<le> 0"
    by simp_all
  have rf: "in_range scenario_forward 1 0"
    by (simp add: in_range_def contribution_def scenario_forward_simps INT_MAX_def)
  have ra: "in_range scenario_adjoint 0 1"
    by (simp add: in_range_def contribution_def scenario_adjoint_dims INT_MAX_def)
  have re: "in_range structurally_empty 0 0"
    by (simp add: in_range_def contribution_def structurally_empty_simps INT_MAX_def)
  have forward:
    "\<exists>a c. getAugmented scenario_forward 1 0 = Inr ((a, c), getAugOffset scenario_forward 1 0)
         \<and> output_size1 a DAE_ODE = Inr 4 \<and> input_size1 a DAE_P = Inr 2
         \<and> off_x (getAugOffset scenario_forward 1 0) = [0, 2, 4]"
    using getAugmented_port_widths [OF init_scenario_forward z scenario_forward_simps(13) rf]
    by (simp add: scenario_forward_simps) blast
  from getAugmented_port_widths [OF init_scenario_adjoint z(2) z(1) scenario_adjoint_options(2)
      ra]
  obtain a c where
    r: "getAugmented scenario_adjoint 0 1 = Inr ((a, c), getAugOffset scenario_adjoint 0 1)"
    and w1: "if dae_g scenario_adjoint = FXNull \<and> (0::int) = 0 \<and> nx scenario_adjoint = 0
          then output_size1 a DAE_ODE = Inr (int (size1 (sparsity (input_x0 scenario_adjoint))))
               \<and> off_x (getAugOffset scenario_adjoint 0 1) = [0]
          else output_size1 a DAE_ODE = Inr (last (off_x (getAugOffset scenario_adjoint 0 1)))"
    and w2: "c \<noteq> FXNull \<longrightarrow>
           output_size1 c RDAE_ODE = Inr (last (off_rx (getAugOffset scenario_adjoint 0 1)))"
    by (elim exE conjE) (rule that, assumption+)
  have c: "c \<noteq> FXNull"
    using r by (rule scenario_adjoint_backward_built)
  have l: "last (off_x (getAugOffset scenario_adjoint 0 1)) = 2"
    "last (off_rx (getAugOffset scenario_adjoint 0 1)) = 2"
    unfolding last_offsets [OF z(2) z(1) ra] by (simp_all add: scenario_adjoint_dims)
  have "output_size1 a DAE_ODE = Inr 2" "output_size1 c RDAE_ODE = Inr 2"
    using w1 w2 c by (simp_all add: l scenario_adjoint_dims)
  then have backward:
    "\<exists>a c. getAugmented scenario_adjoint 0 1 = Inr ((a, c), getAugOffset scenario_adjoint 0 1)
         \<and> c \<noteq> FXNull \<and> output_size1 a DAE_ODE = Inr 2 \<and> output_size1 c RDAE_ODE = Inr 2"
    using r c by (intro conjI exI)
  from getAugmented_port_widths [OF init_structurally_empty z(2) z(2)
      structurally_empty_simps(8) re]
  obtain a' c' where
    r': "getAugmented structurally_empty 0 0
           = Inr ((a', c'), getAugOffset structurally_empty 0 0)"
    and w': "if dae_g structurally_empty = FXNull \<and> (0::int) = 0 \<and> nx structurally_empty = 0
          then output_size1 a' DAE_ODE
                 = Inr (int (size1 (sparsity (input_x0 structurally_empty))))
               \<and> off_x (getAugOffset structurally_empty 0 0) = [0]
          else output_size1 a' DAE_ODE
                 = Inr (last (off_x (getAugOffset structurally_empty 0 0)))"
    by (elim exE conjE) (rule that, assumption+)
  have "output_size1 a' DAE_ODE = Inr 2" "off_x (getAugOffset structurally_empty 0 0) = [0]"
    using w' by (simp_all add: structurally_empty_simps)
  then have empty:
    "\<exists>a c. getAugmented structurally_empty 0 0
               = Inr ((a, c), getAugOffset structurally_empty 0 0)
         \<and> output_size1 a DAE_ODE = Inr 2
         \<and> off_x (getAugOffset structurally_empty 0 0) = [0]"
    using r' by (intro conjI exI)
  show ?thesis
    using forward backward empty rf ra re
    by (simp add: init_scenario_forward init_scenario_adjoint init_structurally_empty
        scenario_forward_simps structurally_empty_simps)
qed

text \<open>
  Claim C2 as stated fails on dense states. A state of one row and two columns has
  nx = 2 and no other dimension; with nfwd = 1 and nadj = 0 the x sequence is [0, 1, 2]
  and the ODE output of the forward problem has 2 rows, not 4. A state of two rows and
  no column has nx = 0: the x sequence is [0], and the forward problem returned for
  nfwd = 0 and nadj = 0 is \<^verbatim>\<open>f_\<close> itself, whose ODE output has two rows.
\<close>

theorem getAugmented_width_counterexample:
  "init (IntegratorInternal_ctor (FXRef row_state_f) FXNull) = Inr row_state
   \<and> nx row_state = 2 \<and> nz row_state = 0 \<and> np row_state = 1 \<and> dae_g row_state = FXNull
   \<and> off_x (getAugOffset row_state 1 0) = [0, 1, 2]
   \<and> (\<exists>a c. getAugmented row_state 1 0 = Inr ((a, c), getAugOffset row_state 1 0)
         \<and> output_size1 a DAE_ODE = Inr 2)
   \<and> init (IntegratorInternal_ctor (FXRef structurally_empty_f) FXNull) = Inr structurally_empty
   \<and> getAugmented structurally_empty 0 0
       = Inr ((FXRef structurally_empty_f, FXNull), getAugOffset structurally_empty 0 0)
   \<and> output_size1 (FXRef structurally_empty_f) DAE_ODE = Inr 2
   \<and> off_x (getAugOffset structurally_empty 0 0) = [0]"
proof -
  have z: "(0::int) \<le> 0" "(0::int) \<le> 1"
    by simp_all
  have n: "fx_node (dae_f structurally_empty) = Inr structurally_empty_f"
    "length (fx_input structurally_empty_f) = DAE_NUM_IN"
    "length (fx_output structurally_empty_f) = DAE_NUM_OUT"
    by (simp_all add: structurally_empty_simps structurally_empty_f_def dae_scheme_defs)
  have w: "output_size1 (FXRef structurally_empty_f) DAE_ODE = Inr 2"
    by (simp add: output_size1_def port_def structurally_empty_f_def dae_scheme_defs)
  have x: "off_x (getAugOffset structurally_empty 0 0) = [0]"
    unfolding getAugOffset_closed AugOffset.simps
    by (simp add: structurally_empty_simps raw_offsets_def grow_def wsums_def psums_def)
  note e = getAugmented_forward_only [OF n structurally_empty_simps(2)
        structurally_empty_simps(4) structurally_empty_simps(5) structurally_empty_simps(6)
        structurally_empty_simps(7) z(1) z(1) structurally_empty_simps(8)]
  have rr: "in_range row_state 1 0"
    by (simp add: in_range_def contribution_def row_state_simps INT_MAX_def)
  have rx: "off_x (getAugOffset row_state 1 0) = [0, 1, 2]"
    unfolding getAugOffset_exact [OF z(2) z(1) rr] AugOffset.simps
    using psums_two_blocks(2)
    by (simp add: row_state_simps raw_offsets_def grow_def numeral_2_eq_2)
  obtain a c where
    r: "getAugmented row_state 1 0 = Inr ((a, c), getAugOffset row_state 1 0)"
      "output_size1 a DAE_ODE =
         Inr (if dae_g row_state = FXNull \<and> (1::int) = 0 \<and> nx row_state = 0
              then int (size1 (sparsity (input_x0 row_state)))
              else last (off_x (getAugOffset row_state 1 0)))"
    by (rule forward_width [OF init_row_state z(2) z(1) row_state_simps(13) rr])
  have "output_size1 a DAE_ODE = Inr 2"
    using r(2) by (simp add: rx)
  then have row:
    "\<exists>a c. getAugmented row_state 1 0 = Inr ((a, c), getAugOffset row_state 1 0)
         \<and> output_size1 a DAE_ODE = Inr 2"
    using r(1) by (intro conjI exI)
  show ?thesis
    using e row
    by (simp add: init_structurally_empty init_row_state structurally_empty_simps
        row_state_simps w x rx)
qed

section \<open>spEvaluate, reverse mode\<close>

text \<open>
  spEvaluate(fwd) with \<open>fwd = false\<close>. (The branch for \<open>fwd = true\<close> calls the structural
  evaluation of the callbacks and the structural solve of the linear solver, which are
  outside the two source files; it is not part of the embedding.) The buffers are read
  and written as \<^verbatim>\<open>bvec_t\<close> words, one per structural nonzero.

  Modelled from the spec: \<^verbatim>\<open>setZeroBV\<close> is a member of the absent matrix class; it sets
  every word of the buffer to zero ("no dependency on initial guess").
\<close>

definition setZeroBV :: "DMatrix \<Rightarrow> DMatrix" where
  "setZeroBV m = m\<lparr>data := map (\<lambda>_. 0) (data m)\<rparr>"

text \<open>
  The inner loops \<^verbatim>\<open>for(int i=0; i<m.size(); ++i) all_depend |= v[i];\<close> and
  \<^verbatim>\<open>for(int i=0; i<m.size(); ++i) v[i] = all_depend;\<close> over one buffer.
\<close>

definition or_all :: "DMatrix \<Rightarrow> bvec_t \<Rightarrow> bvec_t" where
  "or_all m all_depend =
     for_loop 0 (int (dm_size m)) (\<lambda>i all_depend. all_depend OR data m ! nat i) all_depend"

definition assign_all :: "bvec_t \<Rightarrow> DMatrix \<Rightarrow> DMatrix" where
  "assign_all all_depend m =
     m\<lparr>data := for_loop 0 (int (dm_size m)) (\<lambda>i v. v[nat i := all_depend]) (data m)\<rparr>"

text \<open>
  The four outer loops run \<open>k\<close> over 0 and 1 and pick the buffer by \<open>k\<close>.
\<close>

definition spEvaluate_reverse :: "IntegratorInternal \<Rightarrow> IntegratorInternal" where
  "spEvaluate_reverse I =
     (let I = I\<lparr>input_z0 := setZeroBV (input_z0 I)\<rparr>;
          I = I\<lparr>input_rz0 := setZeroBV (input_rz0 I)\<rparr>;
          all_depend = 0;
          all_depend = for_loop 0 2
            (\<lambda>k. or_all (if k = 0 then output_rxf I else output_rqf I)) all_depend;
          I = for_loop 0 2
            (\<lambda>k I. if k = 0 then I\<lparr>input_rx0 := assign_all all_depend (input_rx0 I)\<rparr>
                    else I\<lparr>input_rp := assign_all all_depend (input_rp I)\<rparr>) I;
          all_depend = for_loop 0 2
            (\<lambda>k. or_all (if k = 0 then output_xf I else output_qf I)) all_depend;
          I = for_loop 0 2
            (\<lambda>k I. if k = 0 then I\<lparr>input_x0 := assign_all all_depend (input_x0 I)\<rparr>
                    else I\<lparr>input_p := assign_all all_depend (input_p I)\<rparr>) I
      in I)"

text \<open>
  A buffer is well formed when it holds one word per structural nonzero, as every
  buffer that init allocates does. \<open>or_fold ws\<close> is the bitwise OR of the words \<open>ws\<close>.
\<close>

definition well_formed :: "DMatrix \<Rightarrow> bool" where
  "well_formed m = (length (data m) = dm_size m)"

definition or_fold :: "bvec_t list \<Rightarrow> bvec_t" where
  "or_fold ws = fold (\<lambda>w a. a OR w) ws 0"

text \<open>
  The integrator of the scenario above after init, with bit 0 set in the one word of
  its input buffer x0; all output buffers are zero.
\<close>

definition seeded_x0 :: IntegratorInternal where
  "seeded_x0 = scenario_adjoint\<lparr>input_x0 := \<lparr>sparsity = sp_dense 1 1, data = [1]\<rparr>\<rparr>"

subsection \<open>Closed form\<close>

lemma fold_or_acc: "fold (\<lambda>w a. a OR w) ws (a::bvec_t) = a OR fold (\<lambda>w a. a OR w) ws 0"
proof (induction ws arbitrary: a)
  case Nil
  show ?case by simp
next
  case (Cons w ws)
  have "fold (\<lambda>w a. a OR w) (w # ws) a = (a OR w) OR fold (\<lambda>w a. a OR w) ws 0"
    using Cons [of "a OR w"] by simp
  also have "\<dots> = a OR (w OR fold (\<lambda>w a. a OR w) ws 0)"
    by (simp add: ac_simps)
  also have "\<dots> = a OR fold (\<lambda>w a. a OR w) (w # ws) 0"
    using Cons [of "0 OR w"] by simp
  finally show ?case .
qed

lemma or_all_closed:
  assumes "well_formed m"
  shows "or_all m a = a OR or_fold (data m)"
proof -
  have "or_all m a = fold (\<lambda>k a. a OR data m ! k) [0..<length (data m)] a"
    using assms by (simp add: or_all_def well_formed_def for_loop_nat)
  also have "\<dots> = fold (\<lambda>w a. a OR w) (map (nth (data m)) [0..<length (data m)]) a"
    by (simp add: fold_map comp_def)
  also have "\<dots> = fold (\<lambda>w a. a OR w) (data m) a"
    by (simp add: map_nth)
  finally show ?thesis
    using fold_or_acc [of "data m" a] by (simp add: or_fold_def)
qed

lemma or_fold_append: "or_fold (u @ v) = or_fold u OR or_fold v"
  using fold_or_acc [of v "or_fold u"] by (simp add: or_fold_def)

lemma bit_or_fold: "bit (or_fold ws) n \<longleftrightarrow> (\<exists>w \<in> set ws. bit w n)"
proof (induction ws rule: rev_induct)
  case Nil
  show ?case by (simp add: or_fold_def)
next
  case (snoc w ws)
  have "or_fold (ws @ [w]) = or_fold ws OR w"
    by (simp add: or_fold_def)
  with snoc show ?case by (auto simp: bit_or_iff)
qed

lemma fill_loop:
  "k \<le> length v \<Longrightarrow> fold (\<lambda>i v. v[i := a]) [0..<k] v = replicate k a @ drop k v"
proof (induction k)
  case 0
  show ?case by simp
next
  case (Suc k)
  then have "fold (\<lambda>i v. v[i := a]) [0..<Suc k] v = (replicate k a @ drop k v)[k := a]"
    by simp
  also have "\<dots> = replicate k a @ (drop k v)[0 := a]"
    by (simp add: list_update_append)
  also have "(drop k v)[0 := a] = a # drop (Suc k) v"
    using Suc.prems by (simp add: Cons_nth_drop_Suc [symmetric])
  finally show ?case by (simp add: replicate_append_same)
qed

lemma assign_all_closed:
  assumes "well_formed m"
  shows "assign_all a m = m\<lparr>data := replicate (length (data m)) a\<rparr>"
  using assms fill_loop [of "length (data m)" "data m" a]
  by (simp add: assign_all_def well_formed_def for_loop_nat)

lemma well_formed_assign_all: "well_formed m \<Longrightarrow> well_formed (assign_all a m)"
  by (simp add: assign_all_closed) (simp add: well_formed_def dm_size_def)

lemma well_formed_zeros [simp]: "well_formed (zeros sp)"
  by (simp add: well_formed_def dm_size_def)

lemma or_fold_zeros [simp]: "or_fold (replicate n 0) = 0"
  by (induction n) (simp_all add: or_fold_def)

lemma or_fold_Nil [simp]: "or_fold [] = 0"
  by (simp add: or_fold_def)

lemma spEvaluate_reverse_closed:
  assumes "well_formed (output_rxf I)" "well_formed (output_rqf I)"
    "well_formed (output_xf I)" "well_formed (output_qf I)"
    "well_formed (input_rx0 I)" "well_formed (input_rp I)"
    "well_formed (input_x0 I)" "well_formed (input_p I)"
  shows "spEvaluate_reverse I =
    I\<lparr>input_z0 := setZeroBV (input_z0 I),
      input_rz0 := setZeroBV (input_rz0 I),
      input_rx0 := (input_rx0 I)\<lparr>data := replicate (length (data (input_rx0 I)))
          (or_fold (data (output_rxf I) @ data (output_rqf I)))\<rparr>,
      input_rp := (input_rp I)\<lparr>data := replicate (length (data (input_rp I)))
          (or_fold (data (output_rxf I) @ data (output_rqf I)))\<rparr>,
      input_x0 := (input_x0 I)\<lparr>data := replicate (length (data (input_x0 I)))
          (or_fold (data (output_rxf I) @ data (output_rqf I)
                    @ data (output_xf I) @ data (output_qf I)))\<rparr>,
      input_p := (input_p I)\<lparr>data := replicate (length (data (input_p I)))
          (or_fold (data (output_rxf I) @ data (output_rqf I)
                    @ data (output_xf I) @ data (output_qf I)))\<rparr>\<rparr>"
  unfolding spEvaluate_reverse_def Let_def for_loop_0_2
  by (simp add: or_all_closed assign_all_closed assms or_fold_append ac_simps)

lemma seeded_x0_buffers:
  "well_formed (output_rxf seeded_x0)" "well_formed (output_rqf seeded_x0)"
  "well_formed (output_xf seeded_x0)" "well_formed (output_qf seeded_x0)"
  "well_formed (input_rx0 seeded_x0)" "well_formed (input_rp seeded_x0)"
  "well_formed (input_x0 seeded_x0)" "well_formed (input_p seeded_x0)"
  "data (output_rxf seeded_x0) = [0]" "data (output_rqf seeded_x0) = []"
  "data (output_xf seeded_x0) = [0]" "data (output_qf seeded_x0) = []"
  "data (input_x0 seeded_x0) = [1]"
  by (simp_all add: seeded_x0_def scenario_adjoint_def scenario_adjoint_f_def
      scenario_adjoint_g_def dae_scheme_defs rdae_scheme_defs)
    (simp_all add: well_formed_def dm_size_def)

text \<open>
  Claim C8, as the code has it. In reverse mode the accumulator is built by bitwise OR
  only (a bit of it is set exactly when it is set in one of the words read), and no
  output buffer changes. The input buffers are overwritten rather than OR-ed: every
  word of rx0 and rp becomes the OR of all words of rxf and rqf, every word of x0 and p
  becomes the OR of all words of rxf, rqf, xf and qf, and z0 and rz0 become zero.
\<close>

theorem spEvaluate_reverse_effect:
  assumes "well_formed (output_rxf I)" "well_formed (output_rqf I)"
    "well_formed (output_xf I)" "well_formed (output_qf I)"
    "well_formed (input_rx0 I)" "well_formed (input_rp I)"
    "well_formed (input_x0 I)" "well_formed (input_p I)"
  shows "output_xf (spEvaluate_reverse I) = output_xf I
       \<and> output_qf (spEvaluate_reverse I) = output_qf I
       \<and> output_zf (spEvaluate_reverse I) = output_zf I
       \<and> output_rxf (spEvaluate_reverse I) = output_rxf I
       \<and> output_rqf (spEvaluate_reverse I) = output_rqf I
       \<and> output_rzf (spEvaluate_reverse I) = output_rzf I
       \<and> data (input_rx0 (spEvaluate_reverse I)) =
            replicate (length (data (input_rx0 I)))
              (or_fold (data (output_rxf I) @ data (output_rqf I)))
       \<and> data (input_rp (spEvaluate_reverse I)) =
            replicate (length (data (input_rp I)))
              (or_fold (data (output_rxf I) @ data (output_rqf I)))
       \<and> data (input_x0 (spEvaluate_reverse I)) =
            replicate (length (data (input_x0 I)))
              (or_fold (data (output_rxf I) @ data (output_rqf I)
                        @ data (output_xf I) @ data (output_qf I)))
       \<and> data (input_p (spEvaluate_reverse I)) =
            replicate (length (data (input_p I)))
              (or_fold (data (output_rxf I) @ data (output_rqf I)
                        @ data (output_xf I) @ data (output_qf I)))
       \<and> data (input_z0 (spEvaluate_reverse I)) = replicate (length (data (input_z0 I))) 0
       \<and> data (input_rz0 (spEvaluate_reverse I)) = replicate (length (data (input_rz0 I))) 0
       \<and> (\<forall>ws n. bit (or_fold ws) n \<longleftrightarrow> (\<exists>w \<in> set ws. bit w n))"
  unfolding spEvaluate_reverse_closed [OF assms]
  by (simp add: setZeroBV_def bit_or_fold map_replicate_const)

theorem spEvaluate_reverse_effect_witness:
  "well_formed (output_rxf seeded_x0) \<and> well_formed (output_rqf seeded_x0)
   \<and> well_formed (output_xf seeded_x0) \<and> well_formed (output_qf seeded_x0)
   \<and> well_formed (input_rx0 seeded_x0) \<and> well_formed (input_rp seeded_x0)
   \<and> well_formed (input_x0 seeded_x0) \<and> well_formed (input_p seeded_x0)
   \<and> output_xf (spEvaluate_reverse seeded_x0) = output_xf seeded_x0
   \<and> data (input_x0 (spEvaluate_reverse seeded_x0)) = [0]"
  using spEvaluate_reverse_effect [OF seeded_x0_buffers(1-8)]
  by (simp add: seeded_x0_buffers or_fold_def)

text \<open>
  Claim C8 as stated fails: with all outputs zero, the bit that was set in x0 before the
  call is cleared by it.
\<close>

theorem spEvaluate_reverse_clears_counterexample:
  "data (input_x0 seeded_x0) = [1]
   \<and> data (input_x0 (spEvaluate_reverse seeded_x0)) = [0]
   \<and> bit (data (input_x0 seeded_x0) ! 0) 0
   \<and> \<not> bit (data (input_x0 (spEvaluate_reverse seeded_x0)) ! 0) 0"
  unfolding spEvaluate_reverse_closed [OF seeded_x0_buffers(1-8)]
  by (simp add: seeded_x0_buffers or_fold_def)

section \<open>getDerivative\<close>









text \<open>
  The callee of a call in the function that getDerivative returns is the initialised
  integrator of the augmented problem; \<open>integrator_output J k\<close> is the sparsity of its
  output \<open>k\<close>.
\<close>

type_synonym MX2 = "IntegratorInternal MX"












definition integrator_call :: "IntegratorInternal \<Rightarrow> MX2 list \<Rightarrow> MX2 list" where
  "integrator_call integrator arg = map (CallOut integrator arg) [0..<INTEGRATOR_NUM_OUT]"




subsection \<open>One adjoint direction\<close>










lemma pick_vertsplit:
  "c \<longrightarrow> Suc j < length offs \<Longrightarrow>
     mx_size1 r (pick c (vertsplit e offs) j) = (if c then offs ! Suc j - offs ! j else 0)"
  by (auto simp: pick_def vertsplit_def)

lemma primal_block_rows:
  "c1 \<Longrightarrow> psums (raw_offsets c1 (Suc 0) n1 c2 (Suc 0) n2) ! Suc 0
           - psums (raw_offsets c1 (Suc 0) n1 c2 (Suc 0) n2) ! 0 = int n1"
  by (simp add: psums_def raw_offsets_def grow_def)





subsection \<open>The function returned for one adjoint direction\<close>




lemma integrator_call_outputs:
  "integrator_call J arg =
     [CallOut J arg INTEGRATOR_XF, CallOut J arg INTEGRATOR_QF, CallOut J arg INTEGRATOR_ZF,
      CallOut J arg INTEGRATOR_RXF, CallOut J arg INTEGRATOR_RQF, CallOut J arg INTEGRATOR_RZF]"
  by (simp add: integrator_call_def integrator_scheme_defs upt_rec)




subsection \<open>The integrator of the augmented problem\<close>

















lemma expand_if_built [simp]: "expand_if e (MXFunction ins outs) \<noteq> FXNull"
  by (simp add: expand_if_def)








lemma length_raw_offsets:
  "length (raw_offsets c1 k1 n1 c2 k2 n2)
     = Suc ((if c1 then k1 else 0) + (if c2 then k2 else 0))"
  by (simp add: raw_offsets_def grow_def)





















end
